theory Spec2Isabelle
  imports Complex_Main "HOL-Library.AList"
begin

section \<open>Values, dictionaries and exceptions\<close>

text \<open>
  The calculators of \<^verbatim>\<open>app_paridade_produtos.py\<close> take two Python dictionaries
  (\<^verbatim>\<open>inputs\<close>, \<^verbatim>\<open>globais\<close>) from parameter names to numbers and return a
  dictionary with the two keys \<^verbatim>\<open>'values'\<close> and \<^verbatim>\<open>'errors'\<close>.

  Numbers are modelled twice. In the first model Python's \<^verbatim>\<open>float\<close> (and the \<^verbatim>\<open>int\<close>
  defaults \<^verbatim>\<open>0\<close>, \<^verbatim>\<open>1\<close> and constants such as \<^verbatim>\<open>20\<close>) are read as the real
  numbers they denote; it serves the properties that rounding does not touch: which
  branch is taken, which key holds which expression, whether an exception is raised.
  Properties that rounding decides (equality of two values computed by different
  expressions, the value of a product of decimal literals, a tolerance) are stated in the
  second model, introduced in the section on binary64 arithmetic, where every operation is
  rounded to IEEE 754 binary64 and the infinities and NaN are values.
  A Python \<^verbatim>\<open>str\<close> is a list of code points; every code point used by the program is
  below 256, so it is one \<^typ>\<open>char\<close> (for example U+00E2 is \<^term>\<open>CHR 0xE2\<close>).
\<close>

type_synonym params = "string \<rightharpoonup> real"

datatype pyval = Num real | Str string | Dict "(string \<times> pyval) list"

type_synonym pydict = "(string \<times> pyval) list"

record result =
  "values" :: pydict
  errors :: "string list"

text \<open>\<^verbatim>\<open>d.get(k, default)\<close>\<close>

definition dict_get :: "params \<Rightarrow> string \<Rightarrow> real \<Rightarrow> real" where
  "dict_get d k dflt = (case d k of None \<Rightarrow> dflt | Some v \<Rightarrow> v)"

text \<open>
  \<^verbatim>\<open>d[k] = v\<close> on an insertion-ordered dictionary: an existing key keeps its place,
  a new key goes to the end.
\<close>

definition dict_set :: "pydict \<Rightarrow> string \<Rightarrow> pyval \<Rightarrow> pydict" where
  "dict_set d k v = AList.update k v d"

text \<open>\<^verbatim>\<open>d.get(k)\<close>, with \<^term>\<open>None\<close> for a missing key.\<close>

definition dict_lookup :: "pydict \<Rightarrow> string \<Rightarrow> pyval option" where
  "dict_lookup d k = map_of d k"

text \<open>
  The only operation of the calculators that can raise on numbers is true division
  \<^verbatim>\<open>a / b\<close>, which raises \<^verbatim>\<open>ZeroDivisionError\<close> when \<^verbatim>\<open>b == 0\<close>.
\<close>

datatype exn = ZeroDivisionError

fun exn_str :: "exn \<Rightarrow> string" where
  "exn_str ZeroDivisionError = ''float division by zero''"

definition py_truediv :: "real \<Rightarrow> real \<Rightarrow> exn + real" where
  "py_truediv a b = (if b = 0 then Inl ZeroDivisionError else Inr (a / b))"

text \<open>Sequencing of statements that may raise: the first exception ends the block.\<close>

definition bind_exn :: "exn + 'a \<Rightarrow> ('a \<Rightarrow> exn + 'b) \<Rightarrow> exn + 'b" where
  "bind_exn m f = (case m of Inl e \<Rightarrow> Inl e | Inr x \<Rightarrow> f x)"

text \<open>
  Every calculator has the shape
  \<^verbatim>\<open>
  errors = []; values = {}
  try:
      ... reads, validation (early return), arithmetic, stores into values ...
  except Exception as e:
      errors.append(f"<prefix>: {str(e)}")
  return {'values': values, 'errors': errors}
  \<close>
  The \<^verbatim>\<open>try\<close> block is a function into \<^typ>\<open>exn + result\<close>: \<^term>\<open>Inr r\<close> when it
  returns early or runs to its end (\<open>r\<close> holds \<^verbatim>\<open>values\<close> and \<^verbatim>\<open>errors\<close> at that
  point), \<^term>\<open>Inl e\<close> when a statement raises \<open>e\<close>. In every calculator all stores into
  \<^verbatim>\<open>values\<close> come after the last statement that can raise, and nothing is appended to
  \<^verbatim>\<open>errors\<close> before it, so the handler always runs with \<^verbatim>\<open>values == {}\<close> and
  \<^verbatim>\<open>errors == []\<close>.
\<close>

definition try_except :: "exn + result \<Rightarrow> string \<Rightarrow> result" where
  "try_except block prefix =
     (case block of
        Inr r \<Rightarrow> r
      | Inl e \<Rightarrow> \<lparr>values = [], errors = [] @ [prefix @ '': '' @ exn_str e]\<rparr>)"

section \<open>Constants\<close>

definition FATOR_CONVERSAO_CENTS_LB_PARA_TON :: real where
  "FATOR_CONVERSAO_CENTS_LB_PARA_TON = 22.0462"

definition SACAS_POR_TON :: real where
  "SACAS_POR_TON = 20"

definition FATOR_ETANOL_ANIDRO_LITROS_POR_SACA :: real where
  "FATOR_ETANOL_ANIDRO_LITROS_POR_SACA = 32.669"

definition FATOR_ETANOL_HIDRATADO_LITROS_POR_SACA :: real where
  "FATOR_ETANOL_HIDRATADO_LITROS_POR_SACA = 31.304"

definition FATOR_ETANOL_ANIDRO_MI_LITROS_POR_SACA :: real where
  "FATOR_ETANOL_ANIDRO_MI_LITROS_POR_SACA = 33.712"

definition FATOR_ETANOL_HIDRATADO_MI_LITROS_POR_SACA :: real where
  "FATOR_ETANOL_HIDRATADO_MI_LITROS_POR_SACA = 31.504"

definition FATOR_CONVERSAO_HIDRATADO :: real where
  "FATOR_CONVERSAO_HIDRATADO = 0.0769"

definition FATOR_CBIO_FC_ANIDRO :: real where
  "FATOR_CBIO_FC_ANIDRO = 712.4"

definition FATOR_CBIO_FC_HIDRATADO :: real where
  "FATOR_CBIO_FC_HIDRATADO = 749.75"

definition CREDITO_TRIBUTARIO :: real where
  "CREDITO_TRIBUTARIO = 240"

definition FATOR_AJUSTE_ETANOL :: real where
  "FATOR_AJUSTE_ETANOL = 1.042"

text \<open>The validation message \<^verbatim>\<open>"C\<close>U+00E2\<^verbatim>\<open>mbio deve ser maior que zero"\<close>.\<close>

definition msg_cambio :: string where
  "msg_cambio = ''C'' @ [CHR 0xE2] @ ''mbio deve ser maior que zero''"

section \<open>VHP sugar\<close>

text \<open>The breakdown dictionaries \<^verbatim>\<open>desenvolvimento['passo1'..'passo4']\<close>.\<close>

definition vhp_passo1 :: "real \<Rightarrow> real \<Rightarrow> real \<Rightarrow> real \<Rightarrow> pyval" where
  "vhp_passo1 acucar_ny_cents_lb premio_desconto premio_pol_percentual
       sugar_ny_mais_pol_cents_lb =
     Dict [
       (''descricao'', Str (''C'' @ [CHR 0xE1] @ ''lculo Sugar NY + Pol'')),
       (''formula'', Str (''(A'' @ [CHR 0xE7, CHR 0xFA] @ ''car NY + Pr'' @ [CHR 0xEA]
            @ ''mio/Desconto) '' @ [CHR 0xD7] @ '' (1 + Pr'' @ [CHR 0xEA] @ ''mio Pol%)'')),
       (''valores'', Dict [
          (''acucar_ny_cents_lb'', Num acucar_ny_cents_lb),
          (''premio_desconto_cents_lb'', Num premio_desconto),
          (''premio_pol_percentual'', Num premio_pol_percentual),
          (''soma_ny_premio'', Num (acucar_ny_cents_lb + premio_desconto)),
          (''fator_pol'', Num (1 + premio_pol_percentual)),
          (''resultado_cents_lb'', Num sugar_ny_mais_pol_cents_lb)])]"

definition vhp_passo2 ::
  "real \<Rightarrow> real \<Rightarrow> real \<Rightarrow> real \<Rightarrow> real \<Rightarrow> real \<Rightarrow> real \<Rightarrow> real \<Rightarrow> real \<Rightarrow> pyval" where
  "vhp_passo2 sugar_ny_mais_pol_cents_lb sugar_ny_mais_pol_usd_ton custo_terminal_usd_ton
       frete_brl_ton cambio_brl_usd frete_usd_ton valor_usd_ton valor_usd_saca
       equivalente_vhp_reais_saca_pvu =
     Dict [
       (''descricao'', Str (''C'' @ [CHR 0xE1] @ ''lculo Equivalente VHP Reais/saca PVU'')),
       (''formula'', Str (''(((Sugar NY+pol '' @ [CHR 0xD7]
            @ '' 22.0462) - Custo Terminal - (Frete BRL/ton '' @ [CHR 0xF7] @ '' C''
            @ [CHR 0xE2] @ ''mbio)) '' @ [CHR 0xF7] @ '' 20) '' @ [CHR 0xD7] @ '' C''
            @ [CHR 0xE2] @ ''mbio'')),
       (''valores'', Dict [
          (''sugar_ny_mais_pol_cents_lb'', Num sugar_ny_mais_pol_cents_lb),
          (''fator_conversao'', Num FATOR_CONVERSAO_CENTS_LB_PARA_TON),
          (''sugar_ny_mais_pol_usd_ton'', Num sugar_ny_mais_pol_usd_ton),
          (''custo_terminal_usd_ton'', Num custo_terminal_usd_ton),
          (''frete_brl_ton'', Num frete_brl_ton),
          (''cambio_brl_usd'', Num cambio_brl_usd),
          (''frete_usd_ton'', Num frete_usd_ton),
          (''valor_usd_ton'', Num valor_usd_ton),
          (''sacas_por_ton'', Num SACAS_POR_TON),
          (''valor_usd_saca'', Num valor_usd_saca),
          (''resultado_brl_saca'', Num equivalente_vhp_reais_saca_pvu)])]"

definition vhp_passo3 :: "real \<Rightarrow> real \<Rightarrow> real \<Rightarrow> pyval" where
  "vhp_passo3 equivalente_vhp_reais_saca_pvu cambio_brl_usd equivalente_vhp_cents_lb_pvu =
     Dict [
       (''descricao'', Str (''C'' @ [CHR 0xE1] @ ''lculo Equivalente VHP c/lb PVU'')),
       (''formula'', Str (''((Equivalente VHP Reais/saca PVU '' @ [CHR 0xD7] @ '' 20) ''
            @ [CHR 0xF7] @ '' 22.0462) '' @ [CHR 0xF7] @ '' C'' @ [CHR 0xE2] @ ''mbio'')),
       (''valores'', Dict [
          (''equivalente_vhp_reais_saca_pvu'', Num equivalente_vhp_reais_saca_pvu),
          (''sacas_por_ton'', Num SACAS_POR_TON),
          (''fator_conversao'', Num FATOR_CONVERSAO_CENTS_LB_PARA_TON),
          (''cambio_brl_usd'', Num cambio_brl_usd),
          (''resultado_cents_lb_pvu'', Num equivalente_vhp_cents_lb_pvu)])]"

definition vhp_passo4 :: "real \<Rightarrow> real \<Rightarrow> pyval" where
  "vhp_passo4 sugar_ny_mais_pol_cents_lb equivalente_vhp_cents_lb_fob =
     Dict [
       (''descricao'', Str ''Equivalente VHP c/lb FOB''),
       (''formula'', Str ''Igual ao Sugar NY + Pol''),
       (''valores'', Dict [
          (''sugar_ny_mais_pol_cents_lb'', Num sugar_ny_mais_pol_cents_lb),
          (''resultado_cents_lb_fob'', Num equivalente_vhp_cents_lb_fob)])]"

text \<open>The \<^verbatim>\<open>try\<close> block of \<^verbatim>\<open>calc_acucar_vhp_detalhado\<close>.\<close>

definition calc_acucar_vhp_detalhado_try :: "params \<Rightarrow> params \<Rightarrow> exn + result" where
  "calc_acucar_vhp_detalhado_try inputs globais =
    (let acucar_ny_cents_lb = dict_get inputs ''acucar_ny_cents_lb'' 0;
         premio_desconto = dict_get inputs ''premio_desconto'' 0;
         premio_pol = dict_get inputs ''premio_pol'' 0;
         custo_terminal_usd_ton = dict_get inputs ''custo_terminal_usd_ton'' 0;
         frete_brl_ton = dict_get inputs ''frete_brl_ton'' 0;
         cambio_brl_usd = dict_get globais ''cambio_brl_usd'' 1
     in
     if cambio_brl_usd \<le> 0 then Inr \<lparr>values = [], errors = [] @ [msg_cambio]\<rparr>
     else
     bind_exn (if premio_pol > 1 then py_truediv premio_pol 100 else Inr premio_pol)
       (\<lambda>premio_pol_percentual.
     let sugar_ny_mais_pol_cents_lb =
           (acucar_ny_cents_lb + premio_desconto) * (1 + premio_pol_percentual);
         desenvolvimento1 = dict_set [] ''passo1''
           (vhp_passo1 acucar_ny_cents_lb premio_desconto premio_pol_percentual
              sugar_ny_mais_pol_cents_lb);
         sugar_ny_mais_pol_usd_ton =
           sugar_ny_mais_pol_cents_lb * FATOR_CONVERSAO_CENTS_LB_PARA_TON
     in
     bind_exn (py_truediv frete_brl_ton cambio_brl_usd) (\<lambda>frete_usd_ton.
     let valor_usd_ton = sugar_ny_mais_pol_usd_ton - custo_terminal_usd_ton - frete_usd_ton
     in
     bind_exn (py_truediv valor_usd_ton SACAS_POR_TON) (\<lambda>valor_usd_saca.
     let equivalente_vhp_reais_saca_pvu = valor_usd_saca * cambio_brl_usd;
         desenvolvimento2 = dict_set desenvolvimento1 ''passo2''
           (vhp_passo2 sugar_ny_mais_pol_cents_lb sugar_ny_mais_pol_usd_ton
              custo_terminal_usd_ton frete_brl_ton cambio_brl_usd frete_usd_ton
              valor_usd_ton valor_usd_saca equivalente_vhp_reais_saca_pvu)
     in
     bind_exn (py_truediv (equivalente_vhp_reais_saca_pvu * SACAS_POR_TON)
                 FATOR_CONVERSAO_CENTS_LB_PARA_TON) (\<lambda>t.
     bind_exn (py_truediv t cambio_brl_usd) (\<lambda>equivalente_vhp_cents_lb_pvu.
     let desenvolvimento3 = dict_set desenvolvimento2 ''passo3''
           (vhp_passo3 equivalente_vhp_reais_saca_pvu cambio_brl_usd
              equivalente_vhp_cents_lb_pvu);
         equivalente_vhp_cents_lb_fob = sugar_ny_mais_pol_cents_lb;
         desenvolvimento4 = dict_set desenvolvimento3 ''passo4''
           (vhp_passo4 sugar_ny_mais_pol_cents_lb equivalente_vhp_cents_lb_fob);
         values1 = dict_set [] ''sugar_ny_mais_pol_cents_lb''
           (Num sugar_ny_mais_pol_cents_lb);
         values2 = dict_set values1 ''equivalente_vhp_reais_saca_pvu''
           (Num equivalente_vhp_reais_saca_pvu);
         values3 = dict_set values2 ''equivalente_vhp_cents_lb_pvu''
           (Num equivalente_vhp_cents_lb_pvu);
         values4 = dict_set values3 ''equivalente_vhp_cents_lb_fob''
           (Num equivalente_vhp_cents_lb_fob);
         values5 = dict_set values4 ''desenvolvimento'' (Dict desenvolvimento4)
     in Inr \<lparr>values = values5, errors = []\<rparr>))))))"

definition calc_acucar_vhp_detalhado :: "params \<Rightarrow> params \<Rightarrow> result" where
  "calc_acucar_vhp_detalhado inputs globais =
     try_except (calc_acucar_vhp_detalhado_try inputs globais)
       (''Erro ao calcular a'' @ [CHR 0xE7, CHR 0xFA] @ ''car VHP'')"

section \<open>Crystal sugar, ESALQ reference\<close>

definition calc_acucar_cristal_esalq_try :: "params \<Rightarrow> params \<Rightarrow> exn + result" where
  "calc_acucar_cristal_esalq_try inputs globais =
    (let preco_esalq_brl_saca = dict_get inputs ''preco_esalq_brl_saca'' 0;
         imposto = dict_get inputs ''imposto'' 0;
         frete_santos_usina_brl_ton = dict_get inputs ''frete_santos_usina_brl_ton'' 0;
         custo_fobizacao_container_brl_ton =
           dict_get inputs ''custo_fobizacao_container_brl_ton'' 0;
         custo_vhp_para_cristal = dict_get inputs ''custo_vhp_para_cristal'' 0;
         cambio_brl_usd = dict_get globais ''cambio_brl_usd'' 1;
         custo_terminal_usd_ton = dict_get globais ''custo_terminal_usd_ton'' 0
     in
     if cambio_brl_usd \<le> 0 then Inr \<lparr>values = [], errors = [] @ [msg_cambio]\<rparr>
     else
     bind_exn (if imposto > 1 then py_truediv imposto 100 else Inr imposto)
       (\<lambda>imposto_percentual.
     let equivalente_cristal_reais_saca_pvu = preco_esalq_brl_saca * (1 - imposto_percentual);
         equivalente_vhp_reais_saca_pvu =
           equivalente_cristal_reais_saca_pvu - custo_vhp_para_cristal
     in
     bind_exn (py_truediv (equivalente_vhp_reais_saca_pvu * SACAS_POR_TON)
                 FATOR_CONVERSAO_CENTS_LB_PARA_TON) (\<lambda>t1.
     bind_exn (py_truediv t1 cambio_brl_usd) (\<lambda>equivalente_vhp_cents_lb_pvu.
     let custo_terminal_brl_ton = custo_terminal_usd_ton * cambio_brl_usd
     in
     bind_exn (py_truediv
                 ((equivalente_vhp_reais_saca_pvu * SACAS_POR_TON)
                    + frete_santos_usina_brl_ton + custo_terminal_brl_ton)
                 FATOR_CONVERSAO_CENTS_LB_PARA_TON) (\<lambda>t2.
     bind_exn (py_truediv t2 cambio_brl_usd) (\<lambda>equivalente_vhp_cents_lb_fob.
     bind_exn (py_truediv (equivalente_cristal_reais_saca_pvu * SACAS_POR_TON)
                 FATOR_CONVERSAO_CENTS_LB_PARA_TON) (\<lambda>t3.
     bind_exn (py_truediv t3 cambio_brl_usd) (\<lambda>t4.
     bind_exn (py_truediv 15 FATOR_CONVERSAO_CENTS_LB_PARA_TON) (\<lambda>t5.
     bind_exn (py_truediv t5 cambio_brl_usd) (\<lambda>t6.
     let equivalente_cristal_cents_lb_pvu = t4 - t6
     in
     bind_exn (py_truediv
                 ((equivalente_cristal_reais_saca_pvu * SACAS_POR_TON)
                    + frete_santos_usina_brl_ton + custo_fobizacao_container_brl_ton)
                 22.04622) (\<lambda>t7.
     bind_exn (py_truediv t7 cambio_brl_usd) (\<lambda>equivalente_cristal_cents_lb_fob.
     let values1 = dict_set [] ''equivalente_cristal_reais_saca_pvu''
           (Num equivalente_cristal_reais_saca_pvu);
         values2 = dict_set values1 ''equivalente_vhp_reais_saca_pvu''
           (Num equivalente_vhp_reais_saca_pvu);
         values3 = dict_set values2 ''equivalente_vhp_cents_lb_pvu''
           (Num equivalente_vhp_cents_lb_pvu);
         values4 = dict_set values3 ''equivalente_vhp_cents_lb_fob''
           (Num equivalente_vhp_cents_lb_fob);
         values5 = dict_set values4 ''equivalente_cristal_cents_lb_pvu''
           (Num equivalente_cristal_cents_lb_pvu);
         values6 = dict_set values5 ''equivalente_cristal_cents_lb_fob''
           (Num equivalente_cristal_cents_lb_fob)
     in Inr \<lparr>values = values6, errors = []\<rparr>))))))))))))"

definition calc_acucar_cristal_esalq :: "params \<Rightarrow> params \<Rightarrow> result" where
  "calc_acucar_cristal_esalq inputs globais =
     try_except (calc_acucar_cristal_esalq_try inputs globais)
       (''Erro ao calcular a'' @ [CHR 0xE7, CHR 0xFA] @ ''car cristal ESALQ'')"

section \<open>Crystal sugar: domestic parity against NY, export, export malha 30\<close>

definition calc_paridade_comercializacao_mi_ny_try ::
  "params \<Rightarrow> params \<Rightarrow> exn + result" where
  "calc_paridade_comercializacao_mi_ny_try inputs globais =
    (let acucar_ny_cents_lb = dict_get inputs ''acucar_ny_cents_lb'' 0;
         premio_fisico_mi = dict_get inputs ''premio_fisico_mi'' 0;
         cambio_brl_usd = dict_get globais ''cambio_brl_usd'' 1;
         custo_terminal_usd_ton = dict_get globais ''custo_terminal_usd_ton'' 0;
         frete_santos_usina_brl_ton = dict_get globais ''frete_santos_usina_brl_ton'' 0;
         custo_fobizacao_container_brl_ton =
           dict_get globais ''custo_fobizacao_container_brl_ton'' 0;
         custo_vhp_para_cristal = dict_get globais ''custo_vhp_para_cristal'' 0
     in
     if cambio_brl_usd \<le> 0 then Inr \<lparr>values = [], errors = [] @ [msg_cambio]\<rparr>
     else
     let acucar_ny_usd_ton = acucar_ny_cents_lb * 22.04622;
         acucar_com_premio_usd_ton = acucar_ny_usd_ton + premio_fisico_mi;
         acucar_com_premio_brl_ton = acucar_com_premio_usd_ton * cambio_brl_usd
     in
     bind_exn (py_truediv acucar_com_premio_brl_ton SACAS_POR_TON)
       (\<lambda>equivalente_cristal_reais_saca_pvu.
     let equivalente_vhp_reais_saca_pvu =
           equivalente_cristal_reais_saca_pvu - custo_vhp_para_cristal
     in
     bind_exn (py_truediv (equivalente_vhp_reais_saca_pvu * SACAS_POR_TON)
                 FATOR_CONVERSAO_CENTS_LB_PARA_TON) (\<lambda>t1.
     bind_exn (py_truediv t1 cambio_brl_usd) (\<lambda>equivalente_vhp_cents_lb_pvu.
     let custo_terminal_brl_ton = custo_terminal_usd_ton * cambio_brl_usd
     in
     bind_exn (py_truediv
                 ((equivalente_vhp_reais_saca_pvu * SACAS_POR_TON)
                    + frete_santos_usina_brl_ton + custo_terminal_brl_ton)
                 FATOR_CONVERSAO_CENTS_LB_PARA_TON) (\<lambda>t2.
     bind_exn (py_truediv t2 cambio_brl_usd) (\<lambda>equivalente_vhp_cents_lb_fob.
     bind_exn (py_truediv (equivalente_cristal_reais_saca_pvu * SACAS_POR_TON)
                 FATOR_CONVERSAO_CENTS_LB_PARA_TON) (\<lambda>t3.
     bind_exn (py_truediv t3 cambio_brl_usd) (\<lambda>equivalente_cristal_cents_lb_pvu.
     bind_exn (py_truediv
                 (equivalente_cristal_reais_saca_pvu * SACAS_POR_TON
                    + custo_fobizacao_container_brl_ton + frete_santos_usina_brl_ton)
                 FATOR_CONVERSAO_CENTS_LB_PARA_TON) (\<lambda>t4.
     bind_exn (py_truediv t4 cambio_brl_usd) (\<lambda>equivalente_cristal_cents_lb_fob.
     let values1 = dict_set [] ''equivalente_cristal_reais_saca_pvu''
           (Num equivalente_cristal_reais_saca_pvu);
         values2 = dict_set values1 ''equivalente_vhp_reais_saca_pvu''
           (Num equivalente_vhp_reais_saca_pvu);
         values3 = dict_set values2 ''equivalente_vhp_cents_lb_pvu''
           (Num equivalente_vhp_cents_lb_pvu);
         values4 = dict_set values3 ''equivalente_vhp_cents_lb_fob''
           (Num equivalente_vhp_cents_lb_fob);
         values5 = dict_set values4 ''equivalente_cristal_cents_lb_pvu''
           (Num equivalente_cristal_cents_lb_pvu);
         values6 = dict_set values5 ''equivalente_cristal_cents_lb_fob''
           (Num equivalente_cristal_cents_lb_fob)
     in Inr \<lparr>values = values6, errors = []\<rparr>))))))))))"

definition calc_paridade_comercializacao_mi_ny :: "params \<Rightarrow> params \<Rightarrow> result" where
  "calc_paridade_comercializacao_mi_ny inputs globais =
     try_except (calc_paridade_comercializacao_mi_ny_try inputs globais)
       (''Erro ao calcular custo de comercializa'' @ [CHR 0xE7, CHR 0xE3] @ ''o a''
          @ [CHR 0xE7, CHR 0xFA] @ ''car cristal MI'')"

definition calc_acucar_cristal_exportacao_try :: "params \<Rightarrow> params \<Rightarrow> exn + result" where
  "calc_acucar_cristal_exportacao_try inputs globais =
    (let acucar_ny_cents_lb = dict_get inputs ''acucar_ny_cents_lb'' 0;
         premio_fisico_exportacao = dict_get inputs ''premio_fisico_exportacao'' 0;
         cambio_brl_usd = dict_get globais ''cambio_brl_usd'' 1;
         custo_terminal_usd_ton = dict_get globais ''custo_terminal_usd_ton'' 0;
         frete_brl_ton = dict_get globais ''frete_brl_ton'' 0;
         custo_fobizacao_container_brl_ton =
           dict_get globais ''custo_fobizacao_container_brl_ton'' 0;
         custo_vhp_para_cristal = dict_get globais ''custo_vhp_para_cristal'' 0
     in
     if cambio_brl_usd \<le> 0 then Inr \<lparr>values = [], errors = [] @ [msg_cambio]\<rparr>
     else
     let acucar_ny_usd_ton = acucar_ny_cents_lb * 22.04622;
         acucar_com_premio_usd_ton = acucar_ny_usd_ton + premio_fisico_exportacao;
         acucar_com_premio_brl_ton = acucar_com_premio_usd_ton * cambio_brl_usd
     in
     bind_exn (py_truediv
                 (acucar_com_premio_brl_ton - custo_fobizacao_container_brl_ton
                    - frete_brl_ton)
                 SACAS_POR_TON)
       (\<lambda>equivalente_cristal_reais_saca_pvu.
     let equivalente_vhp_reais_saca_pvu =
           equivalente_cristal_reais_saca_pvu - custo_vhp_para_cristal
     in
     bind_exn (py_truediv (equivalente_vhp_reais_saca_pvu * SACAS_POR_TON)
                 FATOR_CONVERSAO_CENTS_LB_PARA_TON) (\<lambda>t1.
     bind_exn (py_truediv t1 cambio_brl_usd) (\<lambda>equivalente_vhp_cents_lb_pvu.
     let custo_terminal_brl_ton = custo_terminal_usd_ton * cambio_brl_usd
     in
     bind_exn (py_truediv
                 ((equivalente_vhp_reais_saca_pvu * SACAS_POR_TON)
                    + frete_brl_ton + custo_terminal_brl_ton)
                 FATOR_CONVERSAO_CENTS_LB_PARA_TON) (\<lambda>t2.
     bind_exn (py_truediv t2 cambio_brl_usd) (\<lambda>equivalente_vhp_cents_lb_fob.
     bind_exn (py_truediv (equivalente_cristal_reais_saca_pvu * SACAS_POR_TON)
                 FATOR_CONVERSAO_CENTS_LB_PARA_TON) (\<lambda>t3.
     bind_exn (py_truediv t3 cambio_brl_usd) (\<lambda>equivalente_cristal_cents_lb_pvu.
     bind_exn (py_truediv ((acucar_ny_cents_lb * 22.04622) + premio_fisico_exportacao)
                 22.0462) (\<lambda>equivalente_cristal_cents_lb_fob.
     let values1 = dict_set [] ''equivalente_cristal_reais_saca_pvu''
           (Num equivalente_cristal_reais_saca_pvu);
         values2 = dict_set values1 ''equivalente_vhp_reais_saca_pvu''
           (Num equivalente_vhp_reais_saca_pvu);
         values3 = dict_set values2 ''equivalente_vhp_cents_lb_pvu''
           (Num equivalente_vhp_cents_lb_pvu);
         values4 = dict_set values3 ''equivalente_vhp_cents_lb_fob''
           (Num equivalente_vhp_cents_lb_fob);
         values5 = dict_set values4 ''equivalente_cristal_cents_lb_pvu''
           (Num equivalente_cristal_cents_lb_pvu);
         values6 = dict_set values5 ''equivalente_cristal_cents_lb_fob''
           (Num equivalente_cristal_cents_lb_fob)
     in Inr \<lparr>values = values6, errors = []\<rparr>)))))))))"

definition calc_acucar_cristal_exportacao :: "params \<Rightarrow> params \<Rightarrow> result" where
  "calc_acucar_cristal_exportacao inputs globais =
     try_except (calc_acucar_cristal_exportacao_try inputs globais)
       (''Erro ao calcular a'' @ [CHR 0xE7, CHR 0xFA] @ ''car cristal exporta''
          @ [CHR 0xE7, CHR 0xE3] @ ''o'')"

definition calc_acucar_cristal_exportacao_malha30_try ::
  "params \<Rightarrow> params \<Rightarrow> exn + result" where
  "calc_acucar_cristal_exportacao_malha30_try inputs globais =
    (let acucar_ny_cents_lb = dict_get inputs ''acucar_ny_cents_lb'' 0;
         premio_fisico_exportacao_malha30 =
           dict_get inputs ''premio_fisico_exportacao_malha30'' 0;
         cambio_brl_usd = dict_get globais ''cambio_brl_usd'' 1;
         custo_terminal_usd_ton = dict_get globais ''custo_terminal_usd_ton'' 0;
         frete_brl_ton = dict_get globais ''frete_brl_ton'' 0;
         custo_fobizacao_container_brl_ton =
           dict_get globais ''custo_fobizacao_container_brl_ton'' 0;
         custo_vhp_para_cristal = dict_get globais ''custo_vhp_para_cristal'' 0
     in
     if cambio_brl_usd \<le> 0 then Inr \<lparr>values = [], errors = [] @ [msg_cambio]\<rparr>
     else
     let acucar_ny_usd_ton = acucar_ny_cents_lb * 22.04622;
         acucar_com_premio_usd_ton = acucar_ny_usd_ton + premio_fisico_exportacao_malha30;
         acucar_com_premio_brl_ton = acucar_com_premio_usd_ton * cambio_brl_usd
     in
     bind_exn (py_truediv
                 (acucar_com_premio_brl_ton - custo_fobizacao_container_brl_ton
                    - frete_brl_ton)
                 SACAS_POR_TON)
       (\<lambda>equivalente_cristal_reais_saca_pvu.
     let equivalente_vhp_reais_saca_pvu =
           equivalente_cristal_reais_saca_pvu - custo_vhp_para_cristal
     in
     bind_exn (py_truediv (equivalente_vhp_reais_saca_pvu * SACAS_POR_TON)
                 FATOR_CONVERSAO_CENTS_LB_PARA_TON) (\<lambda>t1.
     bind_exn (py_truediv t1 cambio_brl_usd) (\<lambda>equivalente_vhp_cents_lb_pvu.
     let custo_terminal_brl_ton = custo_terminal_usd_ton * cambio_brl_usd
     in
     bind_exn (py_truediv
                 ((equivalente_vhp_reais_saca_pvu * SACAS_POR_TON)
                    + frete_brl_ton + custo_terminal_brl_ton)
                 FATOR_CONVERSAO_CENTS_LB_PARA_TON) (\<lambda>t2.
     bind_exn (py_truediv t2 cambio_brl_usd) (\<lambda>equivalente_vhp_cents_lb_fob.
     bind_exn (py_truediv (equivalente_cristal_reais_saca_pvu * SACAS_POR_TON)
                 FATOR_CONVERSAO_CENTS_LB_PARA_TON) (\<lambda>t3.
     bind_exn (py_truediv t3 cambio_brl_usd) (\<lambda>equivalente_cristal_cents_lb_pvu.
     bind_exn (py_truediv
                 ((acucar_ny_cents_lb * 22.04622) + premio_fisico_exportacao_malha30)
                 22.0462) (\<lambda>equivalente_cristal_cents_lb_fob.
     let values1 = dict_set [] ''equivalente_cristal_reais_saca_pvu''
           (Num equivalente_cristal_reais_saca_pvu);
         values2 = dict_set values1 ''equivalente_vhp_reais_saca_pvu''
           (Num equivalente_vhp_reais_saca_pvu);
         values3 = dict_set values2 ''equivalente_vhp_cents_lb_pvu''
           (Num equivalente_vhp_cents_lb_pvu);
         values4 = dict_set values3 ''equivalente_vhp_cents_lb_fob''
           (Num equivalente_vhp_cents_lb_fob);
         values5 = dict_set values4 ''equivalente_cristal_cents_lb_pvu''
           (Num equivalente_cristal_cents_lb_pvu);
         values6 = dict_set values5 ''equivalente_cristal_cents_lb_fob''
           (Num equivalente_cristal_cents_lb_fob)
     in Inr \<lparr>values = values6, errors = []\<rparr>)))))))))"

definition calc_acucar_cristal_exportacao_malha30 :: "params \<Rightarrow> params \<Rightarrow> result" where
  "calc_acucar_cristal_exportacao_malha30 inputs globais =
     try_except (calc_acucar_cristal_exportacao_malha30_try inputs globais)
       (''Erro ao calcular a'' @ [CHR 0xE7, CHR 0xFA] @ ''car cristal exporta''
          @ [CHR 0xE7, CHR 0xE3] @ ''o malha 30'')"

section \<open>Ethanol for export\<close>

definition calc_etanol_anidro_exportacao_try :: "params \<Rightarrow> params \<Rightarrow> exn + result" where
  "calc_etanol_anidro_exportacao_try inputs globais =
    (let preco_anidro_fob_usd = dict_get inputs ''preco_anidro_fob_usd'' 0;
         frete_etanol_porto_usina = dict_get inputs ''frete_etanol_porto_usina'' 0;
         custo_terminal_etanol = dict_get inputs ''custo_terminal_etanol'' 0;
         custo_supervisao_documentos = dict_get inputs ''custo_supervisao_documentos'' 0;
         custos_adicionais_demurrage = dict_get inputs ''custos_adicionais_demurrage'' 0;
         cambio_brl_usd = dict_get globais ''cambio_brl_usd'' 1;
         frete_brl_ton = dict_get globais ''frete_brl_ton'' 0;
         custo_terminal_usd_ton = dict_get globais ''custo_terminal_usd_ton'' 0
     in
     if cambio_brl_usd \<le> 0 then Inr \<lparr>values = [], errors = [] @ [msg_cambio]\<rparr>
     else
     let preco_anidro_brl = preco_anidro_fob_usd * cambio_brl_usd;
         preco_liquido_pvu =
           preco_anidro_brl - frete_etanol_porto_usina - custo_terminal_etanol
             - custo_supervisao_documentos - custos_adicionais_demurrage
     in
     bind_exn (py_truediv preco_liquido_pvu FATOR_ETANOL_ANIDRO_LITROS_POR_SACA)
       (\<lambda>equivalente_vhp_reais_saca_pvu.
     bind_exn (py_truediv (equivalente_vhp_reais_saca_pvu * SACAS_POR_TON)
                 FATOR_CONVERSAO_CENTS_LB_PARA_TON) (\<lambda>t1.
     bind_exn (py_truediv t1 cambio_brl_usd) (\<lambda>t2.
     bind_exn (py_truediv t2 FATOR_AJUSTE_ETANOL) (\<lambda>equivalente_vhp_cents_lb_pvu.
     let custo_terminal_brl_ton = custo_terminal_usd_ton * cambio_brl_usd
     in
     bind_exn (py_truediv
                 ((equivalente_vhp_reais_saca_pvu * SACAS_POR_TON)
                    + frete_brl_ton + custo_terminal_brl_ton)
                 FATOR_CONVERSAO_CENTS_LB_PARA_TON) (\<lambda>t3.
     bind_exn (py_truediv t3 cambio_brl_usd) (\<lambda>t4.
     bind_exn (py_truediv t4 FATOR_AJUSTE_ETANOL) (\<lambda>equivalente_vhp_cents_lb_fob.
     let values1 = dict_set [] ''preco_liquido_pvu'' (Num preco_liquido_pvu);
         values2 = dict_set values1 ''equivalente_vhp_reais_saca_pvu''
           (Num equivalente_vhp_reais_saca_pvu);
         values3 = dict_set values2 ''equivalente_vhp_cents_lb_pvu''
           (Num equivalente_vhp_cents_lb_pvu);
         values4 = dict_set values3 ''equivalente_vhp_cents_lb_fob''
           (Num equivalente_vhp_cents_lb_fob)
     in Inr \<lparr>values = values4, errors = []\<rparr>))))))))"

definition calc_etanol_anidro_exportacao :: "params \<Rightarrow> params \<Rightarrow> result" where
  "calc_etanol_anidro_exportacao inputs globais =
     try_except (calc_etanol_anidro_exportacao_try inputs globais)
       (''Erro ao calcular etanol anidro exporta'' @ [CHR 0xE7, CHR 0xE3] @ ''o'')"

definition calc_etanol_hidratado_exportacao_try :: "params \<Rightarrow> params \<Rightarrow> exn + result" where
  "calc_etanol_hidratado_exportacao_try inputs globais =
    (let preco_hidratado_fob_usd = dict_get inputs ''preco_hidratado_fob_usd'' 0;
         frete_etanol_porto_usina = dict_get inputs ''frete_etanol_porto_usina'' 0;
         custo_terminal_etanol = dict_get inputs ''custo_terminal_etanol'' 0;
         custo_supervisao_documentos = dict_get inputs ''custo_supervisao_documentos'' 0;
         custos_adicionais_demurrage = dict_get inputs ''custos_adicionais_demurrage'' 0;
         cambio_brl_usd = dict_get globais ''cambio_brl_usd'' 1;
         frete_brl_ton = dict_get globais ''frete_brl_ton'' 0;
         custo_terminal_usd_ton = dict_get globais ''custo_terminal_usd_ton'' 0
     in
     if cambio_brl_usd \<le> 0 then Inr \<lparr>values = [], errors = [] @ [msg_cambio]\<rparr>
     else
     let preco_hidratado_brl = preco_hidratado_fob_usd * cambio_brl_usd;
         preco_liquido_pvu =
           preco_hidratado_brl - frete_etanol_porto_usina - custo_terminal_etanol
             - custo_supervisao_documentos - custos_adicionais_demurrage
     in
     bind_exn (py_truediv preco_liquido_pvu FATOR_ETANOL_HIDRATADO_LITROS_POR_SACA)
       (\<lambda>equivalente_vhp_reais_saca_pvu.
     bind_exn (py_truediv (equivalente_vhp_reais_saca_pvu * SACAS_POR_TON)
                 FATOR_CONVERSAO_CENTS_LB_PARA_TON) (\<lambda>t1.
     bind_exn (py_truediv t1 cambio_brl_usd) (\<lambda>t2.
     bind_exn (py_truediv t2 FATOR_AJUSTE_ETANOL) (\<lambda>equivalente_vhp_cents_lb_pvu.
     let custo_terminal_brl_ton = custo_terminal_usd_ton * cambio_brl_usd
     in
     bind_exn (py_truediv
                 ((equivalente_vhp_reais_saca_pvu * SACAS_POR_TON)
                    + frete_brl_ton + custo_terminal_brl_ton)
                 FATOR_CONVERSAO_CENTS_LB_PARA_TON) (\<lambda>t3.
     bind_exn (py_truediv t3 cambio_brl_usd) (\<lambda>t4.
     bind_exn (py_truediv t4 FATOR_AJUSTE_ETANOL) (\<lambda>equivalente_vhp_cents_lb_fob.
     let values1 = dict_set [] ''preco_liquido_pvu'' (Num preco_liquido_pvu);
         values2 = dict_set values1 ''equivalente_vhp_reais_saca_pvu''
           (Num equivalente_vhp_reais_saca_pvu);
         values3 = dict_set values2 ''equivalente_vhp_cents_lb_pvu''
           (Num equivalente_vhp_cents_lb_pvu);
         values4 = dict_set values3 ''equivalente_vhp_cents_lb_fob''
           (Num equivalente_vhp_cents_lb_fob)
     in Inr \<lparr>values = values4, errors = []\<rparr>))))))))"

definition calc_etanol_hidratado_exportacao :: "params \<Rightarrow> params \<Rightarrow> result" where
  "calc_etanol_hidratado_exportacao inputs globais =
     try_except (calc_etanol_hidratado_exportacao_try inputs globais)
       (''Erro ao calcular etanol hidratado exporta'' @ [CHR 0xE7, CHR 0xE3] @ ''o'')"

section \<open>Ethanol for the domestic market\<close>

definition calc_etanol_anidro_mercado_interno_try ::
  "params \<Rightarrow> params \<Rightarrow> exn + result" where
  "calc_etanol_anidro_mercado_interno_try inputs globais =
    (let preco_anidro_com_impostos_brl = dict_get inputs ''preco_anidro_com_impostos_brl'' 0;
         pis_cofins_brl = dict_get inputs ''pis_cofins_brl'' 0;
         contribuicao_agroindustria = dict_get inputs ''contribuicao_agroindustria'' 0;
         valor_cbio_bruto = dict_get inputs ''valor_cbio_bruto'' 0;
         cambio_brl_usd = dict_get globais ''cambio_brl_usd'' 1;
         frete_brl_ton = dict_get globais ''frete_brl_ton'' 0;
         custo_terminal_usd_ton = dict_get globais ''custo_terminal_usd_ton'' 0;
         premio_fisico_mi = dict_get globais ''premio_fisico_mi'' 0;
         custo_fobizacao_container_brl_ton =
           dict_get globais ''custo_fobizacao_container_brl_ton'' 0
     in
     if cambio_brl_usd \<le> 0 then Inr \<lparr>values = [], errors = [] @ [msg_cambio]\<rparr>
     else
     bind_exn (if contribuicao_agroindustria > 1
               then py_truediv contribuicao_agroindustria 100
               else Inr contribuicao_agroindustria)
       (\<lambda>contribuicao_percentual.
     let preco_liquido_pvu =
           (preco_anidro_com_impostos_brl * (1 - contribuicao_percentual)) - pis_cofins_brl;
         cbio_liquido_impostos = (valor_cbio_bruto * 0.7575) * 0.6
     in
     bind_exn (py_truediv cbio_liquido_impostos FATOR_CBIO_FC_ANIDRO) (\<lambda>t1.
     let preco_liquido_pvu_mais_cbio = preco_liquido_pvu + (t1 * 1000)
     in
     bind_exn (py_truediv preco_liquido_pvu (1 + FATOR_CONVERSAO_HIDRATADO))
       (\<lambda>equivalente_hidratado.
     bind_exn (py_truediv preco_liquido_pvu_mais_cbio FATOR_ETANOL_ANIDRO_MI_LITROS_POR_SACA)
       (\<lambda>equivalente_vhp_reais_saca_pvu.
     bind_exn (py_truediv (equivalente_vhp_reais_saca_pvu * SACAS_POR_TON)
                 FATOR_CONVERSAO_CENTS_LB_PARA_TON) (\<lambda>t2.
     bind_exn (py_truediv t2 cambio_brl_usd) (\<lambda>equivalente_vhp_cents_lb_pvu.
     let custo_terminal_brl_ton = custo_terminal_usd_ton * cambio_brl_usd
     in
     bind_exn (py_truediv preco_liquido_pvu_mais_cbio FATOR_ETANOL_ANIDRO_MI_LITROS_POR_SACA) (\<lambda>t3.
     bind_exn (py_truediv ((t3 * SACAS_POR_TON) + frete_brl_ton + custo_terminal_brl_ton)
                 FATOR_CONVERSAO_CENTS_LB_PARA_TON) (\<lambda>t4.
     bind_exn (py_truediv t4 cambio_brl_usd) (\<lambda>t5.
     bind_exn (py_truediv t5 FATOR_AJUSTE_ETANOL) (\<lambda>equivalente_vhp_cents_lb_fob.
     let premio_fisico_brl_ton = premio_fisico_mi * cambio_brl_usd
     in
     bind_exn (py_truediv preco_liquido_pvu_mais_cbio FATOR_ETANOL_ANIDRO_MI_LITROS_POR_SACA) (\<lambda>t6.
     bind_exn (py_truediv ((t6 * SACAS_POR_TON) + premio_fisico_brl_ton)
                 FATOR_CONVERSAO_CENTS_LB_PARA_TON) (\<lambda>t7.
     bind_exn (py_truediv t7 cambio_brl_usd) (\<lambda>equivalente_cristal_cents_lb_pvu.
     bind_exn (py_truediv
                 (equivalente_cristal_cents_lb_pvu * FATOR_CONVERSAO_CENTS_LB_PARA_TON)
                 SACAS_POR_TON) (\<lambda>t8.
     let equivalente_cristal_reais_saca_pvu = t8 * cambio_brl_usd
     in
     bind_exn (py_truediv preco_liquido_pvu_mais_cbio FATOR_ETANOL_ANIDRO_MI_LITROS_POR_SACA) (\<lambda>t9.
     bind_exn (py_truediv
                 ((((t9 * SACAS_POR_TON) + frete_brl_ton + custo_fobizacao_container_brl_ton)
                    + premio_fisico_brl_ton))
                 FATOR_CONVERSAO_CENTS_LB_PARA_TON) (\<lambda>t10.
     bind_exn (py_truediv t10 cambio_brl_usd) (\<lambda>equivalente_cristal_cents_lb_fob.
     let values1 = dict_set [] ''preco_liquido_pvu'' (Num preco_liquido_pvu);
         values2 = dict_set values1 ''cbio_liquido_impostos'' (Num cbio_liquido_impostos);
         values3 = dict_set values2 ''preco_liquido_pvu_mais_cbio''
           (Num preco_liquido_pvu_mais_cbio);
         values4 = dict_set values3 ''equivalente_hidratado'' (Num equivalente_hidratado);
         values5 = dict_set values4 ''equivalente_vhp_reais_saca_pvu''
           (Num equivalente_vhp_reais_saca_pvu);
         values6 = dict_set values5 ''equivalente_vhp_cents_lb_pvu''
           (Num equivalente_vhp_cents_lb_pvu);
         values7 = dict_set values6 ''equivalente_vhp_cents_lb_fob''
           (Num equivalente_vhp_cents_lb_fob);
         values8 = dict_set values7 ''equivalente_cristal_cents_lb_pvu''
           (Num equivalente_cristal_cents_lb_pvu);
         values9 = dict_set values8 ''equivalente_cristal_reais_saca_pvu''
           (Num equivalente_cristal_reais_saca_pvu);
         values10 = dict_set values9 ''equivalente_cristal_cents_lb_fob''
           (Num equivalente_cristal_cents_lb_fob)
     in Inr \<lparr>values = values10, errors = []\<rparr>))))))))))))))))))"

definition calc_etanol_anidro_mercado_interno :: "params \<Rightarrow> params \<Rightarrow> result" where
  "calc_etanol_anidro_mercado_interno inputs globais =
     try_except (calc_etanol_anidro_mercado_interno_try inputs globais)
       (''Erro ao calcular etanol anidro mercado interno'')"

definition calc_etanol_hidratado_mercado_interno_try ::
  "params \<Rightarrow> params \<Rightarrow> exn + result" where
  "calc_etanol_hidratado_mercado_interno_try inputs globais =
    (let preco_hidratado_com_impostos_brl =
           dict_get inputs ''preco_hidratado_com_impostos_brl'' 0;
         pis_cofins_brl = dict_get inputs ''pis_cofins_brl'' 0;
         icms_percentual = dict_get inputs ''icms_percentual'' 0;
         contribuicao_agroindustria = dict_get inputs ''contribuicao_agroindustria'' 0;
         valor_cbio_bruto = dict_get inputs ''valor_cbio_bruto'' 0;
         cambio_brl_usd = dict_get globais ''cambio_brl_usd'' 1;
         frete_brl_ton = dict_get globais ''frete_brl_ton'' 0;
         custo_terminal_usd_ton = dict_get globais ''custo_terminal_usd_ton'' 0;
         premio_fisico_mi = dict_get globais ''premio_fisico_mi'' 0;
         custo_fobizacao_container_brl_ton =
           dict_get globais ''custo_fobizacao_container_brl_ton'' 0
     in
     if cambio_brl_usd \<le> 0 then Inr \<lparr>values = [], errors = [] @ [msg_cambio]\<rparr>
     else
     bind_exn (if icms_percentual > 1 then py_truediv icms_percentual 100
               else Inr icms_percentual)
       (\<lambda>icms_percentual_val.
     bind_exn (if contribuicao_agroindustria > 1
               then py_truediv contribuicao_agroindustria 100
               else Inr contribuicao_agroindustria)
       (\<lambda>contribuicao_percentual.
     let cbio_liquido_impostos = (valor_cbio_bruto * 0.7575) * 0.6;
         preco_liquido_pvu =
           ((preco_hidratado_com_impostos_brl * (1 - contribuicao_percentual))
              * (1 - icms_percentual_val)) - pis_cofins_brl
     in
     bind_exn (py_truediv cbio_liquido_impostos FATOR_CBIO_FC_HIDRATADO) (\<lambda>t1.
     let preco_liquido_pvu_mais_cbio = preco_liquido_pvu + (t1 * 1000);
         equivalente_anidro = preco_liquido_pvu * (1 + FATOR_CONVERSAO_HIDRATADO);
         preco_liquido_pvu_mais_cbio_mais_credito =
           preco_liquido_pvu_mais_cbio + CREDITO_TRIBUTARIO
     in
     bind_exn (py_truediv preco_liquido_pvu_mais_cbio FATOR_ETANOL_HIDRATADO_MI_LITROS_POR_SACA)
       (\<lambda>equivalente_vhp_reais_saca_pvu.
     bind_exn (py_truediv (equivalente_vhp_reais_saca_pvu * SACAS_POR_TON)
                 FATOR_CONVERSAO_CENTS_LB_PARA_TON) (\<lambda>t2.
     bind_exn (py_truediv t2 cambio_brl_usd) (\<lambda>equivalente_vhp_cents_lb_pvu.
     let custo_terminal_brl_ton = custo_terminal_usd_ton * cambio_brl_usd
     in
     bind_exn (py_truediv preco_liquido_pvu_mais_cbio FATOR_ETANOL_HIDRATADO_MI_LITROS_POR_SACA) (\<lambda>t3.
     bind_exn (py_truediv ((t3 * SACAS_POR_TON) + frete_brl_ton + custo_terminal_brl_ton)
                 FATOR_CONVERSAO_CENTS_LB_PARA_TON) (\<lambda>t4.
     bind_exn (py_truediv t4 cambio_brl_usd) (\<lambda>t5.
     bind_exn (py_truediv t5 FATOR_AJUSTE_ETANOL) (\<lambda>equivalente_vhp_cents_lb_fob.
     let premio_fisico_brl_ton = premio_fisico_mi * cambio_brl_usd
     in
     bind_exn (py_truediv preco_liquido_pvu_mais_cbio FATOR_ETANOL_HIDRATADO_MI_LITROS_POR_SACA) (\<lambda>t6.
     bind_exn (py_truediv ((t6 * SACAS_POR_TON) + premio_fisico_brl_ton)
                 FATOR_CONVERSAO_CENTS_LB_PARA_TON) (\<lambda>t7.
     bind_exn (py_truediv t7 cambio_brl_usd) (\<lambda>equivalente_cristal_cents_lb_pvu.
     bind_exn (py_truediv
                 (equivalente_cristal_cents_lb_pvu * FATOR_CONVERSAO_CENTS_LB_PARA_TON)
                 SACAS_POR_TON) (\<lambda>t8.
     let equivalente_cristal_reais_saca_pvu = t8 * cambio_brl_usd
     in
     bind_exn (py_truediv preco_liquido_pvu_mais_cbio FATOR_ETANOL_HIDRATADO_MI_LITROS_POR_SACA) (\<lambda>t9.
     bind_exn (py_truediv
                 ((((t9 * SACAS_POR_TON) + frete_brl_ton + custo_fobizacao_container_brl_ton)
                    + premio_fisico_brl_ton))
                 FATOR_CONVERSAO_CENTS_LB_PARA_TON) (\<lambda>t10.
     bind_exn (py_truediv t10 cambio_brl_usd) (\<lambda>equivalente_cristal_cents_lb_fob.
     let values1 = dict_set [] ''preco_liquido_pvu'' (Num preco_liquido_pvu);
         values2 = dict_set values1 ''preco_liquido_pvu_mais_cbio''
           (Num preco_liquido_pvu_mais_cbio);
         values3 = dict_set values2 ''equivalente_anidro'' (Num equivalente_anidro);
         values4 = dict_set values3 ''preco_liquido_pvu_mais_cbio_mais_credito''
           (Num preco_liquido_pvu_mais_cbio_mais_credito);
         values5 = dict_set values4 ''equivalente_vhp_reais_saca_pvu''
           (Num equivalente_vhp_reais_saca_pvu);
         values6 = dict_set values5 ''equivalente_vhp_cents_lb_pvu''
           (Num equivalente_vhp_cents_lb_pvu);
         values7 = dict_set values6 ''equivalente_vhp_cents_lb_fob''
           (Num equivalente_vhp_cents_lb_fob);
         values8 = dict_set values7 ''equivalente_cristal_cents_lb_pvu''
           (Num equivalente_cristal_cents_lb_pvu);
         values9 = dict_set values8 ''equivalente_cristal_reais_saca_pvu''
           (Num equivalente_cristal_reais_saca_pvu);
         values10 = dict_set values9 ''equivalente_cristal_cents_lb_fob''
           (Num equivalente_cristal_cents_lb_fob)
     in Inr \<lparr>values = values10, errors = []\<rparr>))))))))))))))))))"

definition calc_etanol_hidratado_mercado_interno :: "params \<Rightarrow> params \<Rightarrow> result" where
  "calc_etanol_hidratado_mercado_interno inputs globais =
     try_except (calc_etanol_hidratado_mercado_interno_try inputs globais)
       (''Erro ao calcular etanol hidratado mercado interno'')"

section \<open>The calculators in binary64 arithmetic\<close>

text \<open>
  A Python \<^verbatim>\<open>float\<close> is an IEEE 754 binary64 number. The definitions above read every
  number as the real it denotes; that is enough for properties that do not depend on
  rounding. Where rounding decides a property, the calculators concerned are modelled
  again below, with every operation rounded to binary64.

  A finite binary64 number is given by the real it denotes (so \<^verbatim>\<open>0.0\<close> and \<^verbatim>\<open>-0.0\<close>,
  which Python's \<^verbatim>\<open>==\<close> does not tell apart, are the same value); the two infinities
  and NaN are values of their own.
\<close>

datatype b64 = Finite real | PInf | NInf | NaN

text \<open>Rounding a real to the nearest integer, ties to the even one.\<close>

definition round_half_even :: "real \<Rightarrow> int" where
  "round_half_even y =
     (let f = \<lfloor>y\<rfloor>; r = y - of_int f
      in if r < 1 / 2 then f else if 1 / 2 < r then f + 1 else if even f then f else f + 1)"

text \<open>The binary exponent \<open>\<lfloor>log\<^sub>2 x\<rfloor>\<close> of a positive real, by halving and doubling.\<close>

function ilog2 :: "real \<Rightarrow> int" where
  "ilog2 x = (if x \<le> 0 then 0
              else if 2 \<le> x then ilog2 (x / 2) + 1
              else if x < 1 then ilog2 (x * 2) - 1
              else 0)"
  by pat_completeness auto
termination
proof (relation "measure (\<lambda>x. nat \<bar>\<lfloor>log 2 x\<rfloor>\<bar>)")
  show "wf (measure (\<lambda>x. nat \<bar>\<lfloor>log 2 x\<rfloor>\<bar>))" by simp
next
  fix x :: real
  assume "\<not> x \<le> 0" "2 \<le> x"
  then have "log 2 (x / 2) = log 2 x - 1" "1 \<le> log 2 x"
    by (simp_all add: log_divide)
  then show "(x / 2, x) \<in> measure (\<lambda>x. nat \<bar>\<lfloor>log 2 x\<rfloor>\<bar>)"
    by simp
next
  fix x :: real
  assume "\<not> x \<le> 0" "\<not> 2 \<le> x" "x < 1"
  then have eq: "log 2 (x * 2) = log 2 x + 1" and neg: "log 2 x < 0"
    by (simp_all add: log_mult)
  define n where "n = \<lfloor>log 2 x\<rfloor>"
  have n: "n < 0"
    unfolding n_def using neg by simp
  have "\<lfloor>log 2 (x * 2)\<rfloor> = n + 1"
    unfolding n_def eq by simp
  with n show "(x * 2, x) \<in> measure (\<lambda>x. nat \<bar>\<lfloor>log 2 x\<rfloor>\<bar>)"
    by (simp add: n_def [symmetric])
qed

text \<open>
  Rounding to binary64, to nearest with ties to even: the grid has 53 significant bits
  from the binary exponent of \<open>x\<close> down, and from exponent \<open>-1022\<close> down for the
  subnormal numbers; a result of \<open>2\<^sup>1\<^sup>0\<^sup>2\<^sup>4\<close> or more overflows to an infinity.
\<close>

definition b64_round :: "real \<Rightarrow> b64" where
  "b64_round x =
     (if x = 0 then Finite 0
      else
        let e = max (ilog2 \<bar>x\<bar>) (- 1022) - 52;
            y = of_int (round_half_even (\<bar>x\<bar> / 2 powi e)) * 2 powi e
        in if 2 ^ 1024 \<le> y then (if 0 < x then PInf else NInf)
           else Finite (sgn x * y))"

text \<open>A decimal literal of the program, and an \<^verbatim>\<open>int\<close> used in float arithmetic.\<close>

definition py_float :: "real \<Rightarrow> b64" where
  "py_float x = b64_round x"

text \<open>
  The operations: the exact result, rounded. A NaN operand gives NaN; so do
  \<open>\<infinity> - \<infinity>\<close>, \<open>0 * \<infinity>\<close> and \<open>\<infinity> / \<infinity>\<close>.
\<close>

fun fneg :: "b64 \<Rightarrow> b64" where
  "fneg (Finite a) = Finite (- a)"
| "fneg PInf = NInf"
| "fneg NInf = PInf"
| "fneg NaN = NaN"

fun fadd :: "b64 \<Rightarrow> b64 \<Rightarrow> b64" where
  "fadd (Finite a) (Finite b) = b64_round (a + b)"
| "fadd NaN _ = NaN"
| "fadd _ NaN = NaN"
| "fadd PInf NInf = NaN"
| "fadd NInf PInf = NaN"
| "fadd PInf _ = PInf"
| "fadd _ PInf = PInf"
| "fadd NInf _ = NInf"
| "fadd _ NInf = NInf"

fun fmul :: "b64 \<Rightarrow> b64 \<Rightarrow> b64" where
  "fmul (Finite a) (Finite b) = b64_round (a * b)"
| "fmul NaN _ = NaN"
| "fmul _ NaN = NaN"
| "fmul (Finite a) PInf = (if a = 0 then NaN else if 0 < a then PInf else NInf)"
| "fmul (Finite a) NInf = (if a = 0 then NaN else if 0 < a then NInf else PInf)"
| "fmul PInf (Finite b) = (if b = 0 then NaN else if 0 < b then PInf else NInf)"
| "fmul NInf (Finite b) = (if b = 0 then NaN else if 0 < b then NInf else PInf)"
| "fmul PInf PInf = PInf"
| "fmul PInf NInf = NInf"
| "fmul NInf PInf = NInf"
| "fmul NInf NInf = PInf"

text \<open>
  Division by a number other than zero (Python raises on a zero divisor before it divides,
  see \<open>py_truediv_b64\<close> below).
\<close>

fun fdiv :: "b64 \<Rightarrow> b64 \<Rightarrow> b64" where
  "fdiv (Finite a) (Finite b) = b64_round (a / b)"
| "fdiv NaN _ = NaN"
| "fdiv _ NaN = NaN"
| "fdiv (Finite a) PInf = Finite 0"
| "fdiv (Finite a) NInf = Finite 0"
| "fdiv PInf (Finite b) = (if 0 < b then PInf else NInf)"
| "fdiv NInf (Finite b) = (if 0 < b then NInf else PInf)"
| "fdiv PInf _ = NaN"
| "fdiv NInf _ = NaN"

text \<open>Comparisons: false whenever an operand is NaN.\<close>

fun fle :: "b64 \<Rightarrow> b64 \<Rightarrow> bool" where
  "fle (Finite a) (Finite b) = (a \<le> b)"
| "fle NaN _ = False"
| "fle _ NaN = False"
| "fle NInf _ = True"
| "fle _ PInf = True"
| "fle PInf _ = False"
| "fle _ NInf = False"

fun flt :: "b64 \<Rightarrow> b64 \<Rightarrow> bool" where
  "flt (Finite a) (Finite b) = (a < b)"
| "flt NaN _ = False"
| "flt _ NaN = False"
| "flt PInf _ = False"
| "flt _ NInf = False"
| "flt NInf _ = True"
| "flt _ PInf = True"

text \<open>
  The program's notation for them. These type classes only give the symbols: none of
  the laws of real arithmetic is assumed of binary64.
\<close>

instantiation b64 :: "{zero, one, plus, minus, times, inverse, ord}"
begin

definition zero_b64 :: b64 where
  "0 = Finite 0"

definition one_b64 :: b64 where
  "1 = Finite 1"

definition plus_b64 :: "b64 \<Rightarrow> b64 \<Rightarrow> b64" where
  "x + y = fadd x y"

definition minus_b64 :: "b64 \<Rightarrow> b64 \<Rightarrow> b64" where
  "x - y = fadd x (fneg y)"

definition times_b64 :: "b64 \<Rightarrow> b64 \<Rightarrow> b64" where
  "x * y = fmul x y"

definition divide_b64 :: "b64 \<Rightarrow> b64 \<Rightarrow> b64" where
  "x div y = fdiv x y"

definition inverse_b64 :: "b64 \<Rightarrow> b64" where
  "inverse x = fdiv (Finite 1) x"

definition less_eq_b64 :: "b64 \<Rightarrow> b64 \<Rightarrow> bool" where
  "x \<le> y = fle x y"

definition less_b64 :: "b64 \<Rightarrow> b64 \<Rightarrow> bool" where
  "x < y = flt x y"

instance ..

end

text \<open>
  Dictionaries of binary64 numbers (the parameters are taken to be Python floats), true
  division and the result record.
\<close>

type_synonym params_b64 = "string \<rightharpoonup> b64"

record result_b64 =
  values_b64 :: "(string \<times> b64) list"
  errors_b64 :: "string list"

definition dict_get_b64 :: "params_b64 \<Rightarrow> string \<Rightarrow> b64 \<Rightarrow> b64" where
  "dict_get_b64 d k dflt = (case d k of None \<Rightarrow> dflt | Some v \<Rightarrow> v)"

definition dict_set_b64 :: "(string \<times> b64) list \<Rightarrow> string \<Rightarrow> b64 \<Rightarrow> (string \<times> b64) list" where
  "dict_set_b64 d k v = AList.update k v d"

definition dict_lookup_b64 :: "(string \<times> b64) list \<Rightarrow> string \<Rightarrow> b64 option" where
  "dict_lookup_b64 d k = map_of d k"

definition py_truediv_b64 :: "b64 \<Rightarrow> b64 \<Rightarrow> exn + b64" where
  "py_truediv_b64 a b = (if b = Finite 0 then Inl ZeroDivisionError else Inr (a / b))"

definition try_except_b64 :: "exn + result_b64 \<Rightarrow> string \<Rightarrow> result_b64" where
  "try_except_b64 block prefix =
     (case block of
        Inr r \<Rightarrow> r
      | Inl e \<Rightarrow> \<lparr>values_b64 = [], errors_b64 = [] @ [prefix @ '': '' @ exn_str e]\<rparr>)"

definition calc_paridade_comercializacao_mi_ny_b64_try ::
  "params_b64 \<Rightarrow> params_b64 \<Rightarrow> exn + result_b64" where
  "calc_paridade_comercializacao_mi_ny_b64_try inputs globais =
    (let acucar_ny_cents_lb = dict_get_b64 inputs ''acucar_ny_cents_lb'' 0;
         premio_fisico_mi = dict_get_b64 inputs ''premio_fisico_mi'' 0;
         cambio_brl_usd = dict_get_b64 globais ''cambio_brl_usd'' 1;
         custo_terminal_usd_ton = dict_get_b64 globais ''custo_terminal_usd_ton'' 0;
         frete_santos_usina_brl_ton = dict_get_b64 globais ''frete_santos_usina_brl_ton'' 0;
         custo_fobizacao_container_brl_ton =
           dict_get_b64 globais ''custo_fobizacao_container_brl_ton'' 0;
         custo_vhp_para_cristal = dict_get_b64 globais ''custo_vhp_para_cristal'' 0
     in
     if cambio_brl_usd \<le> 0 then Inr \<lparr>values_b64 = [], errors_b64 = [] @ [msg_cambio]\<rparr>
     else
     let acucar_ny_usd_ton = acucar_ny_cents_lb * (py_float 22.04622);
         acucar_com_premio_usd_ton = acucar_ny_usd_ton + premio_fisico_mi;
         acucar_com_premio_brl_ton = acucar_com_premio_usd_ton * cambio_brl_usd
     in
     bind_exn (py_truediv_b64 acucar_com_premio_brl_ton (py_float SACAS_POR_TON))
       (\<lambda>equivalente_cristal_reais_saca_pvu.
     let equivalente_vhp_reais_saca_pvu =
           equivalente_cristal_reais_saca_pvu - custo_vhp_para_cristal
     in
     bind_exn (py_truediv_b64 (equivalente_vhp_reais_saca_pvu * (py_float SACAS_POR_TON))
                 (py_float FATOR_CONVERSAO_CENTS_LB_PARA_TON)) (\<lambda>t1.
     bind_exn (py_truediv_b64 t1 cambio_brl_usd) (\<lambda>equivalente_vhp_cents_lb_pvu.
     let custo_terminal_brl_ton = custo_terminal_usd_ton * cambio_brl_usd
     in
     bind_exn (py_truediv_b64
                 ((equivalente_vhp_reais_saca_pvu * (py_float SACAS_POR_TON))
                    + frete_santos_usina_brl_ton + custo_terminal_brl_ton)
                 (py_float FATOR_CONVERSAO_CENTS_LB_PARA_TON)) (\<lambda>t2.
     bind_exn (py_truediv_b64 t2 cambio_brl_usd) (\<lambda>equivalente_vhp_cents_lb_fob.
     bind_exn (py_truediv_b64 (equivalente_cristal_reais_saca_pvu * (py_float SACAS_POR_TON))
                 (py_float FATOR_CONVERSAO_CENTS_LB_PARA_TON)) (\<lambda>t3.
     bind_exn (py_truediv_b64 t3 cambio_brl_usd) (\<lambda>equivalente_cristal_cents_lb_pvu.
     bind_exn (py_truediv_b64
                 (equivalente_cristal_reais_saca_pvu * (py_float SACAS_POR_TON)
                    + custo_fobizacao_container_brl_ton + frete_santos_usina_brl_ton)
                 (py_float FATOR_CONVERSAO_CENTS_LB_PARA_TON)) (\<lambda>t4.
     bind_exn (py_truediv_b64 t4 cambio_brl_usd) (\<lambda>equivalente_cristal_cents_lb_fob.
     let values1 = dict_set_b64 [] ''equivalente_cristal_reais_saca_pvu''
           equivalente_cristal_reais_saca_pvu;
         values2 = dict_set_b64 values1 ''equivalente_vhp_reais_saca_pvu''
           equivalente_vhp_reais_saca_pvu;
         values3 = dict_set_b64 values2 ''equivalente_vhp_cents_lb_pvu''
           equivalente_vhp_cents_lb_pvu;
         values4 = dict_set_b64 values3 ''equivalente_vhp_cents_lb_fob''
           equivalente_vhp_cents_lb_fob;
         values5 = dict_set_b64 values4 ''equivalente_cristal_cents_lb_pvu''
           equivalente_cristal_cents_lb_pvu;
         values6 = dict_set_b64 values5 ''equivalente_cristal_cents_lb_fob''
           equivalente_cristal_cents_lb_fob
     in Inr \<lparr>values_b64 = values6, errors_b64 = []\<rparr>))))))))))"

definition calc_paridade_comercializacao_mi_ny_b64 :: "params_b64 \<Rightarrow> params_b64 \<Rightarrow> result_b64" where
  "calc_paridade_comercializacao_mi_ny_b64 inputs globais =
     try_except_b64 (calc_paridade_comercializacao_mi_ny_b64_try inputs globais)
       (''Erro ao calcular custo de comercializa'' @ [CHR 0xE7, CHR 0xE3] @ ''o a''
          @ [CHR 0xE7, CHR 0xFA] @ ''car cristal MI'')"





definition calc_etanol_anidro_mercado_interno_b64_try ::
  "params_b64 \<Rightarrow> params_b64 \<Rightarrow> exn + result_b64" where
  "calc_etanol_anidro_mercado_interno_b64_try inputs globais =
    (let preco_anidro_com_impostos_brl = dict_get_b64 inputs ''preco_anidro_com_impostos_brl'' 0;
         pis_cofins_brl = dict_get_b64 inputs ''pis_cofins_brl'' 0;
         contribuicao_agroindustria = dict_get_b64 inputs ''contribuicao_agroindustria'' 0;
         valor_cbio_bruto = dict_get_b64 inputs ''valor_cbio_bruto'' 0;
         cambio_brl_usd = dict_get_b64 globais ''cambio_brl_usd'' 1;
         frete_brl_ton = dict_get_b64 globais ''frete_brl_ton'' 0;
         custo_terminal_usd_ton = dict_get_b64 globais ''custo_terminal_usd_ton'' 0;
         premio_fisico_mi = dict_get_b64 globais ''premio_fisico_mi'' 0;
         custo_fobizacao_container_brl_ton =
           dict_get_b64 globais ''custo_fobizacao_container_brl_ton'' 0
     in
     if cambio_brl_usd \<le> 0 then Inr \<lparr>values_b64 = [], errors_b64 = [] @ [msg_cambio]\<rparr>
     else
     bind_exn (if contribuicao_agroindustria > 1
               then py_truediv_b64 contribuicao_agroindustria (py_float 100)
               else Inr contribuicao_agroindustria)
       (\<lambda>contribuicao_percentual.
     let preco_liquido_pvu =
           (preco_anidro_com_impostos_brl * (1 - contribuicao_percentual)) - pis_cofins_brl;
         cbio_liquido_impostos = (valor_cbio_bruto * (py_float 0.7575)) * (py_float 0.6)
     in
     bind_exn (py_truediv_b64 cbio_liquido_impostos (py_float FATOR_CBIO_FC_ANIDRO)) (\<lambda>t1.
     let preco_liquido_pvu_mais_cbio = preco_liquido_pvu + (t1 * (py_float 1000))
     in
     bind_exn (py_truediv_b64 preco_liquido_pvu (1 + (py_float FATOR_CONVERSAO_HIDRATADO)))
       (\<lambda>equivalente_hidratado.
     bind_exn (py_truediv_b64 preco_liquido_pvu_mais_cbio (py_float FATOR_ETANOL_ANIDRO_MI_LITROS_POR_SACA))
       (\<lambda>equivalente_vhp_reais_saca_pvu.
     bind_exn (py_truediv_b64 (equivalente_vhp_reais_saca_pvu * (py_float SACAS_POR_TON))
                 (py_float FATOR_CONVERSAO_CENTS_LB_PARA_TON)) (\<lambda>t2.
     bind_exn (py_truediv_b64 t2 cambio_brl_usd) (\<lambda>equivalente_vhp_cents_lb_pvu.
     let custo_terminal_brl_ton = custo_terminal_usd_ton * cambio_brl_usd
     in
     bind_exn (py_truediv_b64 preco_liquido_pvu_mais_cbio (py_float FATOR_ETANOL_ANIDRO_MI_LITROS_POR_SACA)) (\<lambda>t3.
     bind_exn (py_truediv_b64 ((t3 * (py_float SACAS_POR_TON)) + frete_brl_ton + custo_terminal_brl_ton)
                 (py_float FATOR_CONVERSAO_CENTS_LB_PARA_TON)) (\<lambda>t4.
     bind_exn (py_truediv_b64 t4 cambio_brl_usd) (\<lambda>t5.
     bind_exn (py_truediv_b64 t5 (py_float FATOR_AJUSTE_ETANOL)) (\<lambda>equivalente_vhp_cents_lb_fob.
     let premio_fisico_brl_ton = premio_fisico_mi * cambio_brl_usd
     in
     bind_exn (py_truediv_b64 preco_liquido_pvu_mais_cbio (py_float FATOR_ETANOL_ANIDRO_MI_LITROS_POR_SACA)) (\<lambda>t6.
     bind_exn (py_truediv_b64 ((t6 * (py_float SACAS_POR_TON)) + premio_fisico_brl_ton)
                 (py_float FATOR_CONVERSAO_CENTS_LB_PARA_TON)) (\<lambda>t7.
     bind_exn (py_truediv_b64 t7 cambio_brl_usd) (\<lambda>equivalente_cristal_cents_lb_pvu.
     bind_exn (py_truediv_b64
                 (equivalente_cristal_cents_lb_pvu * (py_float FATOR_CONVERSAO_CENTS_LB_PARA_TON))
                 (py_float SACAS_POR_TON)) (\<lambda>t8.
     let equivalente_cristal_reais_saca_pvu = t8 * cambio_brl_usd
     in
     bind_exn (py_truediv_b64 preco_liquido_pvu_mais_cbio (py_float FATOR_ETANOL_ANIDRO_MI_LITROS_POR_SACA)) (\<lambda>t9.
     bind_exn (py_truediv_b64
                 ((((t9 * (py_float SACAS_POR_TON)) + frete_brl_ton + custo_fobizacao_container_brl_ton)
                    + premio_fisico_brl_ton))
                 (py_float FATOR_CONVERSAO_CENTS_LB_PARA_TON)) (\<lambda>t10.
     bind_exn (py_truediv_b64 t10 cambio_brl_usd) (\<lambda>equivalente_cristal_cents_lb_fob.
     let values1 = dict_set_b64 [] ''preco_liquido_pvu'' preco_liquido_pvu;
         values2 = dict_set_b64 values1 ''cbio_liquido_impostos'' cbio_liquido_impostos;
         values3 = dict_set_b64 values2 ''preco_liquido_pvu_mais_cbio''
           preco_liquido_pvu_mais_cbio;
         values4 = dict_set_b64 values3 ''equivalente_hidratado'' equivalente_hidratado;
         values5 = dict_set_b64 values4 ''equivalente_vhp_reais_saca_pvu''
           equivalente_vhp_reais_saca_pvu;
         values6 = dict_set_b64 values5 ''equivalente_vhp_cents_lb_pvu''
           equivalente_vhp_cents_lb_pvu;
         values7 = dict_set_b64 values6 ''equivalente_vhp_cents_lb_fob''
           equivalente_vhp_cents_lb_fob;
         values8 = dict_set_b64 values7 ''equivalente_cristal_cents_lb_pvu''
           equivalente_cristal_cents_lb_pvu;
         values9 = dict_set_b64 values8 ''equivalente_cristal_reais_saca_pvu''
           equivalente_cristal_reais_saca_pvu;
         values10 = dict_set_b64 values9 ''equivalente_cristal_cents_lb_fob''
           equivalente_cristal_cents_lb_fob
     in Inr \<lparr>values_b64 = values10, errors_b64 = []\<rparr>))))))))))))))))))"

definition calc_etanol_anidro_mercado_interno_b64 :: "params_b64 \<Rightarrow> params_b64 \<Rightarrow> result_b64" where
  "calc_etanol_anidro_mercado_interno_b64 inputs globais =
     try_except_b64 (calc_etanol_anidro_mercado_interno_b64_try inputs globais)
       (''Erro ao calcular etanol anidro mercado interno'')"

definition calc_etanol_hidratado_mercado_interno_b64_try ::
  "params_b64 \<Rightarrow> params_b64 \<Rightarrow> exn + result_b64" where
  "calc_etanol_hidratado_mercado_interno_b64_try inputs globais =
    (let preco_hidratado_com_impostos_brl =
           dict_get_b64 inputs ''preco_hidratado_com_impostos_brl'' 0;
         pis_cofins_brl = dict_get_b64 inputs ''pis_cofins_brl'' 0;
         icms_percentual = dict_get_b64 inputs ''icms_percentual'' 0;
         contribuicao_agroindustria = dict_get_b64 inputs ''contribuicao_agroindustria'' 0;
         valor_cbio_bruto = dict_get_b64 inputs ''valor_cbio_bruto'' 0;
         cambio_brl_usd = dict_get_b64 globais ''cambio_brl_usd'' 1;
         frete_brl_ton = dict_get_b64 globais ''frete_brl_ton'' 0;
         custo_terminal_usd_ton = dict_get_b64 globais ''custo_terminal_usd_ton'' 0;
         premio_fisico_mi = dict_get_b64 globais ''premio_fisico_mi'' 0;
         custo_fobizacao_container_brl_ton =
           dict_get_b64 globais ''custo_fobizacao_container_brl_ton'' 0
     in
     if cambio_brl_usd \<le> 0 then Inr \<lparr>values_b64 = [], errors_b64 = [] @ [msg_cambio]\<rparr>
     else
     bind_exn (if icms_percentual > 1 then py_truediv_b64 icms_percentual (py_float 100)
               else Inr icms_percentual)
       (\<lambda>icms_percentual_val.
     bind_exn (if contribuicao_agroindustria > 1
               then py_truediv_b64 contribuicao_agroindustria (py_float 100)
               else Inr contribuicao_agroindustria)
       (\<lambda>contribuicao_percentual.
     let cbio_liquido_impostos = (valor_cbio_bruto * (py_float 0.7575)) * (py_float 0.6);
         preco_liquido_pvu =
           ((preco_hidratado_com_impostos_brl * (1 - contribuicao_percentual))
              * (1 - icms_percentual_val)) - pis_cofins_brl
     in
     bind_exn (py_truediv_b64 cbio_liquido_impostos (py_float FATOR_CBIO_FC_HIDRATADO)) (\<lambda>t1.
     let preco_liquido_pvu_mais_cbio = preco_liquido_pvu + (t1 * (py_float 1000));
         equivalente_anidro = preco_liquido_pvu * (1 + (py_float FATOR_CONVERSAO_HIDRATADO));
         preco_liquido_pvu_mais_cbio_mais_credito =
           preco_liquido_pvu_mais_cbio + (py_float CREDITO_TRIBUTARIO)
     in
     bind_exn (py_truediv_b64 preco_liquido_pvu_mais_cbio (py_float FATOR_ETANOL_HIDRATADO_MI_LITROS_POR_SACA))
       (\<lambda>equivalente_vhp_reais_saca_pvu.
     bind_exn (py_truediv_b64 (equivalente_vhp_reais_saca_pvu * (py_float SACAS_POR_TON))
                 (py_float FATOR_CONVERSAO_CENTS_LB_PARA_TON)) (\<lambda>t2.
     bind_exn (py_truediv_b64 t2 cambio_brl_usd) (\<lambda>equivalente_vhp_cents_lb_pvu.
     let custo_terminal_brl_ton = custo_terminal_usd_ton * cambio_brl_usd
     in
     bind_exn (py_truediv_b64 preco_liquido_pvu_mais_cbio (py_float FATOR_ETANOL_HIDRATADO_MI_LITROS_POR_SACA)) (\<lambda>t3.
     bind_exn (py_truediv_b64 ((t3 * (py_float SACAS_POR_TON)) + frete_brl_ton + custo_terminal_brl_ton)
                 (py_float FATOR_CONVERSAO_CENTS_LB_PARA_TON)) (\<lambda>t4.
     bind_exn (py_truediv_b64 t4 cambio_brl_usd) (\<lambda>t5.
     bind_exn (py_truediv_b64 t5 (py_float FATOR_AJUSTE_ETANOL)) (\<lambda>equivalente_vhp_cents_lb_fob.
     let premio_fisico_brl_ton = premio_fisico_mi * cambio_brl_usd
     in
     bind_exn (py_truediv_b64 preco_liquido_pvu_mais_cbio (py_float FATOR_ETANOL_HIDRATADO_MI_LITROS_POR_SACA)) (\<lambda>t6.
     bind_exn (py_truediv_b64 ((t6 * (py_float SACAS_POR_TON)) + premio_fisico_brl_ton)
                 (py_float FATOR_CONVERSAO_CENTS_LB_PARA_TON)) (\<lambda>t7.
     bind_exn (py_truediv_b64 t7 cambio_brl_usd) (\<lambda>equivalente_cristal_cents_lb_pvu.
     bind_exn (py_truediv_b64
                 (equivalente_cristal_cents_lb_pvu * (py_float FATOR_CONVERSAO_CENTS_LB_PARA_TON))
                 (py_float SACAS_POR_TON)) (\<lambda>t8.
     let equivalente_cristal_reais_saca_pvu = t8 * cambio_brl_usd
     in
     bind_exn (py_truediv_b64 preco_liquido_pvu_mais_cbio (py_float FATOR_ETANOL_HIDRATADO_MI_LITROS_POR_SACA)) (\<lambda>t9.
     bind_exn (py_truediv_b64
                 ((((t9 * (py_float SACAS_POR_TON)) + frete_brl_ton + custo_fobizacao_container_brl_ton)
                    + premio_fisico_brl_ton))
                 (py_float FATOR_CONVERSAO_CENTS_LB_PARA_TON)) (\<lambda>t10.
     bind_exn (py_truediv_b64 t10 cambio_brl_usd) (\<lambda>equivalente_cristal_cents_lb_fob.
     let values1 = dict_set_b64 [] ''preco_liquido_pvu'' preco_liquido_pvu;
         values2 = dict_set_b64 values1 ''preco_liquido_pvu_mais_cbio''
           preco_liquido_pvu_mais_cbio;
         values3 = dict_set_b64 values2 ''equivalente_anidro'' equivalente_anidro;
         values4 = dict_set_b64 values3 ''preco_liquido_pvu_mais_cbio_mais_credito''
           preco_liquido_pvu_mais_cbio_mais_credito;
         values5 = dict_set_b64 values4 ''equivalente_vhp_reais_saca_pvu''
           equivalente_vhp_reais_saca_pvu;
         values6 = dict_set_b64 values5 ''equivalente_vhp_cents_lb_pvu''
           equivalente_vhp_cents_lb_pvu;
         values7 = dict_set_b64 values6 ''equivalente_vhp_cents_lb_fob''
           equivalente_vhp_cents_lb_fob;
         values8 = dict_set_b64 values7 ''equivalente_cristal_cents_lb_pvu''
           equivalente_cristal_cents_lb_pvu;
         values9 = dict_set_b64 values8 ''equivalente_cristal_reais_saca_pvu''
           equivalente_cristal_reais_saca_pvu;
         values10 = dict_set_b64 values9 ''equivalente_cristal_cents_lb_fob''
           equivalente_cristal_cents_lb_fob
     in Inr \<lparr>values_b64 = values10, errors_b64 = []\<rparr>))))))))))))))))))"

definition calc_etanol_hidratado_mercado_interno_b64 :: "params_b64 \<Rightarrow> params_b64 \<Rightarrow> result_b64" where
  "calc_etanol_hidratado_mercado_interno_b64 inputs globais =
     try_except_b64 (calc_etanol_hidratado_mercado_interno_b64_try inputs globais)
       (''Erro ao calcular etanol hidratado mercado interno'')"

section \<open>Evaluating the calculators\<close>

lemmas consts_defs = FATOR_CONVERSAO_CENTS_LB_PARA_TON_def SACAS_POR_TON_def
  FATOR_ETANOL_ANIDRO_LITROS_POR_SACA_def FATOR_ETANOL_HIDRATADO_LITROS_POR_SACA_def
  FATOR_ETANOL_ANIDRO_MI_LITROS_POR_SACA_def FATOR_ETANOL_HIDRATADO_MI_LITROS_POR_SACA_def
  FATOR_CONVERSAO_HIDRATADO_def FATOR_CBIO_FC_ANIDRO_def FATOR_CBIO_FC_HIDRATADO_def
  CREDITO_TRIBUTARIO_def FATOR_AJUSTE_ETANOL_def

lemma py_truediv_ok: "b \<noteq> 0 \<Longrightarrow> py_truediv a b = Inr (a / b)"
  by (simp add: py_truediv_def)

lemma bind_exn_Inr: "bind_exn (Inr x) f = f x"
  by (simp add: bind_exn_def)

lemma try_except_Inr: "try_except (Inr r) prefix = r"
  by (simp add: try_except_def)

lemma try_except_Inl:
  "try_except (Inl e) prefix = \<lparr>values = [], errors = [prefix @ '': '' @ exn_str e]\<rparr>"
  by (simp add: try_except_def)

lemma consts_nonzero:
  "FATOR_CONVERSAO_CENTS_LB_PARA_TON \<noteq> 0" "SACAS_POR_TON \<noteq> 0"
  "FATOR_ETANOL_ANIDRO_LITROS_POR_SACA \<noteq> 0" "FATOR_ETANOL_HIDRATADO_LITROS_POR_SACA \<noteq> 0"
  "FATOR_ETANOL_ANIDRO_MI_LITROS_POR_SACA \<noteq> 0"
  "FATOR_ETANOL_HIDRATADO_MI_LITROS_POR_SACA \<noteq> 0"
  "1 + FATOR_CONVERSAO_HIDRATADO \<noteq> 0" "FATOR_CBIO_FC_ANIDRO \<noteq> 0"
  "FATOR_CBIO_FC_HIDRATADO \<noteq> 0" "FATOR_AJUSTE_ETANOL \<noteq> 0"
  by (simp_all add: consts_defs)

lemmas run_simps = Let_def py_truediv_ok bind_exn_Inr try_except_Inr dict_set_def consts_nonzero

lemma vhp_invalid:
  "dict_get globais ''cambio_brl_usd'' 1 \<le> 0 \<Longrightarrow>
   calc_acucar_vhp_detalhado_try inputs globais = Inr \<lparr>values = [], errors = [msg_cambio]\<rparr>"
  by (simp add: calc_acucar_vhp_detalhado_try_def)

lemma esalq_invalid:
  "dict_get globais ''cambio_brl_usd'' 1 \<le> 0 \<Longrightarrow>
   calc_acucar_cristal_esalq_try inputs globais = Inr \<lparr>values = [], errors = [msg_cambio]\<rparr>"
  by (simp add: calc_acucar_cristal_esalq_try_def)

lemma mi_ny_invalid:
  "dict_get globais ''cambio_brl_usd'' 1 \<le> 0 \<Longrightarrow>
   calc_paridade_comercializacao_mi_ny_try inputs globais =
     Inr \<lparr>values = [], errors = [msg_cambio]\<rparr>"
  by (simp add: calc_paridade_comercializacao_mi_ny_try_def)

lemma exportacao_invalid:
  "dict_get globais ''cambio_brl_usd'' 1 \<le> 0 \<Longrightarrow>
   calc_acucar_cristal_exportacao_try inputs globais =
     Inr \<lparr>values = [], errors = [msg_cambio]\<rparr>"
  by (simp add: calc_acucar_cristal_exportacao_try_def)

lemma malha30_invalid:
  "dict_get globais ''cambio_brl_usd'' 1 \<le> 0 \<Longrightarrow>
   calc_acucar_cristal_exportacao_malha30_try inputs globais =
     Inr \<lparr>values = [], errors = [msg_cambio]\<rparr>"
  by (simp add: calc_acucar_cristal_exportacao_malha30_try_def)

lemma anidro_exp_invalid:
  "dict_get globais ''cambio_brl_usd'' 1 \<le> 0 \<Longrightarrow>
   calc_etanol_anidro_exportacao_try inputs globais =
     Inr \<lparr>values = [], errors = [msg_cambio]\<rparr>"
  by (simp add: calc_etanol_anidro_exportacao_try_def)

lemma hidratado_exp_invalid:
  "dict_get globais ''cambio_brl_usd'' 1 \<le> 0 \<Longrightarrow>
   calc_etanol_hidratado_exportacao_try inputs globais =
     Inr \<lparr>values = [], errors = [msg_cambio]\<rparr>"
  by (simp add: calc_etanol_hidratado_exportacao_try_def)

lemma anidro_mi_invalid:
  "dict_get globais ''cambio_brl_usd'' 1 \<le> 0 \<Longrightarrow>
   calc_etanol_anidro_mercado_interno_try inputs globais =
     Inr \<lparr>values = [], errors = [msg_cambio]\<rparr>"
  by (simp add: calc_etanol_anidro_mercado_interno_try_def)

lemma hidratado_mi_invalid:
  "dict_get globais ''cambio_brl_usd'' 1 \<le> 0 \<Longrightarrow>
   calc_etanol_hidratado_mercado_interno_try inputs globais =
     Inr \<lparr>values = [], errors = [msg_cambio]\<rparr>"
  by (simp add: calc_etanol_hidratado_mercado_interno_try_def)

text \<open>
  On the success path every division is defined, so each \<^verbatim>\<open>try\<close> block runs to its
  end; the following lemmas give the record it builds.
\<close>

lemma vhp_valid:
  "0 < dict_get globais ''cambio_brl_usd'' 1 \<Longrightarrow>
   calc_acucar_vhp_detalhado_try inputs globais =
    (let acucar_ny_cents_lb = dict_get inputs ''acucar_ny_cents_lb'' 0;
         premio_desconto = dict_get inputs ''premio_desconto'' 0;
         premio_pol = dict_get inputs ''premio_pol'' 0;
         custo_terminal_usd_ton = dict_get inputs ''custo_terminal_usd_ton'' 0;
         frete_brl_ton = dict_get inputs ''frete_brl_ton'' 0;
         cambio_brl_usd = dict_get globais ''cambio_brl_usd'' 1;
         premio_pol_percentual = (if premio_pol > 1 then premio_pol / 100 else premio_pol);
         sugar_ny_mais_pol_cents_lb =
           (acucar_ny_cents_lb + premio_desconto) * (1 + premio_pol_percentual);
         sugar_ny_mais_pol_usd_ton = sugar_ny_mais_pol_cents_lb * FATOR_CONVERSAO_CENTS_LB_PARA_TON;
         frete_usd_ton = frete_brl_ton / cambio_brl_usd;
         valor_usd_ton = sugar_ny_mais_pol_usd_ton - custo_terminal_usd_ton - frete_usd_ton;
         valor_usd_saca = valor_usd_ton / SACAS_POR_TON;
         equivalente_vhp_reais_saca_pvu = valor_usd_saca * cambio_brl_usd;
         equivalente_vhp_cents_lb_pvu =
           ((equivalente_vhp_reais_saca_pvu * SACAS_POR_TON) / FATOR_CONVERSAO_CENTS_LB_PARA_TON) / cambio_brl_usd
     in Inr \<lparr>values = [
          (''sugar_ny_mais_pol_cents_lb'', Num sugar_ny_mais_pol_cents_lb),
          (''equivalente_vhp_reais_saca_pvu'', Num equivalente_vhp_reais_saca_pvu),
          (''equivalente_vhp_cents_lb_pvu'', Num equivalente_vhp_cents_lb_pvu),
          (''equivalente_vhp_cents_lb_fob'', Num sugar_ny_mais_pol_cents_lb),
          (''desenvolvimento'', Dict [
             (''passo1'', vhp_passo1 acucar_ny_cents_lb premio_desconto premio_pol_percentual
                sugar_ny_mais_pol_cents_lb),
             (''passo2'', vhp_passo2 sugar_ny_mais_pol_cents_lb sugar_ny_mais_pol_usd_ton
                custo_terminal_usd_ton frete_brl_ton cambio_brl_usd frete_usd_ton
                valor_usd_ton valor_usd_saca equivalente_vhp_reais_saca_pvu),
             (''passo3'', vhp_passo3 equivalente_vhp_reais_saca_pvu cambio_brl_usd
                equivalente_vhp_cents_lb_pvu),
             (''passo4'', vhp_passo4 sugar_ny_mais_pol_cents_lb
                sugar_ny_mais_pol_cents_lb)])],
        errors = []\<rparr>)"
  by (simp add: calc_acucar_vhp_detalhado_try_def run_simps)

lemma esalq_valid:
  "0 < dict_get globais ''cambio_brl_usd'' 1 \<Longrightarrow>
   calc_acucar_cristal_esalq_try inputs globais =
    (let preco_esalq_brl_saca = dict_get inputs ''preco_esalq_brl_saca'' 0;
         imposto = dict_get inputs ''imposto'' 0;
         frete_santos_usina_brl_ton = dict_get inputs ''frete_santos_usina_brl_ton'' 0;
         custo_fobizacao_container_brl_ton =
           dict_get inputs ''custo_fobizacao_container_brl_ton'' 0;
         custo_vhp_para_cristal = dict_get inputs ''custo_vhp_para_cristal'' 0;
         cambio_brl_usd = dict_get globais ''cambio_brl_usd'' 1;
         custo_terminal_usd_ton = dict_get globais ''custo_terminal_usd_ton'' 0;
         imposto_percentual = (if imposto > 1 then imposto / 100 else imposto);
         cristal_saca = preco_esalq_brl_saca * (1 - imposto_percentual);
         vhp_saca = cristal_saca - custo_vhp_para_cristal
     in Inr \<lparr>values = [
          (''equivalente_cristal_reais_saca_pvu'', Num cristal_saca),
          (''equivalente_vhp_reais_saca_pvu'', Num vhp_saca),
          (''equivalente_vhp_cents_lb_pvu'', Num ((vhp_saca * SACAS_POR_TON / FATOR_CONVERSAO_CENTS_LB_PARA_TON) / cambio_brl_usd)),
          (''equivalente_vhp_cents_lb_fob'',
             Num (((vhp_saca * SACAS_POR_TON + frete_santos_usina_brl_ton
                     + custo_terminal_usd_ton * cambio_brl_usd) / FATOR_CONVERSAO_CENTS_LB_PARA_TON) / cambio_brl_usd)),
          (''equivalente_cristal_cents_lb_pvu'',
             Num ((cristal_saca * SACAS_POR_TON / FATOR_CONVERSAO_CENTS_LB_PARA_TON) / cambio_brl_usd
                    - 15 / FATOR_CONVERSAO_CENTS_LB_PARA_TON / cambio_brl_usd)),
          (''equivalente_cristal_cents_lb_fob'',
             Num (((cristal_saca * SACAS_POR_TON + frete_santos_usina_brl_ton
                      + custo_fobizacao_container_brl_ton) / 22.04622) / cambio_brl_usd))],
        errors = []\<rparr>)"
  by (simp add: calc_acucar_cristal_esalq_try_def run_simps)

lemma mi_ny_valid:
  "0 < dict_get globais ''cambio_brl_usd'' 1 \<Longrightarrow>
   calc_paridade_comercializacao_mi_ny_try inputs globais =
    (let acucar_ny_cents_lb = dict_get inputs ''acucar_ny_cents_lb'' 0;
         premio = dict_get inputs ''premio_fisico_mi'' 0;
         cambio_brl_usd = dict_get globais ''cambio_brl_usd'' 1;
         custo_terminal_usd_ton = dict_get globais ''custo_terminal_usd_ton'' 0;
         frete = dict_get globais ''frete_santos_usina_brl_ton'' 0;
         custo_fobizacao_container_brl_ton =
           dict_get globais ''custo_fobizacao_container_brl_ton'' 0;
         custo_vhp_para_cristal = dict_get globais ''custo_vhp_para_cristal'' 0;
         cristal_saca = ((acucar_ny_cents_lb * 22.04622 + premio) * cambio_brl_usd) / SACAS_POR_TON;
         vhp_saca = cristal_saca - custo_vhp_para_cristal
     in Inr \<lparr>values = [
          (''equivalente_cristal_reais_saca_pvu'', Num cristal_saca),
          (''equivalente_vhp_reais_saca_pvu'', Num vhp_saca),
          (''equivalente_vhp_cents_lb_pvu'',
             Num ((vhp_saca * SACAS_POR_TON / FATOR_CONVERSAO_CENTS_LB_PARA_TON)
                    / cambio_brl_usd)),
          (''equivalente_vhp_cents_lb_fob'',
             Num (((vhp_saca * SACAS_POR_TON + frete
                     + custo_terminal_usd_ton * cambio_brl_usd)
                    / FATOR_CONVERSAO_CENTS_LB_PARA_TON) / cambio_brl_usd)),
          (''equivalente_cristal_cents_lb_pvu'',
             Num ((cristal_saca * SACAS_POR_TON / FATOR_CONVERSAO_CENTS_LB_PARA_TON)
                    / cambio_brl_usd)),
          (''equivalente_cristal_cents_lb_fob'', Num (((cristal_saca * SACAS_POR_TON + custo_fobizacao_container_brl_ton + frete)
                    / FATOR_CONVERSAO_CENTS_LB_PARA_TON) / cambio_brl_usd))],
        errors = []\<rparr>)"
  by (simp add: calc_paridade_comercializacao_mi_ny_try_def run_simps)

lemma exportacao_valid:
  "0 < dict_get globais ''cambio_brl_usd'' 1 \<Longrightarrow>
   calc_acucar_cristal_exportacao_try inputs globais =
    (let acucar_ny_cents_lb = dict_get inputs ''acucar_ny_cents_lb'' 0;
         premio = dict_get inputs ''premio_fisico_exportacao'' 0;
         cambio_brl_usd = dict_get globais ''cambio_brl_usd'' 1;
         custo_terminal_usd_ton = dict_get globais ''custo_terminal_usd_ton'' 0;
         frete = dict_get globais ''frete_brl_ton'' 0;
         custo_fobizacao_container_brl_ton =
           dict_get globais ''custo_fobizacao_container_brl_ton'' 0;
         custo_vhp_para_cristal = dict_get globais ''custo_vhp_para_cristal'' 0;
         cristal_saca = ((acucar_ny_cents_lb * 22.04622 + premio) * cambio_brl_usd
              - custo_fobizacao_container_brl_ton - frete) / SACAS_POR_TON;
         vhp_saca = cristal_saca - custo_vhp_para_cristal
     in Inr \<lparr>values = [
          (''equivalente_cristal_reais_saca_pvu'', Num cristal_saca),
          (''equivalente_vhp_reais_saca_pvu'', Num vhp_saca),
          (''equivalente_vhp_cents_lb_pvu'',
             Num ((vhp_saca * SACAS_POR_TON / FATOR_CONVERSAO_CENTS_LB_PARA_TON)
                    / cambio_brl_usd)),
          (''equivalente_vhp_cents_lb_fob'',
             Num (((vhp_saca * SACAS_POR_TON + frete
                     + custo_terminal_usd_ton * cambio_brl_usd)
                    / FATOR_CONVERSAO_CENTS_LB_PARA_TON) / cambio_brl_usd)),
          (''equivalente_cristal_cents_lb_pvu'',
             Num ((cristal_saca * SACAS_POR_TON / FATOR_CONVERSAO_CENTS_LB_PARA_TON)
                    / cambio_brl_usd)),
          (''equivalente_cristal_cents_lb_fob'', Num ((acucar_ny_cents_lb * 22.04622 + premio) / 22.0462))],
        errors = []\<rparr>)"
  by (simp add: calc_acucar_cristal_exportacao_try_def run_simps)

lemma malha30_valid:
  "0 < dict_get globais ''cambio_brl_usd'' 1 \<Longrightarrow>
   calc_acucar_cristal_exportacao_malha30_try inputs globais =
    (let acucar_ny_cents_lb = dict_get inputs ''acucar_ny_cents_lb'' 0;
         premio = dict_get inputs ''premio_fisico_exportacao_malha30'' 0;
         cambio_brl_usd = dict_get globais ''cambio_brl_usd'' 1;
         custo_terminal_usd_ton = dict_get globais ''custo_terminal_usd_ton'' 0;
         frete = dict_get globais ''frete_brl_ton'' 0;
         custo_fobizacao_container_brl_ton =
           dict_get globais ''custo_fobizacao_container_brl_ton'' 0;
         custo_vhp_para_cristal = dict_get globais ''custo_vhp_para_cristal'' 0;
         cristal_saca = ((acucar_ny_cents_lb * 22.04622 + premio) * cambio_brl_usd
              - custo_fobizacao_container_brl_ton - frete) / SACAS_POR_TON;
         vhp_saca = cristal_saca - custo_vhp_para_cristal
     in Inr \<lparr>values = [
          (''equivalente_cristal_reais_saca_pvu'', Num cristal_saca),
          (''equivalente_vhp_reais_saca_pvu'', Num vhp_saca),
          (''equivalente_vhp_cents_lb_pvu'',
             Num ((vhp_saca * SACAS_POR_TON / FATOR_CONVERSAO_CENTS_LB_PARA_TON)
                    / cambio_brl_usd)),
          (''equivalente_vhp_cents_lb_fob'',
             Num (((vhp_saca * SACAS_POR_TON + frete
                     + custo_terminal_usd_ton * cambio_brl_usd)
                    / FATOR_CONVERSAO_CENTS_LB_PARA_TON) / cambio_brl_usd)),
          (''equivalente_cristal_cents_lb_pvu'',
             Num ((cristal_saca * SACAS_POR_TON / FATOR_CONVERSAO_CENTS_LB_PARA_TON)
                    / cambio_brl_usd)),
          (''equivalente_cristal_cents_lb_fob'', Num ((acucar_ny_cents_lb * 22.04622 + premio) / 22.0462))],
        errors = []\<rparr>)"
  by (simp add: calc_acucar_cristal_exportacao_malha30_try_def run_simps)

lemma anidro_exp_valid:
  "0 < dict_get globais ''cambio_brl_usd'' 1 \<Longrightarrow>
   calc_etanol_anidro_exportacao_try inputs globais =
    (let preco_fob_usd = dict_get inputs ''preco_anidro_fob_usd'' 0;
         frete_etanol_porto_usina = dict_get inputs ''frete_etanol_porto_usina'' 0;
         custo_terminal_etanol = dict_get inputs ''custo_terminal_etanol'' 0;
         custo_supervisao_documentos = dict_get inputs ''custo_supervisao_documentos'' 0;
         custos_adicionais_demurrage = dict_get inputs ''custos_adicionais_demurrage'' 0;
         cambio_brl_usd = dict_get globais ''cambio_brl_usd'' 1;
         frete_brl_ton = dict_get globais ''frete_brl_ton'' 0;
         custo_terminal_usd_ton = dict_get globais ''custo_terminal_usd_ton'' 0;
         preco_liquido_pvu =
           preco_fob_usd * cambio_brl_usd - frete_etanol_porto_usina - custo_terminal_etanol
             - custo_supervisao_documentos - custos_adicionais_demurrage;
         vhp_saca = preco_liquido_pvu / FATOR_ETANOL_ANIDRO_LITROS_POR_SACA
     in Inr \<lparr>values = [
          (''preco_liquido_pvu'', Num preco_liquido_pvu),
          (''equivalente_vhp_reais_saca_pvu'', Num vhp_saca),
          (''equivalente_vhp_cents_lb_pvu'',
             Num (((vhp_saca * SACAS_POR_TON / FATOR_CONVERSAO_CENTS_LB_PARA_TON)
                    / cambio_brl_usd) / FATOR_AJUSTE_ETANOL)),
          (''equivalente_vhp_cents_lb_fob'',
             Num ((((vhp_saca * SACAS_POR_TON + frete_brl_ton
                     + custo_terminal_usd_ton * cambio_brl_usd)
                    / FATOR_CONVERSAO_CENTS_LB_PARA_TON) / cambio_brl_usd)
                    / FATOR_AJUSTE_ETANOL))],
        errors = []\<rparr>)"
  by (simp add: calc_etanol_anidro_exportacao_try_def run_simps)

lemma hidratado_exp_valid:
  "0 < dict_get globais ''cambio_brl_usd'' 1 \<Longrightarrow>
   calc_etanol_hidratado_exportacao_try inputs globais =
    (let preco_fob_usd = dict_get inputs ''preco_hidratado_fob_usd'' 0;
         frete_etanol_porto_usina = dict_get inputs ''frete_etanol_porto_usina'' 0;
         custo_terminal_etanol = dict_get inputs ''custo_terminal_etanol'' 0;
         custo_supervisao_documentos = dict_get inputs ''custo_supervisao_documentos'' 0;
         custos_adicionais_demurrage = dict_get inputs ''custos_adicionais_demurrage'' 0;
         cambio_brl_usd = dict_get globais ''cambio_brl_usd'' 1;
         frete_brl_ton = dict_get globais ''frete_brl_ton'' 0;
         custo_terminal_usd_ton = dict_get globais ''custo_terminal_usd_ton'' 0;
         preco_liquido_pvu =
           preco_fob_usd * cambio_brl_usd - frete_etanol_porto_usina - custo_terminal_etanol
             - custo_supervisao_documentos - custos_adicionais_demurrage;
         vhp_saca = preco_liquido_pvu / FATOR_ETANOL_HIDRATADO_LITROS_POR_SACA
     in Inr \<lparr>values = [
          (''preco_liquido_pvu'', Num preco_liquido_pvu),
          (''equivalente_vhp_reais_saca_pvu'', Num vhp_saca),
          (''equivalente_vhp_cents_lb_pvu'',
             Num (((vhp_saca * SACAS_POR_TON / FATOR_CONVERSAO_CENTS_LB_PARA_TON)
                    / cambio_brl_usd) / FATOR_AJUSTE_ETANOL)),
          (''equivalente_vhp_cents_lb_fob'',
             Num ((((vhp_saca * SACAS_POR_TON + frete_brl_ton
                     + custo_terminal_usd_ton * cambio_brl_usd)
                    / FATOR_CONVERSAO_CENTS_LB_PARA_TON) / cambio_brl_usd)
                    / FATOR_AJUSTE_ETANOL))],
        errors = []\<rparr>)"
  by (simp add: calc_etanol_hidratado_exportacao_try_def run_simps)

lemma anidro_mi_valid:
  "0 < dict_get globais ''cambio_brl_usd'' 1 \<Longrightarrow>
   calc_etanol_anidro_mercado_interno_try inputs globais =
    (let preco_anidro_com_impostos_brl = dict_get inputs ''preco_anidro_com_impostos_brl'' 0;
         pis_cofins_brl = dict_get inputs ''pis_cofins_brl'' 0;
         contribuicao_agroindustria = dict_get inputs ''contribuicao_agroindustria'' 0;
         valor_cbio_bruto = dict_get inputs ''valor_cbio_bruto'' 0;
         cambio_brl_usd = dict_get globais ''cambio_brl_usd'' 1;
         frete_brl_ton = dict_get globais ''frete_brl_ton'' 0;
         custo_terminal_usd_ton = dict_get globais ''custo_terminal_usd_ton'' 0;
         premio_fisico_mi = dict_get globais ''premio_fisico_mi'' 0;
         custo_fobizacao_container_brl_ton =
           dict_get globais ''custo_fobizacao_container_brl_ton'' 0;
         contribuicao_percentual =
           (if contribuicao_agroindustria > 1 then contribuicao_agroindustria / 100
            else contribuicao_agroindustria);
         preco_liquido_pvu =
           preco_anidro_com_impostos_brl * (1 - contribuicao_percentual) - pis_cofins_brl;
         cbio_liquido_impostos = (valor_cbio_bruto * 0.7575) * 0.6;
         mais_cbio = preco_liquido_pvu + (cbio_liquido_impostos / FATOR_CBIO_FC_ANIDRO) * 1000;
         vhp_saca = mais_cbio / FATOR_ETANOL_ANIDRO_MI_LITROS_POR_SACA;
         premio_fisico_brl_ton = premio_fisico_mi * cambio_brl_usd;
         cristal_cents_pvu =
           ((mais_cbio / FATOR_ETANOL_ANIDRO_MI_LITROS_POR_SACA * SACAS_POR_TON + premio_fisico_brl_ton)
              / FATOR_CONVERSAO_CENTS_LB_PARA_TON) / cambio_brl_usd
     in Inr \<lparr>values = [
          (''preco_liquido_pvu'', Num preco_liquido_pvu),
          (''cbio_liquido_impostos'', Num cbio_liquido_impostos),
          (''preco_liquido_pvu_mais_cbio'', Num mais_cbio),
          (''equivalente_hidratado'',
             Num (preco_liquido_pvu / (1 + FATOR_CONVERSAO_HIDRATADO))),
          (''equivalente_vhp_reais_saca_pvu'', Num vhp_saca),
          (''equivalente_vhp_cents_lb_pvu'',
             Num ((vhp_saca * SACAS_POR_TON / FATOR_CONVERSAO_CENTS_LB_PARA_TON)
                    / cambio_brl_usd)),
          (''equivalente_vhp_cents_lb_fob'',
             Num ((((mais_cbio / FATOR_ETANOL_ANIDRO_MI_LITROS_POR_SACA * SACAS_POR_TON + frete_brl_ton
                      + custo_terminal_usd_ton * cambio_brl_usd)
                    / FATOR_CONVERSAO_CENTS_LB_PARA_TON) / cambio_brl_usd)
                    / FATOR_AJUSTE_ETANOL)),
          (''equivalente_cristal_cents_lb_pvu'', Num cristal_cents_pvu),
          (''equivalente_cristal_reais_saca_pvu'',
             Num ((cristal_cents_pvu * FATOR_CONVERSAO_CENTS_LB_PARA_TON / SACAS_POR_TON)
                    * cambio_brl_usd)),
          (''equivalente_cristal_cents_lb_fob'',
             Num ((((mais_cbio / FATOR_ETANOL_ANIDRO_MI_LITROS_POR_SACA * SACAS_POR_TON + frete_brl_ton
                       + custo_fobizacao_container_brl_ton) + premio_fisico_brl_ton)
                    / FATOR_CONVERSAO_CENTS_LB_PARA_TON) / cambio_brl_usd))],
        errors = []\<rparr>)"
  by (simp add: calc_etanol_anidro_mercado_interno_try_def run_simps)

lemma hidratado_mi_valid:
  "0 < dict_get globais ''cambio_brl_usd'' 1 \<Longrightarrow>
   calc_etanol_hidratado_mercado_interno_try inputs globais =
    (let preco_hidratado_com_impostos_brl =
           dict_get inputs ''preco_hidratado_com_impostos_brl'' 0;
         pis_cofins_brl = dict_get inputs ''pis_cofins_brl'' 0;
         icms_percentual = dict_get inputs ''icms_percentual'' 0;
         contribuicao_agroindustria = dict_get inputs ''contribuicao_agroindustria'' 0;
         valor_cbio_bruto = dict_get inputs ''valor_cbio_bruto'' 0;
         cambio_brl_usd = dict_get globais ''cambio_brl_usd'' 1;
         frete_brl_ton = dict_get globais ''frete_brl_ton'' 0;
         custo_terminal_usd_ton = dict_get globais ''custo_terminal_usd_ton'' 0;
         premio_fisico_mi = dict_get globais ''premio_fisico_mi'' 0;
         custo_fobizacao_container_brl_ton =
           dict_get globais ''custo_fobizacao_container_brl_ton'' 0;
         icms_percentual_val =
           (if icms_percentual > 1 then icms_percentual / 100 else icms_percentual);
         contribuicao_percentual =
           (if contribuicao_agroindustria > 1 then contribuicao_agroindustria / 100
            else contribuicao_agroindustria);
         cbio_liquido_impostos = (valor_cbio_bruto * 0.7575) * 0.6;
         preco_liquido_pvu =
           (preco_hidratado_com_impostos_brl * (1 - contribuicao_percentual))
             * (1 - icms_percentual_val) - pis_cofins_brl;
         mais_cbio =
           preco_liquido_pvu + (cbio_liquido_impostos / FATOR_CBIO_FC_HIDRATADO) * 1000;
         vhp_saca = mais_cbio / FATOR_ETANOL_HIDRATADO_MI_LITROS_POR_SACA;
         premio_fisico_brl_ton = premio_fisico_mi * cambio_brl_usd;
         cristal_cents_pvu =
           ((mais_cbio / FATOR_ETANOL_HIDRATADO_MI_LITROS_POR_SACA * SACAS_POR_TON + premio_fisico_brl_ton)
              / FATOR_CONVERSAO_CENTS_LB_PARA_TON) / cambio_brl_usd
     in Inr \<lparr>values = [
          (''preco_liquido_pvu'', Num preco_liquido_pvu),
          (''preco_liquido_pvu_mais_cbio'', Num mais_cbio),
          (''equivalente_anidro'', Num (preco_liquido_pvu * (1 + FATOR_CONVERSAO_HIDRATADO))),
          (''preco_liquido_pvu_mais_cbio_mais_credito'', Num (mais_cbio + CREDITO_TRIBUTARIO)),
          (''equivalente_vhp_reais_saca_pvu'', Num vhp_saca),
          (''equivalente_vhp_cents_lb_pvu'',
             Num ((vhp_saca * SACAS_POR_TON / FATOR_CONVERSAO_CENTS_LB_PARA_TON)
                    / cambio_brl_usd)),
          (''equivalente_vhp_cents_lb_fob'',
             Num ((((mais_cbio / FATOR_ETANOL_HIDRATADO_MI_LITROS_POR_SACA * SACAS_POR_TON + frete_brl_ton
                      + custo_terminal_usd_ton * cambio_brl_usd)
                    / FATOR_CONVERSAO_CENTS_LB_PARA_TON) / cambio_brl_usd)
                    / FATOR_AJUSTE_ETANOL)),
          (''equivalente_cristal_cents_lb_pvu'', Num cristal_cents_pvu),
          (''equivalente_cristal_reais_saca_pvu'',
             Num ((cristal_cents_pvu * FATOR_CONVERSAO_CENTS_LB_PARA_TON / SACAS_POR_TON)
                    * cambio_brl_usd)),
          (''equivalente_cristal_cents_lb_fob'',
             Num ((((mais_cbio / FATOR_ETANOL_HIDRATADO_MI_LITROS_POR_SACA * SACAS_POR_TON + frete_brl_ton
                       + custo_fobizacao_container_brl_ton) + premio_fisico_brl_ton)
                    / FATOR_CONVERSAO_CENTS_LB_PARA_TON) / cambio_brl_usd))],
        errors = []\<rparr>)"
  by (simp add: calc_etanol_hidratado_mercado_interno_try_def run_simps)

lemma dict_get_Some: "d k = Some v \<Longrightarrow> dict_get d k dflt = v"
  by (simp add: dict_get_def)

lemma dict_get_None: "d k = None \<Longrightarrow> dict_get d k dflt = dflt"
  by (simp add: dict_get_def)










section \<open>Rounding to binary64\<close>

text \<open>
  The exponent found by \<open>ilog2\<close> brackets its argument, so rounding moves a real of
  magnitude up to \<open>2\<^sup>1\<^sup>0\<^sup>2\<^sup>3\<close> by at most the relative error \<open>2\<^sup>-\<^sup>5\<^sup>3\<close> plus the absolute error
  \<open>2\<^sup>-\<^sup>1\<^sup>0\<^sup>7\<^sup>5\<close> of the subnormal range, and a rounded number rounds to itself.
\<close>

declare ilog2.simps [simp del]

lemma ilog2_bounds:
  "0 < x \<Longrightarrow> 2 powi (ilog2 x) \<le> x \<and> x < 2 powi (ilog2 x + 1)"
proof (induction x rule: ilog2.induct)
  case (1 x)
  show ?case
  proof (cases "2 \<le> x")
    case True
    with 1 have ih: "2 powi (ilog2 (x / 2)) \<le> x / 2 \<and> x / 2 < 2 powi (ilog2 (x / 2) + 1)"
      by simp
    from True 1(3) have eq: "ilog2 x = ilog2 (x / 2) + 1"
      by (subst ilog2.simps) simp
    from ih show ?thesis
      unfolding eq by (simp add: power_int_add field_simps)
  next
    case False
    show ?thesis
    proof (cases "x < 1")
      case True
      with False 1 have ih: "2 powi (ilog2 (x * 2)) \<le> x * 2 \<and> x * 2 < 2 powi (ilog2 (x * 2) + 1)"
        by simp
      from True False 1(3) have eq: "ilog2 x = ilog2 (x * 2) - 1"
        by (subst ilog2.simps) simp
      from ih show ?thesis
        unfolding eq by (simp add: power_int_diff power_int_add field_simps)
    next
      case F: False
      with False 1(3) have "ilog2 x = 0"
        by (subst ilog2.simps) simp
      with F False show ?thesis by simp
    qed
  qed
qed

lemma round_half_even_err: "\<bar>of_int (round_half_even y) - y\<bar> \<le> 1 / 2"
  unfolding round_half_even_def Let_def
  by (auto simp: abs_if) linarith+

lemma round_half_even_of_int [simp]: "round_half_even (of_int n) = n"
  by (simp add: round_half_even_def)




lemma b64_round_err:
  assumes "\<bar>x\<bar> \<le> 2 ^ 1023"
  shows "\<exists>y. b64_round x = Finite y \<and> \<bar>y - x\<bar> \<le> \<bar>x\<bar> / 2 ^ 53 + 1 / 2 ^ 1075"
proof (cases "x = 0")
  case True
  then show ?thesis by (simp add: b64_round_def)
next
  case False
  define e where "e = max (ilog2 \<bar>x\<bar>) (- 1022) - 52"
  define q where "q = \<bar>x\<bar> / 2 powi e"
  define y where "y = of_int (round_half_even q) * (2::real) powi e"
  have pos: "0 < \<bar>x\<bar>" using False by simp
  have p2: "(0::real) < 2 powi e" by simp
  have "\<bar>y - \<bar>x\<bar>\<bar> = \<bar>of_int (round_half_even q) - q\<bar> * 2 powi e"
  proof -
    have "y - \<bar>x\<bar> = (of_int (round_half_even q) - q) * 2 powi e"
      unfolding y_def q_def by (simp add: algebra_simps)
    then show ?thesis by (simp add: abs_mult)
  qed
  also have "\<dots> \<le> 1 / 2 * 2 powi e"
    by (intro mult_right_mono round_half_even_err) simp
  finally have err: "\<bar>y - \<bar>x\<bar>\<bar> \<le> 2 powi e / 2" by simp
  have half: "2 powi e / 2 \<le> \<bar>x\<bar> / 2 ^ 53 + 1 / 2 ^ 1075"
  proof (cases "- 1022 \<le> ilog2 \<bar>x\<bar>")
    case True
    then have e: "e = ilog2 \<bar>x\<bar> - 52" by (simp add: e_def)
    have "2 powi e / 2 = 2 powi (ilog2 \<bar>x\<bar>) / (2::real) ^ 53"
      unfolding e by (simp add: power_int_diff)
    also have "\<dots> \<le> \<bar>x\<bar> / 2 ^ 53"
      using ilog2_bounds [OF pos] by (simp add: divide_right_mono)
    finally show ?thesis by simp
  next
    case F: False
    then have e: "e = - 1074" by (simp add: e_def)
    have "2 powi e / 2 = 1 / (2::real) ^ 1075"
      unfolding e by (simp add: power_int_minus field_simps)
    then show ?thesis by simp
  qed
  from err half have bound: "\<bar>y - \<bar>x\<bar>\<bar> \<le> \<bar>x\<bar> / 2 ^ 53 + 1 / 2 ^ 1075" by linarith
  have "y \<le> \<bar>x\<bar> + (\<bar>x\<bar> / 2 ^ 53 + 1 / 2 ^ 1075)"
    using bound by linarith
  also have "\<dots> \<le> 2 ^ 1023 + (2 ^ 1023 / 2 ^ 53 + 1 / 2 ^ 1075)"
    using assms by (intro add_mono divide_right_mono) simp_all
  also have "\<dots> < (2::real) ^ 1024" by simp
  finally have small: "\<not> 2 ^ 1024 \<le> y" by simp
  have r: "b64_round x = Finite (sgn x * y)"
    using False small unfolding b64_round_def e_def [symmetric] Let_def q_def [symmetric]
      y_def [symmetric]
    by simp
  have "\<bar>sgn x * y - x\<bar> = \<bar>y - \<bar>x\<bar>\<bar>"
    using False by (cases "0 < x") (auto simp: sgn_if)
  then show ?thesis using r bound by simp
qed




text \<open>
  One rounded multiplication or division applied to an approximation \<open>xt\<close> of \<open>x\<close> with
  relative error \<open>r\<close> and absolute error \<open>a\<close>, and the six operations of the per-bag to
  per-pound round trip.
\<close>

lemma b64_round_mult_step:
  fixes x xt k r a B K r' a' :: real
  assumes approx: "\<bar>xt - x\<bar> \<le> r * \<bar>x\<bar> + a"
    and bound: "\<bar>x\<bar> \<le> B"
    and r: "0 \<le> r" and a: "0 \<le> a"
    and k: "\<bar>k\<bar> \<le> K"
    and range: "2 * B * K + a * K \<le> 2 ^ 1023"
    and r1: "r \<le> 1"
    and r': "r + 1 / 2 ^ 53 + r / 2 ^ 53 \<le> r'"
    and a': "a * K * (1 + 1 / 2 ^ 53) + 1 / 2 ^ 1075 \<le> a'"
  shows "\<exists>yt. b64_round (xt * k) = Finite yt
           \<and> \<bar>yt - x * k\<bar> \<le> r' * \<bar>x * k\<bar> + a' \<and> \<bar>x * k\<bar> \<le> B * K"
proof -
  have K0: "0 \<le> K" using k by linarith
  have B0: "0 \<le> B" using bound by linarith
  have xk: "\<bar>x * k\<bar> \<le> B * K"
    unfolding abs_mult using bound k by (intro mult_mono) simp_all
  have d: "\<bar>xt * k - x * k\<bar> \<le> r * \<bar>x * k\<bar> + a * K"
  proof -
    have "\<bar>xt * k - x * k\<bar> = \<bar>xt - x\<bar> * \<bar>k\<bar>"
      by (simp add: abs_mult [symmetric] left_diff_distrib)
    also have "\<dots> \<le> (r * \<bar>x\<bar> + a) * \<bar>k\<bar>"
      using approx by (intro mult_right_mono) simp_all
    also have "\<dots> = r * \<bar>x * k\<bar> + a * \<bar>k\<bar>"
      by (simp add: abs_mult algebra_simps)
    also have "\<dots> \<le> r * \<bar>x * k\<bar> + a * K"
      using a k by (simp add: mult_left_mono)
    finally show ?thesis .
  qed
  have rxk: "r * \<bar>x * k\<bar> \<le> \<bar>x * k\<bar>"
    using mult_right_mono [OF r1, of "\<bar>x * k\<bar>"] by simp
  have m: "\<bar>xt * k\<bar> \<le> (1 + r) * \<bar>x * k\<bar> + a * K"
    using d by (simp add: algebra_simps)
  have "\<bar>xt * k\<bar> \<le> 2 * \<bar>x * k\<bar> + a * K"
    using m rxk by (simp add: algebra_simps)
  also have "\<dots> \<le> 2 * (B * K) + a * K"
    using xk by simp
  finally have "\<bar>xt * k\<bar> \<le> 2 ^ 1023"
    using range by simp
  from b64_round_err [OF this] obtain yt where
    yt: "b64_round (xt * k) = Finite yt"
    and e: "\<bar>yt - xt * k\<bar> \<le> \<bar>xt * k\<bar> / 2 ^ 53 + 1 / 2 ^ 1075"
    by blast
  have "\<bar>xt * k\<bar> / 2 ^ 53 \<le> ((1 + r) * \<bar>x * k\<bar> + a * K) / 2 ^ 53"
    using m by (simp add: divide_right_mono)
  with e have e2: "\<bar>yt - xt * k\<bar> \<le> ((1 + r) * \<bar>x * k\<bar> + a * K) / 2 ^ 53 + 1 / 2 ^ 1075"
    by linarith
  have "\<bar>yt - x * k\<bar> \<le> \<bar>yt - xt * k\<bar> + \<bar>xt * k - x * k\<bar>"
    by linarith
  also have "\<dots> \<le> ((1 + r) * \<bar>x * k\<bar> + a * K) / 2 ^ 53 + 1 / 2 ^ 1075
                    + (r * \<bar>x * k\<bar> + a * K)"
    using e2 d by linarith
  also have "\<dots> = (r + 1 / 2 ^ 53 + r / 2 ^ 53) * \<bar>x * k\<bar>
                    + (a * K * (1 + 1 / 2 ^ 53) + 1 / 2 ^ 1075)"
    by (simp add: algebra_simps add_divide_distrib)
  also have "\<dots> \<le> r' * \<bar>x * k\<bar> + a'"
    using r' a' by (intro add_mono mult_right_mono) simp_all
  finally have "\<bar>yt - x * k\<bar> \<le> r' * \<bar>x * k\<bar> + a'" .
  with yt xk show ?thesis by blast
qed

lemma b64_round_div_step:
  fixes x xt k r a B K r' a' :: real
  assumes "\<bar>xt - x\<bar> \<le> r * \<bar>x\<bar> + a"
    and "\<bar>x\<bar> \<le> B"
    and "0 \<le> r" and "0 \<le> a"
    and "\<bar>1 / k\<bar> \<le> K"
    and "2 * B * K + a * K \<le> 2 ^ 1023"
    and "r \<le> 1"
    and "r + 1 / 2 ^ 53 + r / 2 ^ 53 \<le> r'"
    and "a * K * (1 + 1 / 2 ^ 53) + 1 / 2 ^ 1075 \<le> a'"
  shows "\<exists>yt. b64_round (xt / k) = Finite yt
           \<and> \<bar>yt - x / k\<bar> \<le> r' * \<bar>x / k\<bar> + a' \<and> \<bar>x / k\<bar> \<le> B * K"
  using b64_round_mult_step [OF assms] by simp

lemma per_bag_round_trip_err:
  fixes s c :: real
  assumes s: "\<bar>s\<bar> \<le> 10 ^ 6" and c1: "1 / 2 ^ 20 \<le> c" and c2: "c \<le> 2 ^ 20"
  shows "\<exists>p rt.
           ((Finite s * Finite 20) / Finite (96960212993101 / 2 ^ 42)) / Finite c = Finite p
         \<and> ((Finite p * Finite (96960212993101 / 2 ^ 42)) / Finite 20) * Finite c = Finite rt
         \<and> \<bar>rt - s\<bar> \<le> 1 / 10 ^ 9"
proof -
  let ?F = "96960212993101 / 2 ^ 42 :: real"
  let ?v = "1 / 2 ^ 53 + 1 / 2 ^ 100 :: real"
  have cpos: "0 < c" using c1 by (simp add: less_le_trans [of 0 "1 / 2 ^ 20"])
  have ac: "\<bar>c\<bar> \<le> 2 ^ 20" using cpos c2 by simp
  have "1 / c \<le> 1 / (1 / 2 ^ 20)"
    using c1 by (intro divide_left_mono) simp_all
  then have ic: "\<bar>1 / c\<bar> \<le> 2 ^ 20" using cpos by simp
  have "\<exists>yt. b64_round (s * 20) = Finite yt
           \<and> \<bar>yt - s * 20\<bar> \<le> ?v * \<bar>s * 20\<bar> + 1 / 2 ^ 1075 \<and> \<bar>s * 20\<bar> \<le> 10 ^ 6 * 20"
    by (rule b64_round_mult_step [where x = s and xt = s and k = 20 and r = 0 and a = 0])
      (use s in simp_all)
  then obtain y1 where y1: "b64_round (s * 20) = Finite y1"
    and e1: "\<bar>y1 - s * 20\<bar> \<le> ?v * \<bar>s * 20\<bar> + 1 / 2 ^ 1075"
    and b1: "\<bar>s * 20\<bar> \<le> 10 ^ 6 * 20"
    by blast
  have "\<exists>yt. b64_round (y1 / ?F) = Finite yt
           \<and> \<bar>yt - s * 20 / ?F\<bar> \<le> (2 * ?v) * \<bar>s * 20 / ?F\<bar> + 3 / 2 ^ 1075
           \<and> \<bar>s * 20 / ?F\<bar> \<le> (10 ^ 6 * 20) * 1"
    by (rule b64_round_div_step [OF e1 b1]) simp_all
  then obtain y2 where y2: "b64_round (y1 / ?F) = Finite y2"
    and e2: "\<bar>y2 - s * 20 / ?F\<bar> \<le> (2 * ?v) * \<bar>s * 20 / ?F\<bar> + 3 / 2 ^ 1075"
    and b2: "\<bar>s * 20 / ?F\<bar> \<le> (10 ^ 6 * 20) * 1"
    by blast
  have "\<exists>yt. b64_round (y2 / c) = Finite yt
           \<and> \<bar>yt - s * 20 / ?F / c\<bar> \<le> (3 * ?v) * \<bar>s * 20 / ?F / c\<bar> + 1 / 2 ^ 1053
           \<and> \<bar>s * 20 / ?F / c\<bar> \<le> ((10 ^ 6 * 20) * 1) * 2 ^ 20"
    by (rule b64_round_div_step [OF e2 b2 _ _ ic]) simp_all
  then obtain p where y3: "b64_round (y2 / c) = Finite p"
    and e3: "\<bar>p - s * 20 / ?F / c\<bar> \<le> (3 * ?v) * \<bar>s * 20 / ?F / c\<bar> + 1 / 2 ^ 1053"
    and b3: "\<bar>s * 20 / ?F / c\<bar> \<le> ((10 ^ 6 * 20) * 1) * 2 ^ 20"
    by blast
  have "\<exists>yt. b64_round (p * ?F) = Finite yt
           \<and> \<bar>yt - s * 20 / ?F / c * ?F\<bar> \<le> (4 * ?v) * \<bar>s * 20 / ?F / c * ?F\<bar> + 1 / 2 ^ 1047
           \<and> \<bar>s * 20 / ?F / c * ?F\<bar> \<le> (((10 ^ 6 * 20) * 1) * 2 ^ 20) * 32"
    by (rule b64_round_mult_step [OF e3 b3]) simp_all
  then obtain y4 where y4: "b64_round (p * ?F) = Finite y4"
    and e4: "\<bar>y4 - s * 20 / ?F / c * ?F\<bar> \<le> (4 * ?v) * \<bar>s * 20 / ?F / c * ?F\<bar> + 1 / 2 ^ 1047"
    and b4: "\<bar>s * 20 / ?F / c * ?F\<bar> \<le> (((10 ^ 6 * 20) * 1) * 2 ^ 20) * 32"
    by blast
  have "\<exists>yt. b64_round (y4 / 20) = Finite yt
           \<and> \<bar>yt - s * 20 / ?F / c * ?F / 20\<bar>
               \<le> (5 * ?v) * \<bar>s * 20 / ?F / c * ?F / 20\<bar> + 1 / 2 ^ 1046
           \<and> \<bar>s * 20 / ?F / c * ?F / 20\<bar> \<le> ((((10 ^ 6 * 20) * 1) * 2 ^ 20) * 32) * 1"
    by (rule b64_round_div_step [OF e4 b4]) simp_all
  then obtain y5 where y5: "b64_round (y4 / 20) = Finite y5"
    and e5: "\<bar>y5 - s * 20 / ?F / c * ?F / 20\<bar>
               \<le> (5 * ?v) * \<bar>s * 20 / ?F / c * ?F / 20\<bar> + 1 / 2 ^ 1046"
    and b5: "\<bar>s * 20 / ?F / c * ?F / 20\<bar> \<le> ((((10 ^ 6 * 20) * 1) * 2 ^ 20) * 32) * 1"
    by blast
  have "\<exists>yt. b64_round (y5 * c) = Finite yt
           \<and> \<bar>yt - s * 20 / ?F / c * ?F / 20 * c\<bar>
               \<le> (6 * ?v) * \<bar>s * 20 / ?F / c * ?F / 20 * c\<bar> + 1 / 2 ^ 1025
           \<and> \<bar>s * 20 / ?F / c * ?F / 20 * c\<bar>
               \<le> (((((10 ^ 6 * 20) * 1) * 2 ^ 20) * 32) * 1) * 2 ^ 20"
    by (rule b64_round_mult_step [OF e5 b5 _ _ ac]) simp_all
  then obtain rt where y6: "b64_round (y5 * c) = Finite rt"
    and e6: "\<bar>rt - s * 20 / ?F / c * ?F / 20 * c\<bar>
               \<le> (6 * ?v) * \<bar>s * 20 / ?F / c * ?F / 20 * c\<bar> + 1 / 2 ^ 1025"
    by blast
  have unscale: "s * 20 / ?F / c * ?F / 20 * c = s"
    using cpos by simp
  have "(6 * ?v) * \<bar>s\<bar> \<le> (6 * ?v) * 10 ^ 6"
    using s by (intro mult_left_mono) simp_all
  with e6 have "\<bar>rt - s\<bar> \<le> (6 * ?v) * 10 ^ 6 + 1 / 2 ^ 1025"
    unfolding unscale by linarith
  also have "\<dots> \<le> 1 / 10 ^ 9"
    by simp
  finally have tol: "\<bar>rt - s\<bar> \<le> 1 / 10 ^ 9" .
  have "((Finite s * Finite 20) / Finite ?F) / Finite c = Finite p"
    by (simp only: times_b64_def divide_b64_def fmul.simps fdiv.simps y1 y2 y3)
  moreover have "((Finite p * Finite ?F) / Finite 20) * Finite c = Finite rt"
    by (simp only: times_b64_def divide_b64_def fmul.simps fdiv.simps y4 y5 y6)
  ultimately show ?thesis using tol by blast
qed

section \<open>Evaluating the binary64 calculators\<close>

lemmas b64_eval = b64_round_def ilog2.simps round_half_even_def Let_def py_float_def
  plus_b64_def minus_b64_def times_b64_def divide_b64_def less_eq_b64_def less_b64_def
  zero_b64_def one_b64_def

lemma py_float_SACAS: "py_float SACAS_POR_TON = Finite 20"
  by (simp add: SACAS_POR_TON_def b64_eval)

lemma py_float_FATOR:
  "py_float FATOR_CONVERSAO_CENTS_LB_PARA_TON = Finite (96960212993101 / 2 ^ 42)"
  by (simp add: FATOR_CONVERSAO_CENTS_LB_PARA_TON_def b64_eval)

lemma py_float_nonzero:
  "py_float SACAS_POR_TON \<noteq> Finite 0"
  "py_float FATOR_CONVERSAO_CENTS_LB_PARA_TON \<noteq> Finite 0"
  "py_float 22.0462 \<noteq> Finite 0"
  "py_float (110231 / 5000) \<noteq> Finite 0"
  "py_float 100 \<noteq> Finite 0"
  "py_float FATOR_CBIO_FC_ANIDRO \<noteq> Finite 0"
  "py_float FATOR_CBIO_FC_HIDRATADO \<noteq> Finite 0"
  "py_float FATOR_ETANOL_ANIDRO_MI_LITROS_POR_SACA \<noteq> Finite 0"
  "py_float FATOR_ETANOL_HIDRATADO_MI_LITROS_POR_SACA \<noteq> Finite 0"
  "py_float FATOR_AJUSTE_ETANOL \<noteq> Finite 0"
  "1 + py_float FATOR_CONVERSAO_HIDRATADO \<noteq> Finite 0"
  by (simp_all add: consts_defs b64_eval)

lemma guard_nonzero: "\<not> c \<le> (0::b64) \<Longrightarrow> c \<noteq> Finite 0"
  by (auto simp: less_eq_b64_def zero_b64_def)

lemma py_truediv_b64_ok: "b \<noteq> Finite 0 \<Longrightarrow> py_truediv_b64 a b = Inr (a / b)"
  by (simp add: py_truediv_b64_def)

lemma try_except_b64_Inr: "try_except_b64 (Inr r) prefix = r"
  by (simp add: try_except_b64_def)

lemmas run_b64 = Let_def py_truediv_b64_ok bind_exn_Inr try_except_b64_Inr dict_set_b64_def
  py_float_nonzero guard_nonzero

lemma mi_ny_b64_valid:
  "\<not> dict_get_b64 globais ''cambio_brl_usd'' 1 \<le> 0 \<Longrightarrow>
   calc_paridade_comercializacao_mi_ny_b64 inputs globais =
    (let acucar_ny_cents_lb = dict_get_b64 inputs ''acucar_ny_cents_lb'' 0;
         premio = dict_get_b64 inputs ''premio_fisico_mi'' 0;
         cambio = dict_get_b64 globais ''cambio_brl_usd'' 1;
         custo_terminal_usd_ton = dict_get_b64 globais ''custo_terminal_usd_ton'' 0;
         frete = dict_get_b64 globais ''frete_santos_usina_brl_ton'' 0;
         custo_fobizacao = dict_get_b64 globais ''custo_fobizacao_container_brl_ton'' 0;
         custo_vhp_para_cristal = dict_get_b64 globais ''custo_vhp_para_cristal'' 0;
         cristal_saca =
           ((acucar_ny_cents_lb * py_float 22.04622 + premio) * cambio) / py_float SACAS_POR_TON;
         vhp_saca = cristal_saca - custo_vhp_para_cristal
     in \<lparr>values_b64 = [
          (''equivalente_cristal_reais_saca_pvu'', cristal_saca),
          (''equivalente_vhp_reais_saca_pvu'', vhp_saca),
          (''equivalente_vhp_cents_lb_pvu'',
             ((vhp_saca * py_float SACAS_POR_TON) / py_float FATOR_CONVERSAO_CENTS_LB_PARA_TON)
               / cambio),
          (''equivalente_vhp_cents_lb_fob'',
             (((vhp_saca * py_float SACAS_POR_TON) + frete + custo_terminal_usd_ton * cambio)
                / py_float FATOR_CONVERSAO_CENTS_LB_PARA_TON) / cambio),
          (''equivalente_cristal_cents_lb_pvu'',
             ((cristal_saca * py_float SACAS_POR_TON)
                / py_float FATOR_CONVERSAO_CENTS_LB_PARA_TON) / cambio),
          (''equivalente_cristal_cents_lb_fob'',
             ((cristal_saca * py_float SACAS_POR_TON + custo_fobizacao + frete)
                / py_float FATOR_CONVERSAO_CENTS_LB_PARA_TON) / cambio)],
        errors_b64 = []\<rparr>)"
  by (simp add: calc_paridade_comercializacao_mi_ny_b64_def
      calc_paridade_comercializacao_mi_ny_b64_try_def run_b64)



lemma anidro_mi_b64_valid:
  "\<not> dict_get_b64 globais ''cambio_brl_usd'' 1 \<le> 0 \<Longrightarrow>
   calc_etanol_anidro_mercado_interno_b64 inputs globais =
    (let preco = dict_get_b64 inputs ''preco_anidro_com_impostos_brl'' 0;
         pis_cofins_brl = dict_get_b64 inputs ''pis_cofins_brl'' 0;
         contribuicao = dict_get_b64 inputs ''contribuicao_agroindustria'' 0;
         valor_cbio_bruto = dict_get_b64 inputs ''valor_cbio_bruto'' 0;
         cambio = dict_get_b64 globais ''cambio_brl_usd'' 1;
         frete_brl_ton = dict_get_b64 globais ''frete_brl_ton'' 0;
         custo_terminal_usd_ton = dict_get_b64 globais ''custo_terminal_usd_ton'' 0;
         premio_fisico_mi = dict_get_b64 globais ''premio_fisico_mi'' 0;
         custo_fobizacao = dict_get_b64 globais ''custo_fobizacao_container_brl_ton'' 0;
         contribuicao_percentual =
           (if contribuicao > 1 then contribuicao / py_float 100 else contribuicao);
         preco_liquido_pvu = (preco * (1 - contribuicao_percentual)) - pis_cofins_brl;
         cbio_liquido_impostos = (valor_cbio_bruto * py_float 0.7575) * py_float 0.6;
         mais_cbio =
           preco_liquido_pvu
             + ((cbio_liquido_impostos / py_float FATOR_CBIO_FC_ANIDRO) * py_float 1000);
         vhp_saca = mais_cbio / py_float FATOR_ETANOL_ANIDRO_MI_LITROS_POR_SACA;
         premio_fisico_brl_ton = premio_fisico_mi * cambio;
         cristal_cents_pvu =
           (((mais_cbio / py_float FATOR_ETANOL_ANIDRO_MI_LITROS_POR_SACA) * py_float SACAS_POR_TON + premio_fisico_brl_ton)
              / py_float FATOR_CONVERSAO_CENTS_LB_PARA_TON) / cambio
     in \<lparr>values_b64 = [
          (''preco_liquido_pvu'', preco_liquido_pvu),
          (''cbio_liquido_impostos'', cbio_liquido_impostos),
          (''preco_liquido_pvu_mais_cbio'', mais_cbio),
          (''equivalente_hidratado'',
             preco_liquido_pvu / (1 + py_float FATOR_CONVERSAO_HIDRATADO)),
          (''equivalente_vhp_reais_saca_pvu'', vhp_saca),
          (''equivalente_vhp_cents_lb_pvu'',
             ((vhp_saca * py_float SACAS_POR_TON) / py_float FATOR_CONVERSAO_CENTS_LB_PARA_TON)
               / cambio),
          (''equivalente_vhp_cents_lb_fob'',
             (((((mais_cbio / py_float FATOR_ETANOL_ANIDRO_MI_LITROS_POR_SACA) * py_float SACAS_POR_TON) + frete_brl_ton
                  + custo_terminal_usd_ton * cambio)
                / py_float FATOR_CONVERSAO_CENTS_LB_PARA_TON) / cambio)
               / py_float FATOR_AJUSTE_ETANOL),
          (''equivalente_cristal_cents_lb_pvu'', cristal_cents_pvu),
          (''equivalente_cristal_reais_saca_pvu'',
             ((cristal_cents_pvu * py_float FATOR_CONVERSAO_CENTS_LB_PARA_TON)
                / py_float SACAS_POR_TON) * cambio),
          (''equivalente_cristal_cents_lb_fob'',
             ((((((mais_cbio / py_float FATOR_ETANOL_ANIDRO_MI_LITROS_POR_SACA) * py_float SACAS_POR_TON) + frete_brl_ton
                   + custo_fobizacao) + premio_fisico_brl_ton))
                / py_float FATOR_CONVERSAO_CENTS_LB_PARA_TON) / cambio)],
        errors_b64 = []\<rparr>)"
  by (simp add: calc_etanol_anidro_mercado_interno_b64_def
      calc_etanol_anidro_mercado_interno_b64_try_def run_b64)

lemma hidratado_mi_b64_valid:
  "\<not> dict_get_b64 globais ''cambio_brl_usd'' 1 \<le> 0 \<Longrightarrow>
   calc_etanol_hidratado_mercado_interno_b64 inputs globais =
    (let preco = dict_get_b64 inputs ''preco_hidratado_com_impostos_brl'' 0;
         pis_cofins_brl = dict_get_b64 inputs ''pis_cofins_brl'' 0;
         icms = dict_get_b64 inputs ''icms_percentual'' 0;
         contribuicao = dict_get_b64 inputs ''contribuicao_agroindustria'' 0;
         valor_cbio_bruto = dict_get_b64 inputs ''valor_cbio_bruto'' 0;
         cambio = dict_get_b64 globais ''cambio_brl_usd'' 1;
         frete_brl_ton = dict_get_b64 globais ''frete_brl_ton'' 0;
         custo_terminal_usd_ton = dict_get_b64 globais ''custo_terminal_usd_ton'' 0;
         premio_fisico_mi = dict_get_b64 globais ''premio_fisico_mi'' 0;
         custo_fobizacao = dict_get_b64 globais ''custo_fobizacao_container_brl_ton'' 0;
         icms_percentual_val = (if icms > 1 then icms / py_float 100 else icms);
         contribuicao_percentual =
           (if contribuicao > 1 then contribuicao / py_float 100 else contribuicao);
         cbio_liquido_impostos = (valor_cbio_bruto * py_float 0.7575) * py_float 0.6;
         preco_liquido_pvu =
           ((preco * (1 - contribuicao_percentual)) * (1 - icms_percentual_val))
             - pis_cofins_brl;
         mais_cbio =
           preco_liquido_pvu
             + ((cbio_liquido_impostos / py_float FATOR_CBIO_FC_HIDRATADO) * py_float 1000);
         vhp_saca = mais_cbio / py_float FATOR_ETANOL_HIDRATADO_MI_LITROS_POR_SACA;
         premio_fisico_brl_ton = premio_fisico_mi * cambio;
         cristal_cents_pvu =
           (((mais_cbio / py_float FATOR_ETANOL_HIDRATADO_MI_LITROS_POR_SACA) * py_float SACAS_POR_TON + premio_fisico_brl_ton)
              / py_float FATOR_CONVERSAO_CENTS_LB_PARA_TON) / cambio
     in \<lparr>values_b64 = [
          (''preco_liquido_pvu'', preco_liquido_pvu),
          (''preco_liquido_pvu_mais_cbio'', mais_cbio),
          (''equivalente_anidro'', preco_liquido_pvu * (1 + py_float FATOR_CONVERSAO_HIDRATADO)),
          (''preco_liquido_pvu_mais_cbio_mais_credito'',
             mais_cbio + py_float CREDITO_TRIBUTARIO),
          (''equivalente_vhp_reais_saca_pvu'', vhp_saca),
          (''equivalente_vhp_cents_lb_pvu'',
             ((vhp_saca * py_float SACAS_POR_TON) / py_float FATOR_CONVERSAO_CENTS_LB_PARA_TON)
               / cambio),
          (''equivalente_vhp_cents_lb_fob'',
             (((((mais_cbio / py_float FATOR_ETANOL_HIDRATADO_MI_LITROS_POR_SACA) * py_float SACAS_POR_TON) + frete_brl_ton
                  + custo_terminal_usd_ton * cambio)
                / py_float FATOR_CONVERSAO_CENTS_LB_PARA_TON) / cambio)
               / py_float FATOR_AJUSTE_ETANOL),
          (''equivalente_cristal_cents_lb_pvu'', cristal_cents_pvu),
          (''equivalente_cristal_reais_saca_pvu'',
             ((cristal_cents_pvu * py_float FATOR_CONVERSAO_CENTS_LB_PARA_TON)
                / py_float SACAS_POR_TON) * cambio),
          (''equivalente_cristal_cents_lb_fob'',
             ((((((mais_cbio / py_float FATOR_ETANOL_HIDRATADO_MI_LITROS_POR_SACA) * py_float SACAS_POR_TON) + frete_brl_ton
                   + custo_fobizacao) + premio_fisico_brl_ton))
                / py_float FATOR_CONVERSAO_CENTS_LB_PARA_TON) / cambio)],
        errors_b64 = []\<rparr>)"
  by (simp add: calc_etanol_hidratado_mercado_interno_b64_def
      calc_etanol_hidratado_mercado_interno_b64_try_def run_b64)




section \<open>The claims\<close>

text \<open>
  C1. When the globals mapping holds an exchange rate \<^verbatim>\<open>cambio_brl_usd\<close> that is zero or
  negative, each of the nine calculators returns at once: the errors list is exactly the
  one message \<^verbatim>\<open>"C\<close>U+00E2\<^verbatim>\<open>mbio deve ser maior que zero"\<close> and the values mapping is empty,
  whatever the inputs mapping holds.
\<close>

theorem exchange_rate_not_positive_short_circuits:
  assumes "globais ''cambio_brl_usd'' = Some c" and "c \<le> 0"
  shows "calc_acucar_vhp_detalhado inputs globais = \<lparr>values = [], errors = [msg_cambio]\<rparr>
       \<and> calc_acucar_cristal_esalq inputs globais = \<lparr>values = [], errors = [msg_cambio]\<rparr>
       \<and> calc_paridade_comercializacao_mi_ny inputs globais = \<lparr>values = [], errors = [msg_cambio]\<rparr>
       \<and> calc_acucar_cristal_exportacao inputs globais = \<lparr>values = [], errors = [msg_cambio]\<rparr>
       \<and> calc_acucar_cristal_exportacao_malha30 inputs globais = \<lparr>values = [], errors = [msg_cambio]\<rparr>
       \<and> calc_etanol_anidro_exportacao inputs globais = \<lparr>values = [], errors = [msg_cambio]\<rparr>
       \<and> calc_etanol_hidratado_exportacao inputs globais = \<lparr>values = [], errors = [msg_cambio]\<rparr>
       \<and> calc_etanol_anidro_mercado_interno inputs globais = \<lparr>values = [], errors = [msg_cambio]\<rparr>
       \<and> calc_etanol_hidratado_mercado_interno inputs globais = \<lparr>values = [], errors = [msg_cambio]\<rparr>"
proof -
  from assms have le: "dict_get globais ''cambio_brl_usd'' 1 \<le> 0"
    by (simp add: dict_get_Some)
  show ?thesis
    unfolding calc_acucar_vhp_detalhado_def calc_acucar_cristal_esalq_def
      calc_paridade_comercializacao_mi_ny_def calc_acucar_cristal_exportacao_def
      calc_acucar_cristal_exportacao_malha30_def calc_etanol_anidro_exportacao_def
      calc_etanol_hidratado_exportacao_def calc_etanol_anidro_mercado_interno_def
      calc_etanol_hidratado_mercado_interno_def
    by (simp only: vhp_invalid [OF le] esalq_invalid [OF le] mi_ny_invalid [OF le]
        exportacao_invalid [OF le] malha30_invalid [OF le] anidro_exp_invalid [OF le]
        hidratado_exp_invalid [OF le] anidro_mi_invalid [OF le] hidratado_mi_invalid [OF le]
        try_except_Inr simp_thms)
qed

theorem exchange_rate_not_positive_short_circuits_witness:
  "[''cambio_brl_usd'' \<mapsto> (0::real)] ''cambio_brl_usd'' = Some 0 \<and> (0::real) \<le> 0
   \<and> calc_acucar_vhp_detalhado [''acucar_ny_cents_lb'' \<mapsto> 15.8] [''cambio_brl_usd'' \<mapsto> 0]
        = \<lparr>values = [], errors = [msg_cambio]\<rparr>
   \<and> calc_etanol_hidratado_mercado_interno [''acucar_ny_cents_lb'' \<mapsto> 15.8]
        [''cambio_brl_usd'' \<mapsto> 0] = \<lparr>values = [], errors = [msg_cambio]\<rparr>"
  using exchange_rate_not_positive_short_circuits
          [of "[''cambio_brl_usd'' \<mapsto> 0]" 0 "[''acucar_ny_cents_lb'' \<mapsto> 15.8]"]
  by simp

text \<open>
  C2. On the success path (effective exchange rate above zero) of
  \<^verbatim>\<open>calc_acucar_vhp_detalhado\<close>, the values mapping holds one and the same number under
  \<^verbatim>\<open>'equivalente_vhp_cents_lb_fob'\<close> (step 4) and under
  \<^verbatim>\<open>'sugar_ny_mais_pol_cents_lb'\<close> (step 1): step 4 stores the value of step 1 unchanged.
\<close>

theorem vhp_fob_equals_sugar_ny_mais_pol:
  assumes "0 < dict_get globais ''cambio_brl_usd'' 1"
  shows "\<exists>x. dict_lookup (values (calc_acucar_vhp_detalhado inputs globais))
                 ''sugar_ny_mais_pol_cents_lb'' = Some (Num x)
           \<and> dict_lookup (values (calc_acucar_vhp_detalhado inputs globais))
                 ''equivalente_vhp_cents_lb_fob'' = Some (Num x)"
  using assms
  by (simp add: calc_acucar_vhp_detalhado_def vhp_valid try_except_Inr Let_def dict_lookup_def)

theorem vhp_fob_equals_sugar_ny_mais_pol_witness:
  "0 < dict_get [''cambio_brl_usd'' \<mapsto> 5.35] ''cambio_brl_usd'' 1
   \<and> (\<exists>x. dict_lookup (values (calc_acucar_vhp_detalhado
               [''acucar_ny_cents_lb'' \<mapsto> 15.8, ''premio_desconto'' \<mapsto> - 0.1,
                ''premio_pol'' \<mapsto> 4.2, ''custo_terminal_usd_ton'' \<mapsto> 12.5,
                ''frete_brl_ton'' \<mapsto> 202]
               [''cambio_brl_usd'' \<mapsto> 5.35])) ''sugar_ny_mais_pol_cents_lb'' = Some (Num x)
          \<and> dict_lookup (values (calc_acucar_vhp_detalhado
               [''acucar_ny_cents_lb'' \<mapsto> 15.8, ''premio_desconto'' \<mapsto> - 0.1,
                ''premio_pol'' \<mapsto> 4.2, ''custo_terminal_usd_ton'' \<mapsto> 12.5,
                ''frete_brl_ton'' \<mapsto> 202]
               [''cambio_brl_usd'' \<mapsto> 5.35])) ''equivalente_vhp_cents_lb_fob''
              = Some (Num x))"
proof -
  have pos: "0 < dict_get [''cambio_brl_usd'' \<mapsto> 5.35] ''cambio_brl_usd'' 1"
    by (simp add: dict_get_def)
  from pos vhp_fob_equals_sugar_ny_mais_pol [OF pos] show ?thesis
    by blast
qed



text \<open>
  C4. For an exchange rate above zero, \<^verbatim>\<open>calc_acucar_cristal_esalq\<close> returns, in this
  order: the ESALQ price net of the normalised tax (a tax above 1 is divided by 100); that
  value minus the VHP-to-crystal cost; the VHP per-pound ex-mill value
  \<open>(vhp_saca * 20 / 22.0462) / cambio\<close>; the VHP per-pound FOB value with freight and the
  terminal cost (times the exchange rate) added before the conversion; the crystal per-pound
  ex-mill value less the fixed adjustment \<open>15 / 22.0462 / cambio\<close>; and the crystal
  per-pound FOB value, the only one divided by \<open>22.04622\<close> instead of \<open>22.0462\<close>.
\<close>

theorem esalq_formula_chain:
  assumes "0 < dict_get globais ''cambio_brl_usd'' 1"
  shows "calc_acucar_cristal_esalq inputs globais =
    (let preco_esalq_brl_saca = dict_get inputs ''preco_esalq_brl_saca'' 0;
         imposto = dict_get inputs ''imposto'' 0;
         frete_santos_usina_brl_ton = dict_get inputs ''frete_santos_usina_brl_ton'' 0;
         custo_fobizacao_container_brl_ton =
           dict_get inputs ''custo_fobizacao_container_brl_ton'' 0;
         custo_vhp_para_cristal = dict_get inputs ''custo_vhp_para_cristal'' 0;
         cambio = dict_get globais ''cambio_brl_usd'' 1;
         custo_terminal_usd_ton = dict_get globais ''custo_terminal_usd_ton'' 0;
         imposto_normalizado = (if imposto > 1 then imposto / 100 else imposto);
         cristal_saca = preco_esalq_brl_saca * (1 - imposto_normalizado);
         vhp_saca = cristal_saca - custo_vhp_para_cristal
     in \<lparr>values = [
          (''equivalente_cristal_reais_saca_pvu'', Num cristal_saca),
          (''equivalente_vhp_reais_saca_pvu'', Num vhp_saca),
          (''equivalente_vhp_cents_lb_pvu'', Num ((vhp_saca * 20 / 22.0462) / cambio)),
          (''equivalente_vhp_cents_lb_fob'',
             Num (((vhp_saca * 20 + frete_santos_usina_brl_ton
                     + custo_terminal_usd_ton * cambio) / 22.0462) / cambio)),
          (''equivalente_cristal_cents_lb_pvu'',
             Num ((cristal_saca * 20 / 22.0462) / cambio - 15 / 22.0462 / cambio)),
          (''equivalente_cristal_cents_lb_fob'',
             Num (((cristal_saca * 20 + frete_santos_usina_brl_ton
                      + custo_fobizacao_container_brl_ton) / 22.04622) / cambio))],
        errors = []\<rparr>)"
proof -
  note v = esalq_valid [OF assms, of inputs, unfolded consts_defs Let_def]
  show ?thesis
    unfolding calc_acucar_cristal_esalq_def v try_except_Inr Let_def ..
qed

theorem esalq_formula_chain_witness:
  "0 < dict_get [''cambio_brl_usd'' \<mapsto> 5.35, ''custo_terminal_usd_ton'' \<mapsto> 12.5] ''cambio_brl_usd'' 1
   \<and> dict_lookup (values (calc_acucar_cristal_esalq
         [''preco_esalq_brl_saca'' \<mapsto> 115.67, ''imposto'' \<mapsto> 9.85,
          ''frete_santos_usina_brl_ton'' \<mapsto> 202, ''custo_fobizacao_container_brl_ton'' \<mapsto> 198,
          ''custo_vhp_para_cristal'' \<mapsto> 9.25]
         [''cambio_brl_usd'' \<mapsto> 5.35, ''custo_terminal_usd_ton'' \<mapsto> 12.5]))
       ''equivalente_vhp_reais_saca_pvu'' = Some (Num 95.026505)"
proof -
  have pos: "0 < dict_get [''cambio_brl_usd'' \<mapsto> 5.35, ''custo_terminal_usd_ton'' \<mapsto> 12.5] ''cambio_brl_usd'' 1"
    by (simp add: dict_get_def)
  have "dict_lookup (values (calc_acucar_cristal_esalq
         [''preco_esalq_brl_saca'' \<mapsto> 115.67, ''imposto'' \<mapsto> 9.85,
          ''frete_santos_usina_brl_ton'' \<mapsto> 202, ''custo_fobizacao_container_brl_ton'' \<mapsto> 198,
          ''custo_vhp_para_cristal'' \<mapsto> 9.25]
         [''cambio_brl_usd'' \<mapsto> 5.35, ''custo_terminal_usd_ton'' \<mapsto> 12.5]))
       ''equivalente_vhp_reais_saca_pvu'' = Some (Num 95.026505)"
    unfolding esalq_formula_chain [OF pos]
    by (simp add: dict_get_def dict_lookup_def Let_def)
  with pos show ?thesis by blast
qed
















text \<open>The net CBIO value in the two domestic ethanol calculators.\<close>

lemma cbio_100_b64:
  "(py_float 100 * py_float 0.7575) * py_float 0.6 = py_float 45.449999999999996"
  by (simp add: b64_eval)

lemma anidro_mi_b64_cbio:
  assumes "\<not> dict_get_b64 globais ''cambio_brl_usd'' 1 \<le> 0"
  shows "dict_lookup_b64 (values_b64 (calc_etanol_anidro_mercado_interno_b64 inputs globais))
            ''cbio_liquido_impostos''
           = Some ((dict_get_b64 inputs ''valor_cbio_bruto'' 0 * py_float 0.7575) * py_float 0.6)"
  using assms
  by (simp add: anidro_mi_b64_valid Let_def dict_lookup_b64_def)

lemma hidratado_mi_b64_cbio:
  assumes "\<not> dict_get_b64 globais ''cambio_brl_usd'' 1 \<le> 0"
  shows "\<exists>p. dict_lookup_b64
                (values_b64 (calc_etanol_hidratado_mercado_interno_b64 inputs globais))
                ''preco_liquido_pvu'' = Some p
            \<and> dict_lookup_b64
                (values_b64 (calc_etanol_hidratado_mercado_interno_b64 inputs globais))
                ''preco_liquido_pvu_mais_cbio''
                = Some (p + ((((dict_get_b64 inputs ''valor_cbio_bruto'' 0 * py_float 0.7575)
                                 * py_float 0.6) / py_float FATOR_CBIO_FC_HIDRATADO)
                              * py_float 1000))
            \<and> dict_lookup_b64
                (values_b64 (calc_etanol_hidratado_mercado_interno_b64 inputs globais))
                ''cbio_liquido_impostos'' = None"
  using assms
  by (simp add: hidratado_mi_b64_valid Let_def dict_lookup_b64_def)

text \<open>
  C7. When the exchange-rate guard lets the calculation through, the net CBIO value of
  both domestic ethanol calculators is \<open>(valor_cbio_bruto * 0.7575) * 0.6\<close>, each product
  rounded to binary64, whatever the other parameters are. The anhydrous calculator stores
  it under \<^verbatim>\<open>'cbio_liquido_impostos'\<close>. The hydrated calculator does not store it: it adds
  \<open>(net CBIO / 749.75) * 1000\<close> to the net price, which its two stored prices show. For a
  gross value of 100 the net value is 45.449999999999996.
\<close>

theorem cbio_net_of_tax_two_stage:
  assumes "\<not> dict_get_b64 globais ''cambio_brl_usd'' 1 \<le> 0"
    and "dict_get_b64 inputs ''valor_cbio_bruto'' 0 = v"
  shows "dict_lookup_b64 (values_b64 (calc_etanol_anidro_mercado_interno_b64 inputs globais))
            ''cbio_liquido_impostos'' = Some ((v * py_float 0.7575) * py_float 0.6)
       \<and> (\<exists>p. dict_lookup_b64
                  (values_b64 (calc_etanol_hidratado_mercado_interno_b64 inputs globais))
                  ''preco_liquido_pvu'' = Some p
              \<and> dict_lookup_b64
                  (values_b64 (calc_etanol_hidratado_mercado_interno_b64 inputs globais))
                  ''preco_liquido_pvu_mais_cbio''
                  = Some (p + ((((v * py_float 0.7575) * py_float 0.6)
                                  / py_float FATOR_CBIO_FC_HIDRATADO) * py_float 1000))
              \<and> dict_lookup_b64
                  (values_b64 (calc_etanol_hidratado_mercado_interno_b64 inputs globais))
                  ''cbio_liquido_impostos'' = None)
       \<and> (v = py_float 100 \<longrightarrow>
            dict_lookup_b64
              (values_b64 (calc_etanol_anidro_mercado_interno_b64 inputs globais))
              ''cbio_liquido_impostos'' = Some (py_float 45.449999999999996))"
proof -
  have a: "dict_lookup_b64
             (values_b64 (calc_etanol_anidro_mercado_interno_b64 inputs globais))
             ''cbio_liquido_impostos'' = Some ((v * py_float 0.7575) * py_float 0.6)"
    using anidro_mi_b64_cbio [OF assms(1), of inputs] unfolding assms(2) .
  have h: "\<exists>p. dict_lookup_b64
                  (values_b64 (calc_etanol_hidratado_mercado_interno_b64 inputs globais))
                  ''preco_liquido_pvu'' = Some p
              \<and> dict_lookup_b64
                  (values_b64 (calc_etanol_hidratado_mercado_interno_b64 inputs globais))
                  ''preco_liquido_pvu_mais_cbio''
                  = Some (p + ((((v * py_float 0.7575) * py_float 0.6)
                                  / py_float FATOR_CBIO_FC_HIDRATADO) * py_float 1000))
              \<and> dict_lookup_b64
                  (values_b64 (calc_etanol_hidratado_mercado_interno_b64 inputs globais))
                  ''cbio_liquido_impostos'' = None"
    using hidratado_mi_b64_cbio [OF assms(1), of inputs] unfolding assms(2) .
  have c: "dict_lookup_b64
             (values_b64 (calc_etanol_anidro_mercado_interno_b64 inputs globais))
             ''cbio_liquido_impostos'' = Some (py_float 45.449999999999996)"
    if "v = py_float 100"
    using a unfolding that cbio_100_b64 .
  from a h c show ?thesis by blast
qed

theorem cbio_net_of_tax_two_stage_witness:
  "\<not> dict_get_b64 [''cambio_brl_usd'' \<mapsto> py_float 5.35, ''frete_brl_ton'' \<mapsto> py_float 202] ''cambio_brl_usd'' 1 \<le> 0
   \<and> dict_lookup_b64 (values_b64 (calc_etanol_anidro_mercado_interno_b64
         [''valor_cbio_bruto'' \<mapsto> py_float 100, ''preco_anidro_com_impostos_brl'' \<mapsto> py_float 3000]
         [''cambio_brl_usd'' \<mapsto> py_float 5.35, ''frete_brl_ton'' \<mapsto> py_float 202]))
       ''cbio_liquido_impostos'' = Some (py_float 45.449999999999996)"
proof -
  have g: "\<not> dict_get_b64 [''cambio_brl_usd'' \<mapsto> py_float 5.35, ''frete_brl_ton'' \<mapsto> py_float 202] ''cambio_brl_usd'' 1 \<le> 0"
    by (simp add: dict_get_b64_def b64_eval)
  have v: "dict_get_b64 [''valor_cbio_bruto'' \<mapsto> py_float 100, ''preco_anidro_com_impostos_brl'' \<mapsto> py_float 3000] ''valor_cbio_bruto'' 0 = py_float 100"
    by (simp add: dict_get_b64_def)
  from g cbio_net_of_tax_two_stage [OF g v] show ?thesis
    by blast
qed

text \<open>
  C7 (counterexample). The claim as worded fails for a gross CBIO value of 100 (exchange
  rate 5.35): the anhydrous calculator stores \<open>(100 * 0.7575) * 0.6\<close>: the first product is 75.75
  exactly and the second rounds to 45.449999999999996, the binary64 number just below
  45.45.
\<close>

theorem cbio_net_of_tax_100_is_not_45_45:
  "dict_lookup_b64 (values_b64 (calc_etanol_anidro_mercado_interno_b64
       [''valor_cbio_bruto'' \<mapsto> py_float 100, ''preco_anidro_com_impostos_brl'' \<mapsto> py_float 3000]
       [''cambio_brl_usd'' \<mapsto> py_float 5.35, ''frete_brl_ton'' \<mapsto> py_float 202]))
     ''cbio_liquido_impostos'' = Some (py_float 45.449999999999996)
   \<and> py_float 45.449999999999996 \<noteq> py_float 45.45
   \<and> dict_lookup_b64 (values_b64 (calc_etanol_anidro_mercado_interno_b64
       [''valor_cbio_bruto'' \<mapsto> py_float 100, ''preco_anidro_com_impostos_brl'' \<mapsto> py_float 3000]
       [''cambio_brl_usd'' \<mapsto> py_float 5.35, ''frete_brl_ton'' \<mapsto> py_float 202]))
     ''cbio_liquido_impostos'' \<noteq> Some (py_float 45.45)"
proof -
  have g: "\<not> dict_get_b64 [''cambio_brl_usd'' \<mapsto> py_float 5.35, ''frete_brl_ton'' \<mapsto> py_float 202] ''cambio_brl_usd'' 1 \<le> 0"
    by (simp add: dict_get_b64_def b64_eval)
  have v: "dict_get_b64 [''valor_cbio_bruto'' \<mapsto> py_float 100, ''preco_anidro_com_impostos_brl'' \<mapsto> py_float 3000] ''valor_cbio_bruto'' 0 = py_float 100"
    by (simp add: dict_get_b64_def)
  have a: "dict_lookup_b64 (values_b64 (calc_etanol_anidro_mercado_interno_b64
       [''valor_cbio_bruto'' \<mapsto> py_float 100, ''preco_anidro_com_impostos_brl'' \<mapsto> py_float 3000]
       [''cambio_brl_usd'' \<mapsto> py_float 5.35, ''frete_brl_ton'' \<mapsto> py_float 202]))
     ''cbio_liquido_impostos'' = Some (py_float 45.449999999999996)"
    unfolding anidro_mi_b64_cbio [OF g] v cbio_100_b64 ..
  have c: "py_float 45.449999999999996 \<noteq> py_float 45.45"
    by (simp add: b64_eval)
  from a c show ?thesis by simp
qed

text \<open>
  The per-bag and per-pound crystal values of the three calculators, for a finite exchange
  rate between \<open>2\<^sup>-\<^sup>2\<^sup>0\<close> and \<open>2\<^sup>2\<^sup>0\<close>.
\<close>

lemma guard_of_bounds:
  assumes "dict_get_b64 globais ''cambio_brl_usd'' 1 = Finite c" and "1 / 2 ^ 20 \<le> c"
  shows "\<not> dict_get_b64 globais ''cambio_brl_usd'' 1 \<le> 0"
proof -
  have "0 < c" using assms(2) by (simp add: less_le_trans [of 0 "1 / 2 ^ 20"])
  then show ?thesis
    by (simp add: assms(1) less_eq_b64_def zero_b64_def)
qed

lemma mi_ny_b64_round_trip:
  assumes cam: "dict_get_b64 globais ''cambio_brl_usd'' 1 = Finite c"
    and c1: "1 / 2 ^ 20 \<le> c" and c2: "c \<le> 2 ^ 20"
  shows "(\<exists>sb. dict_lookup_b64 (values_b64 (calc_paridade_comercializacao_mi_ny_b64
       inputs globais))
       ''equivalente_cristal_reais_saca_pvu'' = Some sb
          \<and> dict_lookup_b64 (values_b64 (calc_paridade_comercializacao_mi_ny_b64
       inputs globais))
       ''equivalente_cristal_cents_lb_pvu''
              = Some (((sb * py_float SACAS_POR_TON) / py_float FATOR_CONVERSAO_CENTS_LB_PARA_TON) / Finite c)
          \<and> (\<forall>s. sb = Finite s \<and> \<bar>s\<bar> \<le> 10 ^ 6 \<longrightarrow>
                (\<exists>p rt. ((sb * py_float SACAS_POR_TON) / py_float FATOR_CONVERSAO_CENTS_LB_PARA_TON) / Finite c = Finite p
                   \<and> ((Finite p * py_float FATOR_CONVERSAO_CENTS_LB_PARA_TON) / py_float SACAS_POR_TON) * Finite c = Finite rt
                   \<and> \<bar>rt - s\<bar> \<le> 1 / 10 ^ 9)))"
proof -
  note g = guard_of_bounds [OF cam c1]
  let ?sb = "((dict_get_b64 inputs ''acucar_ny_cents_lb'' 0 * py_float 22.04622
                 + dict_get_b64 inputs ''premio_fisico_mi'' 0) * Finite c)
               / py_float SACAS_POR_TON"
  have sb: "dict_lookup_b64 (values_b64 (calc_paridade_comercializacao_mi_ny_b64
       inputs globais))
       ''equivalente_cristal_reais_saca_pvu'' = Some ?sb"
    by (simp add: mi_ny_b64_valid [OF g] Let_def dict_lookup_b64_def cam)
  have pp: "dict_lookup_b64 (values_b64 (calc_paridade_comercializacao_mi_ny_b64
       inputs globais))
       ''equivalente_cristal_cents_lb_pvu''
              = Some (((?sb * py_float SACAS_POR_TON)
                         / py_float FATOR_CONVERSAO_CENTS_LB_PARA_TON) / Finite c)"
    by (simp add: mi_ny_b64_valid [OF g] Let_def dict_lookup_b64_def cam)
  have rt: "\<exists>p rt. ((Finite s * py_float SACAS_POR_TON)
                        / py_float FATOR_CONVERSAO_CENTS_LB_PARA_TON) / Finite c = Finite p
                   \<and> ((Finite p * py_float FATOR_CONVERSAO_CENTS_LB_PARA_TON)
                        / py_float SACAS_POR_TON) * Finite c = Finite rt
                   \<and> \<bar>rt - s\<bar> \<le> 1 / 10 ^ 9"
    if "\<bar>s\<bar> \<le> 10 ^ 6" for s
    unfolding py_float_SACAS py_float_FATOR
    by (rule per_bag_round_trip_err [OF that c1 c2])
  have rt': "\<forall>s. ?sb = Finite s \<and> \<bar>s\<bar> \<le> 10 ^ 6 \<longrightarrow>
                (\<exists>p rt. ((?sb * py_float SACAS_POR_TON)
                        / py_float FATOR_CONVERSAO_CENTS_LB_PARA_TON) / Finite c = Finite p
                   \<and> ((Finite p * py_float FATOR_CONVERSAO_CENTS_LB_PARA_TON)
                        / py_float SACAS_POR_TON) * Finite c = Finite rt
                   \<and> \<bar>rt - s\<bar> \<le> 1 / 10 ^ 9)"
  proof (intro allI impI, elim conjE)
    fix s
    assume e: "?sb = Finite s" and b: "\<bar>s\<bar> \<le> 10 ^ 6"
    show "\<exists>p rt. ((?sb * py_float SACAS_POR_TON)
                        / py_float FATOR_CONVERSAO_CENTS_LB_PARA_TON) / Finite c = Finite p
                   \<and> ((Finite p * py_float FATOR_CONVERSAO_CENTS_LB_PARA_TON)
                        / py_float SACAS_POR_TON) * Finite c = Finite rt
                   \<and> \<bar>rt - s\<bar> \<le> 1 / 10 ^ 9"
      unfolding e by (rule rt [OF b])
  qed
  from sb pp rt' show ?thesis by blast
qed

lemma anidro_mi_b64_per_bag:
  assumes cam: "dict_get_b64 globais ''cambio_brl_usd'' 1 = Finite c"
    and c1: "1 / 2 ^ 20 \<le> c"
  shows "(\<exists>p. dict_lookup_b64 (values_b64 (calc_etanol_anidro_mercado_interno_b64
       inputs globais))
       ''equivalente_cristal_cents_lb_pvu'' = Some p
          \<and> dict_lookup_b64 (values_b64 (calc_etanol_anidro_mercado_interno_b64
       inputs globais))
       ''equivalente_cristal_reais_saca_pvu''
              = Some (((p * py_float FATOR_CONVERSAO_CENTS_LB_PARA_TON) / py_float SACAS_POR_TON) * Finite c))"
  by (simp add: anidro_mi_b64_valid [OF guard_of_bounds [OF cam c1]] Let_def
      dict_lookup_b64_def cam)

lemma hidratado_mi_b64_per_bag:
  assumes cam: "dict_get_b64 globais ''cambio_brl_usd'' 1 = Finite c"
    and c1: "1 / 2 ^ 20 \<le> c"
  shows "(\<exists>p. dict_lookup_b64 (values_b64 (calc_etanol_hidratado_mercado_interno_b64
       inputs globais))
       ''equivalente_cristal_cents_lb_pvu'' = Some p
          \<and> dict_lookup_b64 (values_b64 (calc_etanol_hidratado_mercado_interno_b64
       inputs globais))
       ''equivalente_cristal_reais_saca_pvu''
              = Some (((p * py_float FATOR_CONVERSAO_CENTS_LB_PARA_TON) / py_float SACAS_POR_TON) * Finite c))"
  by (simp add: hidratado_mi_b64_valid [OF guard_of_bounds [OF cam c1]] Let_def
      dict_lookup_b64_def cam)

text \<open>
  C8. Let the exchange rate be a finite number \<open>c\<close> with \<open>2\<^sup>-\<^sup>2\<^sup>0 \<le> c \<le> 2\<^sup>2\<^sup>0\<close>. In
  \<^verbatim>\<open>calc_paridade_comercializacao_mi_ny\<close> the per-pound value is
  \<open>((per_bag * 20) / 22.0462) / cambio\<close>; when the per-bag value is finite and at most
  \<open>10\<^sup>6\<close> in magnitude, the per-pound value is finite and the inverse formula
  \<open>((per_pound * 22.0462) / 20) * cambio\<close> returns a finite number within \<open>10\<^sup>-\<^sup>9\<close> of
  the per-bag value (each of the six operations is rounded to binary64; the round trip is
  not exact in general). In both domestic ethanol calculators the stored per-bag value is
  \<open>((per_pound * 22.0462) / 20) * cambio\<close>, computed from the stored per-pound value by
  exactly that formula.
\<close>

theorem crystal_per_pound_round_trip_bounded:
  assumes "dict_get_b64 globais ''cambio_brl_usd'' 1 = Finite c"
    and "1 / 2 ^ 20 \<le> c" and "c \<le> 2 ^ 20"
  shows "(\<exists>sb. dict_lookup_b64 (values_b64 (calc_paridade_comercializacao_mi_ny_b64
       inputs globais))
       ''equivalente_cristal_reais_saca_pvu'' = Some sb
          \<and> dict_lookup_b64 (values_b64 (calc_paridade_comercializacao_mi_ny_b64
       inputs globais))
       ''equivalente_cristal_cents_lb_pvu''
              = Some (((sb * py_float 20) / py_float 22.0462) / Finite c)
          \<and> (\<forall>s. sb = Finite s \<and> \<bar>s\<bar> \<le> 10 ^ 6 \<longrightarrow>
                (\<exists>p rt. ((sb * py_float 20) / py_float 22.0462) / Finite c = Finite p
                   \<and> ((Finite p * py_float 22.0462) / py_float 20) * Finite c = Finite rt
                   \<and> \<bar>rt - s\<bar> \<le> 1 / 10 ^ 9)))
       \<and> (\<exists>p. dict_lookup_b64 (values_b64 (calc_etanol_anidro_mercado_interno_b64
       inputs globais))
       ''equivalente_cristal_cents_lb_pvu'' = Some p
          \<and> dict_lookup_b64 (values_b64 (calc_etanol_anidro_mercado_interno_b64
       inputs globais))
       ''equivalente_cristal_reais_saca_pvu''
              = Some (((p * py_float 22.0462) / py_float 20) * Finite c))
       \<and> (\<exists>p. dict_lookup_b64 (values_b64 (calc_etanol_hidratado_mercado_interno_b64
       inputs globais))
       ''equivalente_cristal_cents_lb_pvu'' = Some p
          \<and> dict_lookup_b64 (values_b64 (calc_etanol_hidratado_mercado_interno_b64
       inputs globais))
       ''equivalente_cristal_reais_saca_pvu''
              = Some (((p * py_float 22.0462) / py_float 20) * Finite c))"
proof -
  note a = mi_ny_b64_round_trip [OF assms, of inputs,
      unfolded SACAS_POR_TON_def FATOR_CONVERSAO_CENTS_LB_PARA_TON_def]
  note b = anidro_mi_b64_per_bag [OF assms(1,2), of inputs,
      unfolded SACAS_POR_TON_def FATOR_CONVERSAO_CENTS_LB_PARA_TON_def]
  note c = hidratado_mi_b64_per_bag [OF assms(1,2), of inputs,
      unfolded SACAS_POR_TON_def FATOR_CONVERSAO_CENTS_LB_PARA_TON_def]
  from a b c show ?thesis by blast
qed

theorem crystal_per_pound_round_trip_bounded_witness:
  "dict_get_b64 [''cambio_brl_usd'' \<mapsto> py_float 5.35] ''cambio_brl_usd'' 1 = Finite (3011782250804019 / 2 ^ 49)
   \<and> 1 / 2 ^ 20 \<le> (3011782250804019 / 2 ^ 49 :: real)
   \<and> (3011782250804019 / 2 ^ 49 :: real) \<le> 2 ^ 20
   \<and> dict_lookup_b64 (values_b64 (calc_paridade_comercializacao_mi_ny_b64
       [''acucar_ny_cents_lb'' \<mapsto> py_float 15.8] [''cambio_brl_usd'' \<mapsto> py_float 5.35]))
       ''equivalente_cristal_reais_saca_pvu'' = Some (Finite (409802711982213 / 2 ^ 42))
   \<and> (\<exists>p rt. dict_lookup_b64 (values_b64 (calc_paridade_comercializacao_mi_ny_b64
       [''acucar_ny_cents_lb'' \<mapsto> py_float 15.8] [''cambio_brl_usd'' \<mapsto> py_float 5.35]))
       ''equivalente_cristal_cents_lb_pvu'' = Some (Finite p)
         \<and> ((Finite p * py_float 22.0462) / py_float 20) * Finite (3011782250804019 / 2 ^ 49)
             = Finite rt
         \<and> \<bar>rt - 409802711982213 / 2 ^ 42\<bar> \<le> 1 / 10 ^ 9)"
proof -
  have cam: "dict_get_b64 [''cambio_brl_usd'' \<mapsto> py_float 5.35] ''cambio_brl_usd'' 1 = Finite (3011782250804019 / 2 ^ 49)"
    by (simp add: dict_get_b64_def b64_eval)
  have c1: "1 / 2 ^ 20 \<le> (3011782250804019 / 2 ^ 49 :: real)"
    and c2: "(3011782250804019 / 2 ^ 49 :: real) \<le> 2 ^ 20"
    by simp_all
  have s: "dict_lookup_b64 (values_b64 (calc_paridade_comercializacao_mi_ny_b64
       [''acucar_ny_cents_lb'' \<mapsto> py_float 15.8] [''cambio_brl_usd'' \<mapsto> py_float 5.35]))
       ''equivalente_cristal_reais_saca_pvu'' = Some (Finite (409802711982213 / 2 ^ 42))"
    unfolding mi_ny_b64_valid [OF guard_of_bounds [OF cam c1]]
    by (simp add: dict_get_b64_def dict_lookup_b64_def consts_defs b64_eval)
  have sz: "\<bar>409802711982213 / 2 ^ 42 :: real\<bar> \<le> 10 ^ 6"
    by simp
  from crystal_per_pound_round_trip_bounded [OF cam c1 c2, of "[''acucar_ny_cents_lb'' \<mapsto> py_float 15.8]"]
  obtain sb where sb: "dict_lookup_b64 (values_b64 (calc_paridade_comercializacao_mi_ny_b64
       [''acucar_ny_cents_lb'' \<mapsto> py_float 15.8] [''cambio_brl_usd'' \<mapsto> py_float 5.35]))
       ''equivalente_cristal_reais_saca_pvu'' = Some sb"
    and pp: "dict_lookup_b64 (values_b64 (calc_paridade_comercializacao_mi_ny_b64
       [''acucar_ny_cents_lb'' \<mapsto> py_float 15.8] [''cambio_brl_usd'' \<mapsto> py_float 5.35]))
       ''equivalente_cristal_cents_lb_pvu''
               = Some (((sb * py_float 20) / py_float 22.0462) / Finite (3011782250804019 / 2 ^ 49))"
    and rt: "\<forall>s. sb = Finite s \<and> \<bar>s\<bar> \<le> 10 ^ 6 \<longrightarrow>
                (\<exists>p rt. ((sb * py_float 20) / py_float 22.0462)
                            / Finite (3011782250804019 / 2 ^ 49) = Finite p
                   \<and> ((Finite p * py_float 22.0462) / py_float 20)
                        * Finite (3011782250804019 / 2 ^ 49) = Finite rt
                   \<and> \<bar>rt - s\<bar> \<le> 1 / 10 ^ 9)"
    by blast
  from s sb have sbv: "sb = Finite (409802711982213 / 2 ^ 42)" by simp
  from rt sbv sz obtain p rt' where
    "((sb * py_float 20) / py_float 22.0462) / Finite (3011782250804019 / 2 ^ 49) = Finite p"
    and "((Finite p * py_float 22.0462) / py_float 20) * Finite (3011782250804019 / 2 ^ 49)
           = Finite rt'"
    and "\<bar>rt' - 409802711982213 / 2 ^ 42\<bar> \<le> 1 / 10 ^ 9"
    by blast
  with pp cam c1 c2 s show ?thesis by metis
qed

text \<open>
  C8 (counterexample). The claim as worded fails at NY price 5000000, exchange rate 5.35,
  everything else absent.
  \<^verbatim>\<open>calc_paridade_comercializacao_mi_ny\<close> stores the per-bag value 29486819.25 and the
  per-pound value 5000004.535929095; the inverse formula
  \<open>per_pound * 22.0462 / 20 * cambio\<close> gives 29486819.250000004, which is
  \<open>2\<^sup>-\<^sup>2\<^sup>8\<close> (about \<open>3.7 * 10\<^sup>-\<^sup>9\<close>) away from the per-bag value: more than \<open>10\<^sup>-\<^sup>9\<close>.
\<close>

theorem crystal_per_pound_round_trip_exceeds_tolerance:
  "dict_lookup_b64 (values_b64 (calc_paridade_comercializacao_mi_ny_b64
       [''acucar_ny_cents_lb'' \<mapsto> py_float 5000000] [''cambio_brl_usd'' \<mapsto> py_float 5.35]))
       ''equivalente_cristal_reais_saca_pvu'' = Some (Finite 29486819.25)
   \<and> dict_lookup_b64 (values_b64 (calc_paridade_comercializacao_mi_ny_b64
       [''acucar_ny_cents_lb'' \<mapsto> py_float 5000000] [''cambio_brl_usd'' \<mapsto> py_float 5.35]))
       ''equivalente_cristal_cents_lb_pvu'' = Some (Finite (1342178497604195 / 2 ^ 28))
   \<and> ((Finite (1342178497604195 / 2 ^ 28) * py_float 22.0462) / py_float 20) * py_float 5.35
       = Finite (7915307771363329 / 2 ^ 28)
   \<and> 1 / 10 ^ 9 < \<bar>7915307771363329 / 2 ^ 28 - 29486819.25 :: real\<bar>"
proof -
  have g: "\<not> dict_get_b64 [''cambio_brl_usd'' \<mapsto> py_float 5.35] ''cambio_brl_usd'' 1 \<le> 0"
    by (simp add: dict_get_b64_def b64_eval)
  have a: "dict_lookup_b64 (values_b64 (calc_paridade_comercializacao_mi_ny_b64
       [''acucar_ny_cents_lb'' \<mapsto> py_float 5000000] [''cambio_brl_usd'' \<mapsto> py_float 5.35]))
       ''equivalente_cristal_reais_saca_pvu'' = Some (Finite 29486819.25)"
    unfolding mi_ny_b64_valid [OF g]
    by (simp add: dict_get_b64_def dict_lookup_b64_def consts_defs b64_eval)
  have b: "dict_lookup_b64 (values_b64 (calc_paridade_comercializacao_mi_ny_b64
       [''acucar_ny_cents_lb'' \<mapsto> py_float 5000000] [''cambio_brl_usd'' \<mapsto> py_float 5.35]))
       ''equivalente_cristal_cents_lb_pvu'' = Some (Finite (1342178497604195 / 2 ^ 28))"
    unfolding mi_ny_b64_valid [OF g]
    by (simp add: dict_get_b64_def dict_lookup_b64_def consts_defs b64_eval)
  have c: "((Finite (1342178497604195 / 2 ^ 28) * py_float 22.0462) / py_float 20)
             * py_float 5.35 = Finite (7915307771363329 / 2 ^ 28)"
    by (simp add: b64_eval)
  have d: "1 / 10 ^ 9 < \<bar>7915307771363329 / 2 ^ 28 - 29486819.25 :: real\<bar>"
    by simp
  from a b c d show ?thesis by blast
qed

text \<open>The errors list is decided by the exchange-rate entry alone.\<close>

lemma vhp_errors:
  "errors (calc_acucar_vhp_detalhado inputs globais) =
     (case globais ''cambio_brl_usd'' of None \<Rightarrow> [] | Some c \<Rightarrow> if c \<le> 0 then [msg_cambio] else [])"
proof (cases "dict_get globais ''cambio_brl_usd'' 1 \<le> 0")
  case True
  then show ?thesis
    by (simp add: calc_acucar_vhp_detalhado_def vhp_invalid try_except_Inr dict_get_def split: option.splits)
next
  case False
  then have pos: "0 < dict_get globais ''cambio_brl_usd'' 1" by simp
  then have "errors (calc_acucar_vhp_detalhado inputs globais) = []"
    by (simp add: calc_acucar_vhp_detalhado_def vhp_valid try_except_Inr Let_def)
  with False show ?thesis
    by (simp add: dict_get_def split: option.splits)
qed

lemma esalq_errors:
  "errors (calc_acucar_cristal_esalq inputs globais) =
     (case globais ''cambio_brl_usd'' of None \<Rightarrow> [] | Some c \<Rightarrow> if c \<le> 0 then [msg_cambio] else [])"
proof (cases "dict_get globais ''cambio_brl_usd'' 1 \<le> 0")
  case True
  then show ?thesis
    by (simp add: calc_acucar_cristal_esalq_def esalq_invalid try_except_Inr dict_get_def split: option.splits)
next
  case False
  then have pos: "0 < dict_get globais ''cambio_brl_usd'' 1" by simp
  then have "errors (calc_acucar_cristal_esalq inputs globais) = []"
    by (simp add: calc_acucar_cristal_esalq_def esalq_valid try_except_Inr Let_def)
  with False show ?thesis
    by (simp add: dict_get_def split: option.splits)
qed

lemma mi_ny_errors:
  "errors (calc_paridade_comercializacao_mi_ny inputs globais) =
     (case globais ''cambio_brl_usd'' of None \<Rightarrow> [] | Some c \<Rightarrow> if c \<le> 0 then [msg_cambio] else [])"
proof (cases "dict_get globais ''cambio_brl_usd'' 1 \<le> 0")
  case True
  then show ?thesis
    by (simp add: calc_paridade_comercializacao_mi_ny_def mi_ny_invalid try_except_Inr dict_get_def split: option.splits)
next
  case False
  then have pos: "0 < dict_get globais ''cambio_brl_usd'' 1" by simp
  then have "errors (calc_paridade_comercializacao_mi_ny inputs globais) = []"
    by (simp add: calc_paridade_comercializacao_mi_ny_def mi_ny_valid try_except_Inr Let_def)
  with False show ?thesis
    by (simp add: dict_get_def split: option.splits)
qed

lemma exportacao_errors:
  "errors (calc_acucar_cristal_exportacao inputs globais) =
     (case globais ''cambio_brl_usd'' of None \<Rightarrow> [] | Some c \<Rightarrow> if c \<le> 0 then [msg_cambio] else [])"
proof (cases "dict_get globais ''cambio_brl_usd'' 1 \<le> 0")
  case True
  then show ?thesis
    by (simp add: calc_acucar_cristal_exportacao_def exportacao_invalid try_except_Inr dict_get_def split: option.splits)
next
  case False
  then have pos: "0 < dict_get globais ''cambio_brl_usd'' 1" by simp
  then have "errors (calc_acucar_cristal_exportacao inputs globais) = []"
    by (simp add: calc_acucar_cristal_exportacao_def exportacao_valid try_except_Inr Let_def)
  with False show ?thesis
    by (simp add: dict_get_def split: option.splits)
qed

lemma malha30_errors:
  "errors (calc_acucar_cristal_exportacao_malha30 inputs globais) =
     (case globais ''cambio_brl_usd'' of None \<Rightarrow> [] | Some c \<Rightarrow> if c \<le> 0 then [msg_cambio] else [])"
proof (cases "dict_get globais ''cambio_brl_usd'' 1 \<le> 0")
  case True
  then show ?thesis
    by (simp add: calc_acucar_cristal_exportacao_malha30_def malha30_invalid try_except_Inr dict_get_def split: option.splits)
next
  case False
  then have pos: "0 < dict_get globais ''cambio_brl_usd'' 1" by simp
  then have "errors (calc_acucar_cristal_exportacao_malha30 inputs globais) = []"
    by (simp add: calc_acucar_cristal_exportacao_malha30_def malha30_valid try_except_Inr Let_def)
  with False show ?thesis
    by (simp add: dict_get_def split: option.splits)
qed

lemma anidro_exp_errors:
  "errors (calc_etanol_anidro_exportacao inputs globais) =
     (case globais ''cambio_brl_usd'' of None \<Rightarrow> [] | Some c \<Rightarrow> if c \<le> 0 then [msg_cambio] else [])"
proof (cases "dict_get globais ''cambio_brl_usd'' 1 \<le> 0")
  case True
  then show ?thesis
    by (simp add: calc_etanol_anidro_exportacao_def anidro_exp_invalid try_except_Inr dict_get_def split: option.splits)
next
  case False
  then have pos: "0 < dict_get globais ''cambio_brl_usd'' 1" by simp
  then have "errors (calc_etanol_anidro_exportacao inputs globais) = []"
    by (simp add: calc_etanol_anidro_exportacao_def anidro_exp_valid try_except_Inr Let_def)
  with False show ?thesis
    by (simp add: dict_get_def split: option.splits)
qed

lemma hidratado_exp_errors:
  "errors (calc_etanol_hidratado_exportacao inputs globais) =
     (case globais ''cambio_brl_usd'' of None \<Rightarrow> [] | Some c \<Rightarrow> if c \<le> 0 then [msg_cambio] else [])"
proof (cases "dict_get globais ''cambio_brl_usd'' 1 \<le> 0")
  case True
  then show ?thesis
    by (simp add: calc_etanol_hidratado_exportacao_def hidratado_exp_invalid try_except_Inr dict_get_def split: option.splits)
next
  case False
  then have pos: "0 < dict_get globais ''cambio_brl_usd'' 1" by simp
  then have "errors (calc_etanol_hidratado_exportacao inputs globais) = []"
    by (simp add: calc_etanol_hidratado_exportacao_def hidratado_exp_valid try_except_Inr Let_def)
  with False show ?thesis
    by (simp add: dict_get_def split: option.splits)
qed

lemma anidro_mi_errors:
  "errors (calc_etanol_anidro_mercado_interno inputs globais) =
     (case globais ''cambio_brl_usd'' of None \<Rightarrow> [] | Some c \<Rightarrow> if c \<le> 0 then [msg_cambio] else [])"
proof (cases "dict_get globais ''cambio_brl_usd'' 1 \<le> 0")
  case True
  then show ?thesis
    by (simp add: calc_etanol_anidro_mercado_interno_def anidro_mi_invalid try_except_Inr dict_get_def split: option.splits)
next
  case False
  then have pos: "0 < dict_get globais ''cambio_brl_usd'' 1" by simp
  then have "errors (calc_etanol_anidro_mercado_interno inputs globais) = []"
    by (simp add: calc_etanol_anidro_mercado_interno_def anidro_mi_valid try_except_Inr Let_def)
  with False show ?thesis
    by (simp add: dict_get_def split: option.splits)
qed

lemma hidratado_mi_errors:
  "errors (calc_etanol_hidratado_mercado_interno inputs globais) =
     (case globais ''cambio_brl_usd'' of None \<Rightarrow> [] | Some c \<Rightarrow> if c \<le> 0 then [msg_cambio] else [])"
proof (cases "dict_get globais ''cambio_brl_usd'' 1 \<le> 0")
  case True
  then show ?thesis
    by (simp add: calc_etanol_hidratado_mercado_interno_def hidratado_mi_invalid try_except_Inr dict_get_def split: option.splits)
next
  case False
  then have pos: "0 < dict_get globais ''cambio_brl_usd'' 1" by simp
  then have "errors (calc_etanol_hidratado_mercado_interno inputs globais) = []"
    by (simp add: calc_etanol_hidratado_mercado_interno_def hidratado_mi_valid try_except_Inr Let_def)
  with False show ?thesis
    by (simp add: dict_get_def split: option.splits)
qed

text \<open>The calculators on two empty dictionaries.\<close>

lemma dict_get_empty: "dict_get Map.empty k dflt = dflt"
  by (simp add: dict_get_def)

lemma vhp_empty:
  "calc_acucar_vhp_detalhado Map.empty Map.empty =
     \<lparr>values =
        [(''sugar_ny_mais_pol_cents_lb'', Num 0),
         (''equivalente_vhp_reais_saca_pvu'', Num 0),
         (''equivalente_vhp_cents_lb_pvu'', Num 0),
         (''equivalente_vhp_cents_lb_fob'', Num 0),
         (''desenvolvimento'', Dict [
            (''passo1'', vhp_passo1 0 0 0 0),
            (''passo2'', vhp_passo2 0 0 0 0 1 0 0 0 0),
            (''passo3'', vhp_passo3 0 1 0),
            (''passo4'', vhp_passo4 0 0)])],
      errors = []\<rparr>"
  by (simp add: calc_acucar_vhp_detalhado_def vhp_valid try_except_Inr Let_def dict_get_empty consts_defs)

lemma esalq_empty:
  "calc_acucar_cristal_esalq Map.empty Map.empty =
     \<lparr>values =
        [(''equivalente_cristal_reais_saca_pvu'', Num 0),
         (''equivalente_vhp_reais_saca_pvu'', Num 0),
         (''equivalente_vhp_cents_lb_pvu'', Num 0),
         (''equivalente_vhp_cents_lb_fob'', Num 0),
         (''equivalente_cristal_cents_lb_pvu'', Num (- (15 / 22.0462))),
         (''equivalente_cristal_cents_lb_fob'', Num 0)],
      errors = []\<rparr>"
  by (simp add: calc_acucar_cristal_esalq_def esalq_valid try_except_Inr Let_def dict_get_empty consts_defs)

lemma mi_ny_empty:
  "calc_paridade_comercializacao_mi_ny Map.empty Map.empty =
     \<lparr>values =
        [(''equivalente_cristal_reais_saca_pvu'', Num 0),
         (''equivalente_vhp_reais_saca_pvu'', Num 0),
         (''equivalente_vhp_cents_lb_pvu'', Num 0),
         (''equivalente_vhp_cents_lb_fob'', Num 0),
         (''equivalente_cristal_cents_lb_pvu'', Num 0),
         (''equivalente_cristal_cents_lb_fob'', Num 0)],
      errors = []\<rparr>"
  by (simp add: calc_paridade_comercializacao_mi_ny_def mi_ny_valid try_except_Inr Let_def dict_get_empty consts_defs)

lemma exportacao_empty:
  "calc_acucar_cristal_exportacao Map.empty Map.empty =
     \<lparr>values =
        [(''equivalente_cristal_reais_saca_pvu'', Num 0),
         (''equivalente_vhp_reais_saca_pvu'', Num 0),
         (''equivalente_vhp_cents_lb_pvu'', Num 0),
         (''equivalente_vhp_cents_lb_fob'', Num 0),
         (''equivalente_cristal_cents_lb_pvu'', Num 0),
         (''equivalente_cristal_cents_lb_fob'', Num 0)],
      errors = []\<rparr>"
  by (simp add: calc_acucar_cristal_exportacao_def exportacao_valid try_except_Inr Let_def dict_get_empty consts_defs)

lemma malha30_empty:
  "calc_acucar_cristal_exportacao_malha30 Map.empty Map.empty =
     \<lparr>values =
        [(''equivalente_cristal_reais_saca_pvu'', Num 0),
         (''equivalente_vhp_reais_saca_pvu'', Num 0),
         (''equivalente_vhp_cents_lb_pvu'', Num 0),
         (''equivalente_vhp_cents_lb_fob'', Num 0),
         (''equivalente_cristal_cents_lb_pvu'', Num 0),
         (''equivalente_cristal_cents_lb_fob'', Num 0)],
      errors = []\<rparr>"
  by (simp add: calc_acucar_cristal_exportacao_malha30_def malha30_valid try_except_Inr Let_def dict_get_empty consts_defs)

lemma anidro_exp_empty:
  "calc_etanol_anidro_exportacao Map.empty Map.empty =
     \<lparr>values =
        [(''preco_liquido_pvu'', Num 0),
         (''equivalente_vhp_reais_saca_pvu'', Num 0),
         (''equivalente_vhp_cents_lb_pvu'', Num 0),
         (''equivalente_vhp_cents_lb_fob'', Num 0)],
      errors = []\<rparr>"
  by (simp add: calc_etanol_anidro_exportacao_def anidro_exp_valid try_except_Inr Let_def dict_get_empty consts_defs)

lemma hidratado_exp_empty:
  "calc_etanol_hidratado_exportacao Map.empty Map.empty =
     \<lparr>values =
        [(''preco_liquido_pvu'', Num 0),
         (''equivalente_vhp_reais_saca_pvu'', Num 0),
         (''equivalente_vhp_cents_lb_pvu'', Num 0),
         (''equivalente_vhp_cents_lb_fob'', Num 0)],
      errors = []\<rparr>"
  by (simp add: calc_etanol_hidratado_exportacao_def hidratado_exp_valid try_except_Inr Let_def dict_get_empty consts_defs)

lemma anidro_mi_empty:
  "calc_etanol_anidro_mercado_interno Map.empty Map.empty =
     \<lparr>values =
        [(''preco_liquido_pvu'', Num 0),
         (''cbio_liquido_impostos'', Num 0),
         (''preco_liquido_pvu_mais_cbio'', Num 0),
         (''equivalente_hidratado'', Num 0),
         (''equivalente_vhp_reais_saca_pvu'', Num 0),
         (''equivalente_vhp_cents_lb_pvu'', Num 0),
         (''equivalente_vhp_cents_lb_fob'', Num 0),
         (''equivalente_cristal_cents_lb_pvu'', Num 0),
         (''equivalente_cristal_reais_saca_pvu'', Num 0),
         (''equivalente_cristal_cents_lb_fob'', Num 0)],
      errors = []\<rparr>"
  by (simp add: calc_etanol_anidro_mercado_interno_def anidro_mi_valid try_except_Inr Let_def dict_get_empty consts_defs)

lemma hidratado_mi_empty:
  "calc_etanol_hidratado_mercado_interno Map.empty Map.empty =
     \<lparr>values =
        [(''preco_liquido_pvu'', Num 0),
         (''preco_liquido_pvu_mais_cbio'', Num 0),
         (''equivalente_anidro'', Num 0),
         (''preco_liquido_pvu_mais_cbio_mais_credito'', Num 240),
         (''equivalente_vhp_reais_saca_pvu'', Num 0),
         (''equivalente_vhp_cents_lb_pvu'', Num 0),
         (''equivalente_vhp_cents_lb_fob'', Num 0),
         (''equivalente_cristal_cents_lb_pvu'', Num 0),
         (''equivalente_cristal_reais_saca_pvu'', Num 0),
         (''equivalente_cristal_cents_lb_fob'', Num 0)],
      errors = []\<rparr>"
  by (simp add: calc_etanol_hidratado_mercado_interno_def hidratado_mi_valid try_except_Inr Let_def dict_get_empty consts_defs)

text \<open>
  C9. A missing key never produces an error entry. Every parameter is read with a default
  (0, and 1 for the exchange rate), so the errors list of each calculator is decided by the
  exchange-rate entry alone: it is empty when the entry is missing or positive, and holds
  the validation message when the entry is present and not positive. On two empty
  dictionaries each calculator returns an empty errors list and all of its values,
  computed from the defaults.
\<close>

theorem missing_keys_never_produce_errors:
  "errors (calc_acucar_vhp_detalhado inputs globais) =
       (case globais ''cambio_brl_usd'' of None \<Rightarrow> [] | Some c \<Rightarrow> if c \<le> 0 then [msg_cambio] else [])
   \<and> errors (calc_acucar_cristal_esalq inputs globais) =
       (case globais ''cambio_brl_usd'' of None \<Rightarrow> [] | Some c \<Rightarrow> if c \<le> 0 then [msg_cambio] else [])
   \<and> errors (calc_paridade_comercializacao_mi_ny inputs globais) =
       (case globais ''cambio_brl_usd'' of None \<Rightarrow> [] | Some c \<Rightarrow> if c \<le> 0 then [msg_cambio] else [])
   \<and> errors (calc_acucar_cristal_exportacao inputs globais) =
       (case globais ''cambio_brl_usd'' of None \<Rightarrow> [] | Some c \<Rightarrow> if c \<le> 0 then [msg_cambio] else [])
   \<and> errors (calc_acucar_cristal_exportacao_malha30 inputs globais) =
       (case globais ''cambio_brl_usd'' of None \<Rightarrow> [] | Some c \<Rightarrow> if c \<le> 0 then [msg_cambio] else [])
   \<and> errors (calc_etanol_anidro_exportacao inputs globais) =
       (case globais ''cambio_brl_usd'' of None \<Rightarrow> [] | Some c \<Rightarrow> if c \<le> 0 then [msg_cambio] else [])
   \<and> errors (calc_etanol_hidratado_exportacao inputs globais) =
       (case globais ''cambio_brl_usd'' of None \<Rightarrow> [] | Some c \<Rightarrow> if c \<le> 0 then [msg_cambio] else [])
   \<and> errors (calc_etanol_anidro_mercado_interno inputs globais) =
       (case globais ''cambio_brl_usd'' of None \<Rightarrow> [] | Some c \<Rightarrow> if c \<le> 0 then [msg_cambio] else [])
   \<and> errors (calc_etanol_hidratado_mercado_interno inputs globais) =
       (case globais ''cambio_brl_usd'' of None \<Rightarrow> [] | Some c \<Rightarrow> if c \<le> 0 then [msg_cambio] else [])
   \<and> calc_acucar_vhp_detalhado Map.empty Map.empty =
      \<lparr>values =
        [(''sugar_ny_mais_pol_cents_lb'', Num 0),
         (''equivalente_vhp_reais_saca_pvu'', Num 0),
         (''equivalente_vhp_cents_lb_pvu'', Num 0),
         (''equivalente_vhp_cents_lb_fob'', Num 0),
         (''desenvolvimento'', Dict [
            (''passo1'', vhp_passo1 0 0 0 0),
            (''passo2'', vhp_passo2 0 0 0 0 1 0 0 0 0),
            (''passo3'', vhp_passo3 0 1 0),
            (''passo4'', vhp_passo4 0 0)])],
       errors = []\<rparr>
   \<and> calc_acucar_cristal_esalq Map.empty Map.empty =
      \<lparr>values =
        [(''equivalente_cristal_reais_saca_pvu'', Num 0),
         (''equivalente_vhp_reais_saca_pvu'', Num 0),
         (''equivalente_vhp_cents_lb_pvu'', Num 0),
         (''equivalente_vhp_cents_lb_fob'', Num 0),
         (''equivalente_cristal_cents_lb_pvu'', Num (- (15 / 22.0462))),
         (''equivalente_cristal_cents_lb_fob'', Num 0)],
       errors = []\<rparr>
   \<and> calc_paridade_comercializacao_mi_ny Map.empty Map.empty =
      \<lparr>values =
        [(''equivalente_cristal_reais_saca_pvu'', Num 0),
         (''equivalente_vhp_reais_saca_pvu'', Num 0),
         (''equivalente_vhp_cents_lb_pvu'', Num 0),
         (''equivalente_vhp_cents_lb_fob'', Num 0),
         (''equivalente_cristal_cents_lb_pvu'', Num 0),
         (''equivalente_cristal_cents_lb_fob'', Num 0)],
       errors = []\<rparr>
   \<and> calc_acucar_cristal_exportacao Map.empty Map.empty =
      \<lparr>values =
        [(''equivalente_cristal_reais_saca_pvu'', Num 0),
         (''equivalente_vhp_reais_saca_pvu'', Num 0),
         (''equivalente_vhp_cents_lb_pvu'', Num 0),
         (''equivalente_vhp_cents_lb_fob'', Num 0),
         (''equivalente_cristal_cents_lb_pvu'', Num 0),
         (''equivalente_cristal_cents_lb_fob'', Num 0)],
       errors = []\<rparr>
   \<and> calc_acucar_cristal_exportacao_malha30 Map.empty Map.empty =
      \<lparr>values =
        [(''equivalente_cristal_reais_saca_pvu'', Num 0),
         (''equivalente_vhp_reais_saca_pvu'', Num 0),
         (''equivalente_vhp_cents_lb_pvu'', Num 0),
         (''equivalente_vhp_cents_lb_fob'', Num 0),
         (''equivalente_cristal_cents_lb_pvu'', Num 0),
         (''equivalente_cristal_cents_lb_fob'', Num 0)],
       errors = []\<rparr>
   \<and> calc_etanol_anidro_exportacao Map.empty Map.empty =
      \<lparr>values =
        [(''preco_liquido_pvu'', Num 0),
         (''equivalente_vhp_reais_saca_pvu'', Num 0),
         (''equivalente_vhp_cents_lb_pvu'', Num 0),
         (''equivalente_vhp_cents_lb_fob'', Num 0)],
       errors = []\<rparr>
   \<and> calc_etanol_hidratado_exportacao Map.empty Map.empty =
      \<lparr>values =
        [(''preco_liquido_pvu'', Num 0),
         (''equivalente_vhp_reais_saca_pvu'', Num 0),
         (''equivalente_vhp_cents_lb_pvu'', Num 0),
         (''equivalente_vhp_cents_lb_fob'', Num 0)],
       errors = []\<rparr>
   \<and> calc_etanol_anidro_mercado_interno Map.empty Map.empty =
      \<lparr>values =
        [(''preco_liquido_pvu'', Num 0),
         (''cbio_liquido_impostos'', Num 0),
         (''preco_liquido_pvu_mais_cbio'', Num 0),
         (''equivalente_hidratado'', Num 0),
         (''equivalente_vhp_reais_saca_pvu'', Num 0),
         (''equivalente_vhp_cents_lb_pvu'', Num 0),
         (''equivalente_vhp_cents_lb_fob'', Num 0),
         (''equivalente_cristal_cents_lb_pvu'', Num 0),
         (''equivalente_cristal_reais_saca_pvu'', Num 0),
         (''equivalente_cristal_cents_lb_fob'', Num 0)],
       errors = []\<rparr>
   \<and> calc_etanol_hidratado_mercado_interno Map.empty Map.empty =
      \<lparr>values =
        [(''preco_liquido_pvu'', Num 0),
         (''preco_liquido_pvu_mais_cbio'', Num 0),
         (''equivalente_anidro'', Num 0),
         (''preco_liquido_pvu_mais_cbio_mais_credito'', Num 240),
         (''equivalente_vhp_reais_saca_pvu'', Num 0),
         (''equivalente_vhp_cents_lb_pvu'', Num 0),
         (''equivalente_vhp_cents_lb_fob'', Num 0),
         (''equivalente_cristal_cents_lb_pvu'', Num 0),
         (''equivalente_cristal_reais_saca_pvu'', Num 0),
         (''equivalente_cristal_cents_lb_fob'', Num 0)],
       errors = []\<rparr>"
  by (intro conjI vhp_errors esalq_errors mi_ny_errors exportacao_errors malha30_errors anidro_exp_errors hidratado_exp_errors anidro_mi_errors hidratado_mi_errors
      vhp_empty esalq_empty mi_ny_empty exportacao_empty malha30_empty anidro_exp_empty hidratado_exp_empty anidro_mi_empty hidratado_mi_empty)

theorem missing_keys_never_produce_errors_witness:
  "errors (calc_acucar_vhp_detalhado [''acucar_ny_cents_lb'' \<mapsto> 15.8]
             [''frete_brl_ton'' \<mapsto> 202]) = []
   \<and> errors (calc_etanol_anidro_mercado_interno [''valor_cbio_bruto'' \<mapsto> 100] Map.empty) = []
   \<and> errors (calc_etanol_anidro_mercado_interno [''valor_cbio_bruto'' \<mapsto> 100]
               [''cambio_brl_usd'' \<mapsto> - 1]) = [msg_cambio]"
  using missing_keys_never_produce_errors
          [of "[''acucar_ny_cents_lb'' \<mapsto> 15.8]" "[''frete_brl_ton'' \<mapsto> 202]"]
        missing_keys_never_produce_errors [of "[''valor_cbio_bruto'' \<mapsto> 100]" Map.empty]
        missing_keys_never_produce_errors
          [of "[''valor_cbio_bruto'' \<mapsto> 100]" "[''cambio_brl_usd'' \<mapsto> - 1]"]
  by simp

lemma exportacao_cristal_fob:
  assumes "0 < dict_get globais ''cambio_brl_usd'' 1"
  shows "dict_lookup (values (calc_acucar_cristal_exportacao inputs globais)) ''equivalente_cristal_cents_lb_fob''
           = Some (Num (((dict_get inputs ''acucar_ny_cents_lb'' 0 * 22.04622)
                           + dict_get inputs ''premio_fisico_exportacao'' 0) / 22.0462))"
  using assms
  by (simp add: calc_acucar_cristal_exportacao_def exportacao_valid try_except_Inr Let_def dict_lookup_def)

lemma exportacao_other_outputs_vary:
  "list_all (\<lambda>k.
      dict_lookup (values (calc_acucar_cristal_exportacao [''acucar_ny_cents_lb'' \<mapsto> 15.8, ''premio_fisico_exportacao'' \<mapsto> 3]
          [''cambio_brl_usd'' \<mapsto> 5, ''custo_fobizacao_container_brl_ton'' \<mapsto> 198, ''frete_brl_ton'' \<mapsto> 202, ''custo_terminal_usd_ton'' \<mapsto> 12.5, ''custo_vhp_para_cristal'' \<mapsto> 9.25])) k
      \<noteq> dict_lookup (values (calc_acucar_cristal_exportacao [''acucar_ny_cents_lb'' \<mapsto> 15.8, ''premio_fisico_exportacao'' \<mapsto> 3]
          [''cambio_brl_usd'' \<mapsto> 4, ''custo_fobizacao_container_brl_ton'' \<mapsto> 198, ''frete_brl_ton'' \<mapsto> 202, ''custo_terminal_usd_ton'' \<mapsto> 12.5, ''custo_vhp_para_cristal'' \<mapsto> 9.25])) k)
     [''equivalente_cristal_reais_saca_pvu'', ''equivalente_vhp_reais_saca_pvu'',
      ''equivalente_vhp_cents_lb_pvu'', ''equivalente_vhp_cents_lb_fob'',
      ''equivalente_cristal_cents_lb_pvu'']"
  by (simp add: calc_acucar_cristal_exportacao_def exportacao_valid try_except_Inr Let_def dict_lookup_def dict_get_def consts_defs)

lemma malha30_cristal_fob:
  assumes "0 < dict_get globais ''cambio_brl_usd'' 1"
  shows "dict_lookup (values (calc_acucar_cristal_exportacao_malha30 inputs globais)) ''equivalente_cristal_cents_lb_fob''
           = Some (Num (((dict_get inputs ''acucar_ny_cents_lb'' 0 * 22.04622)
                           + dict_get inputs ''premio_fisico_exportacao_malha30'' 0) / 22.0462))"
  using assms
  by (simp add: calc_acucar_cristal_exportacao_malha30_def malha30_valid try_except_Inr Let_def dict_lookup_def)

lemma malha30_other_outputs_vary:
  "list_all (\<lambda>k.
      dict_lookup (values (calc_acucar_cristal_exportacao_malha30 [''acucar_ny_cents_lb'' \<mapsto> 15.8, ''premio_fisico_exportacao_malha30'' \<mapsto> 3]
          [''cambio_brl_usd'' \<mapsto> 5, ''custo_fobizacao_container_brl_ton'' \<mapsto> 198, ''frete_brl_ton'' \<mapsto> 202, ''custo_terminal_usd_ton'' \<mapsto> 12.5, ''custo_vhp_para_cristal'' \<mapsto> 9.25])) k
      \<noteq> dict_lookup (values (calc_acucar_cristal_exportacao_malha30 [''acucar_ny_cents_lb'' \<mapsto> 15.8, ''premio_fisico_exportacao_malha30'' \<mapsto> 3]
          [''cambio_brl_usd'' \<mapsto> 4, ''custo_fobizacao_container_brl_ton'' \<mapsto> 198, ''frete_brl_ton'' \<mapsto> 202, ''custo_terminal_usd_ton'' \<mapsto> 12.5, ''custo_vhp_para_cristal'' \<mapsto> 9.25])) k)
     [''equivalente_cristal_reais_saca_pvu'', ''equivalente_vhp_reais_saca_pvu'',
      ''equivalente_vhp_cents_lb_pvu'', ''equivalente_vhp_cents_lb_fob'',
      ''equivalente_cristal_cents_lb_pvu'']"
  by (simp add: calc_acucar_cristal_exportacao_malha30_def malha30_valid try_except_Inr Let_def dict_lookup_def dict_get_def consts_defs)

text \<open>
  C10. In \<^verbatim>\<open>calc_acucar_cristal_exportacao\<close> and
  \<^verbatim>\<open>calc_acucar_cristal_exportacao_malha30\<close> the value
  \<^verbatim>\<open>'equivalente_cristal_cents_lb_fob'\<close> is
  \<open>((acucar_ny_cents_lb * 22.04622) + premium) / 22.0462\<close>: two runs with exchange rates
  above zero that agree on the NY price and on the premium give the same value, whatever
  their exchange rates and costs are. Each of the other five outputs does change between
  two runs that differ only in the exchange rate (5 and 4, with the dashboard's default
  costs).
\<close>

theorem export_cristal_fob_depends_only_on_ny_and_premium:
  assumes "0 < dict_get globais ''cambio_brl_usd'' 1"
    and "0 < dict_get globais' ''cambio_brl_usd'' 1"
    and "dict_get inputs ''acucar_ny_cents_lb'' 0 = dict_get inputs' ''acucar_ny_cents_lb'' 0"
    and "dict_get inputs ''premio_fisico_exportacao'' 0
           = dict_get inputs' ''premio_fisico_exportacao'' 0"
    and "dict_get inputs ''premio_fisico_exportacao_malha30'' 0
           = dict_get inputs' ''premio_fisico_exportacao_malha30'' 0"
  shows "dict_lookup (values (calc_acucar_cristal_exportacao inputs globais))
            ''equivalente_cristal_cents_lb_fob''
           = Some (Num (((dict_get inputs ''acucar_ny_cents_lb'' 0 * 22.04622)
                           + dict_get inputs ''premio_fisico_exportacao'' 0) / 22.0462))
       \<and> dict_lookup (values (calc_acucar_cristal_exportacao inputs globais))
            ''equivalente_cristal_cents_lb_fob''
           = dict_lookup (values (calc_acucar_cristal_exportacao inputs' globais'))
            ''equivalente_cristal_cents_lb_fob''
       \<and> dict_lookup (values (calc_acucar_cristal_exportacao_malha30 inputs globais))
            ''equivalente_cristal_cents_lb_fob''
           = Some (Num (((dict_get inputs ''acucar_ny_cents_lb'' 0 * 22.04622)
                           + dict_get inputs ''premio_fisico_exportacao_malha30'' 0) / 22.0462))
       \<and> dict_lookup (values (calc_acucar_cristal_exportacao_malha30 inputs globais))
            ''equivalente_cristal_cents_lb_fob''
           = dict_lookup (values (calc_acucar_cristal_exportacao_malha30 inputs' globais'))
            ''equivalente_cristal_cents_lb_fob''
       \<and> list_all (\<lambda>k.
          dict_lookup (values (calc_acucar_cristal_exportacao [''acucar_ny_cents_lb'' \<mapsto> 15.8, ''premio_fisico_exportacao'' \<mapsto> 3]
              [''cambio_brl_usd'' \<mapsto> 5, ''custo_fobizacao_container_brl_ton'' \<mapsto> 198, ''frete_brl_ton'' \<mapsto> 202, ''custo_terminal_usd_ton'' \<mapsto> 12.5, ''custo_vhp_para_cristal'' \<mapsto> 9.25])) k
          \<noteq> dict_lookup (values (calc_acucar_cristal_exportacao [''acucar_ny_cents_lb'' \<mapsto> 15.8, ''premio_fisico_exportacao'' \<mapsto> 3]
              [''cambio_brl_usd'' \<mapsto> 4, ''custo_fobizacao_container_brl_ton'' \<mapsto> 198, ''frete_brl_ton'' \<mapsto> 202, ''custo_terminal_usd_ton'' \<mapsto> 12.5, ''custo_vhp_para_cristal'' \<mapsto> 9.25])) k)
         [''equivalente_cristal_reais_saca_pvu'', ''equivalente_vhp_reais_saca_pvu'',
          ''equivalente_vhp_cents_lb_pvu'', ''equivalente_vhp_cents_lb_fob'',
          ''equivalente_cristal_cents_lb_pvu'']
       \<and> list_all (\<lambda>k.
          dict_lookup (values (calc_acucar_cristal_exportacao_malha30 [''acucar_ny_cents_lb'' \<mapsto> 15.8, ''premio_fisico_exportacao_malha30'' \<mapsto> 3]
              [''cambio_brl_usd'' \<mapsto> 5, ''custo_fobizacao_container_brl_ton'' \<mapsto> 198, ''frete_brl_ton'' \<mapsto> 202, ''custo_terminal_usd_ton'' \<mapsto> 12.5, ''custo_vhp_para_cristal'' \<mapsto> 9.25])) k
          \<noteq> dict_lookup (values (calc_acucar_cristal_exportacao_malha30 [''acucar_ny_cents_lb'' \<mapsto> 15.8, ''premio_fisico_exportacao_malha30'' \<mapsto> 3]
              [''cambio_brl_usd'' \<mapsto> 4, ''custo_fobizacao_container_brl_ton'' \<mapsto> 198, ''frete_brl_ton'' \<mapsto> 202, ''custo_terminal_usd_ton'' \<mapsto> 12.5, ''custo_vhp_para_cristal'' \<mapsto> 9.25])) k)
         [''equivalente_cristal_reais_saca_pvu'', ''equivalente_vhp_reais_saca_pvu'',
          ''equivalente_vhp_cents_lb_pvu'', ''equivalente_vhp_cents_lb_fob'',
          ''equivalente_cristal_cents_lb_pvu'']"
proof -
  note e = exportacao_cristal_fob [OF assms(1), of inputs]
    and e' = exportacao_cristal_fob [OF assms(2), of inputs']
    and m = malha30_cristal_fob [OF assms(1), of inputs]
    and m' = malha30_cristal_fob [OF assms(2), of inputs']
  have "dict_lookup (values (calc_acucar_cristal_exportacao inputs globais))
            ''equivalente_cristal_cents_lb_fob''
           = dict_lookup (values (calc_acucar_cristal_exportacao inputs' globais'))
            ''equivalente_cristal_cents_lb_fob''"
    unfolding e e' by (simp only: assms(3,4))
  moreover have "dict_lookup (values (calc_acucar_cristal_exportacao_malha30 inputs globais))
            ''equivalente_cristal_cents_lb_fob''
           = dict_lookup (values (calc_acucar_cristal_exportacao_malha30 inputs' globais'))
            ''equivalente_cristal_cents_lb_fob''"
    unfolding m m' by (simp only: assms(3,5))
  ultimately show ?thesis
    using e m exportacao_other_outputs_vary malha30_other_outputs_vary
    by (intro conjI)
qed

theorem export_cristal_fob_depends_only_on_ny_and_premium_witness:
  "0 < dict_get [''cambio_brl_usd'' \<mapsto> 5, ''custo_fobizacao_container_brl_ton'' \<mapsto> 198, ''frete_brl_ton'' \<mapsto> 202, ''custo_terminal_usd_ton'' \<mapsto> 12.5, ''custo_vhp_para_cristal'' \<mapsto> 9.25] ''cambio_brl_usd'' 1
   \<and> 0 < dict_get [''cambio_brl_usd'' \<mapsto> 4, ''custo_fobizacao_container_brl_ton'' \<mapsto> 198, ''frete_brl_ton'' \<mapsto> 202, ''custo_terminal_usd_ton'' \<mapsto> 12.5, ''custo_vhp_para_cristal'' \<mapsto> 9.25] ''cambio_brl_usd'' 1
   \<and> dict_lookup (values (calc_acucar_cristal_exportacao
          [''acucar_ny_cents_lb'' \<mapsto> 15.8, ''premio_fisico_exportacao'' \<mapsto> 3]
          [''cambio_brl_usd'' \<mapsto> 5, ''custo_fobizacao_container_brl_ton'' \<mapsto> 198, ''frete_brl_ton'' \<mapsto> 202, ''custo_terminal_usd_ton'' \<mapsto> 12.5, ''custo_vhp_para_cristal'' \<mapsto> 9.25])) ''equivalente_cristal_cents_lb_fob''
      = dict_lookup (values (calc_acucar_cristal_exportacao
          [''acucar_ny_cents_lb'' \<mapsto> 15.8, ''premio_fisico_exportacao'' \<mapsto> 3]
          [''cambio_brl_usd'' \<mapsto> 4, ''custo_fobizacao_container_brl_ton'' \<mapsto> 198, ''frete_brl_ton'' \<mapsto> 202, ''custo_terminal_usd_ton'' \<mapsto> 12.5, ''custo_vhp_para_cristal'' \<mapsto> 9.25])) ''equivalente_cristal_cents_lb_fob''"
proof -
  have p1: "0 < dict_get [''cambio_brl_usd'' \<mapsto> 5, ''custo_fobizacao_container_brl_ton'' \<mapsto> 198, ''frete_brl_ton'' \<mapsto> 202, ''custo_terminal_usd_ton'' \<mapsto> 12.5, ''custo_vhp_para_cristal'' \<mapsto> 9.25] ''cambio_brl_usd'' 1"
    by (simp add: dict_get_def)
  have p2: "0 < dict_get [''cambio_brl_usd'' \<mapsto> 4, ''custo_fobizacao_container_brl_ton'' \<mapsto> 198, ''frete_brl_ton'' \<mapsto> 202, ''custo_terminal_usd_ton'' \<mapsto> 12.5, ''custo_vhp_para_cristal'' \<mapsto> 9.25] ''cambio_brl_usd'' 1"
    by (simp add: dict_get_def)
  from p1 p2 export_cristal_fob_depends_only_on_ny_and_premium
      [OF p1 p2 refl refl refl,
       of "[''acucar_ny_cents_lb'' \<mapsto> 15.8, ''premio_fisico_exportacao'' \<mapsto> 3]"]
  show ?thesis
    by blast
qed

end
